theory Spec2Isabelle
  imports Complex_Main "HOL-Library.AList" "HOL-Library.Char_ord" "HOL-Library.List_Lexorder"
begin

section \<open>Python values used by the pipeline\<close>

text \<open>
  A Python \<open>dict\<close> is modelled as an association list with unique keys kept in insertion
  order: \<open>d.get(k)\<close> is \<open>map_of d k\<close> and \<open>d[k] = v\<close> is \<open>AList.update k v d\<close> (an existing
  key keeps its position, a new key goes to the end, as in Python).  Python floats are
  modelled as real numbers (idealised arithmetic: no rounding, no overflow, no NaN).
  Strings are byte strings; the source's text is taken to be ASCII.
\<close>

type_synonym ('k, 'v) dict = "('k \<times> 'v) list"

type_synonym facts = "(string, (string, real) dict) dict"

datatype error = ValueError

section \<open>agents/financial\_agent\_adk.py\<close>

text \<open>\<open>_safe_growth(curr, prev)\<close>.\<close>

definition safe_growth :: "real option \<Rightarrow> real option \<Rightarrow> real option" where
  "safe_growth cur prev =
     (case cur of
        None \<Rightarrow> None
      | Some c \<Rightarrow>
          (case prev of
             None \<Rightarrow> None
           | Some p \<Rightarrow> if p = 0 then None else Some ((c - p) / \<bar>p\<bar>)))"

text \<open>The closure \<open>_get_for_period\<close>: \<open>(facts.get(friendly_key) or {}).get(period)\<close>.\<close>

definition get_for_period :: "facts \<Rightarrow> string \<Rightarrow> string \<Rightarrow> real option" where
  "get_for_period facts friendly_key period =
     (case map_of facts friendly_key of
        None \<Rightarrow> None
      | Some per_period \<Rightarrow> map_of per_period period)"

text \<open>The EBITDA chain of the agent (an \<open>if/elif/elif/else\<close> in the source).\<close>

definition fa_ebitda :: "real option \<Rightarrow> real option \<Rightarrow> real option \<Rightarrow> real option" where
  "fa_ebitda operating_income d_and_a net_income =
     (if operating_income \<noteq> None \<and> d_and_a \<noteq> None
        then Some (the operating_income + the d_and_a)
      else if operating_income \<noteq> None
        then operating_income
      else if d_and_a \<noteq> None \<and> net_income \<noteq> None
        then Some (the net_income + the d_and_a)
      else net_income)"

definition fa_fcf :: "real option \<Rightarrow> real option \<Rightarrow> real option" where
  "fa_fcf ocf capex =
     (if ocf \<noteq> None \<and> capex \<noteq> None then Some (the ocf - the capex) else None)"

text \<open>
  A margin of the agent: computed only inside \<open>if revenue and revenue != 0\<close>, and there
  only when the numerator is not \<open>None\<close>; otherwise it keeps its initial \<open>None\<close>.
\<close>

definition fa_margin :: "real option \<Rightarrow> real option \<Rightarrow> real option" where
  "fa_margin numerator revenue =
     (if revenue \<noteq> None \<and> the revenue \<noteq> 0
        then (if numerator \<noteq> None then Some (the numerator / the revenue) else None)
      else None)"

type_synonym metrics = "(string, real option) dict"

text \<open>The eleven keys of the \<open>metrics\<close> dict literal built for one period.\<close>

definition fa_base_metrics :: "facts \<Rightarrow> string \<Rightarrow> metrics" where
  "fa_base_metrics facts period =
     (let revenue = get_for_period facts ''revenue'' period;
          net_income = get_for_period facts ''net_income'' period;
          ocf = get_for_period facts ''operating_cash_flow'' period;
          capex = get_for_period facts ''capital_expenditures'' period;
          operating_income = get_for_period facts ''operating_income'' period;
          d_and_a = get_for_period facts ''depreciation_amortization'' period;
          ebitda = fa_ebitda operating_income d_and_a net_income;
          fcf = fa_fcf ocf capex
      in [(''revenue'', revenue),
          (''net_income'', net_income),
          (''operating_cash_flow'', ocf),
          (''capital_expenditures'', capex),
          (''operating_income'', operating_income),
          (''depreciation_amortization'', d_and_a),
          (''ebitda'', ebitda),
          (''ebitda_margin'', fa_margin ebitda revenue),
          (''net_margin'', fa_margin net_income revenue),
          (''fcf'', fcf),
          (''fcf_margin'', fa_margin fcf revenue)])"

text \<open>\<open>d.get(k)\<close> on a dict whose values may be \<open>None\<close>: a missing key reads as \<open>None\<close>.\<close>

definition mget :: "metrics \<Rightarrow> string \<Rightarrow> real option" where
  "mget m k = (case map_of m k of None \<Rightarrow> None | Some v \<Rightarrow> v)"

text \<open>
  The four growth keys, written only when \<open>prev_period is not None\<close>;
  \<open>prev_metrics = financial_metrics.get(prev_period, {})\<close>.
\<close>

definition fa_growth_metrics ::
  "(string, metrics) dict \<Rightarrow> string option \<Rightarrow> metrics \<Rightarrow> metrics" where
  "fa_growth_metrics financial_metrics prev_period m =
     (case prev_period of
        None \<Rightarrow> m
      | Some pp \<Rightarrow>
          (let prev_metrics = (case map_of financial_metrics pp of None \<Rightarrow> [] | Some pm \<Rightarrow> pm)
           in AList.update ''ebitda_growth''
                (safe_growth (mget m ''ebitda'') (mget prev_metrics ''ebitda''))
             (AList.update ''fcf_growth''
                (safe_growth (mget m ''fcf'') (mget prev_metrics ''fcf''))
             (AList.update ''net_income_growth''
                (safe_growth (mget m ''net_income'') (mget prev_metrics ''net_income''))
             (AList.update ''revenue_growth''
                (safe_growth (mget m ''revenue'') (mget prev_metrics ''revenue'')) m)))))"

text \<open>One iteration of \<open>for period in periods\<close>; the state is \<open>(financial_metrics, prev_period)\<close>.\<close>

definition fa_step ::
  "facts \<Rightarrow> string \<Rightarrow> (string, metrics) dict \<times> string option
     \<Rightarrow> (string, metrics) dict \<times> string option" where
  "fa_step facts period st =
     (let financial_metrics = fst st;
          prev_period = snd st;
          m = fa_growth_metrics financial_metrics prev_period (fa_base_metrics facts period)
      in (AList.update period m financial_metrics, Some period))"

text \<open>
  \<open>FinancialAgent._run_async_impl\<close>: \<open>facts\<close> is \<open>state.get("financials_raw") or {}\<close> and
  \<open>periods\<close> is \<open>state.get("available_periods") or []\<close>.  The result is the raised
  \<open>ValueError\<close>, or \<open>financial_metrics\<close> together with \<open>key_period = periods[-1]\<close>.
\<close>

definition FinancialAgent_run ::
  "facts \<Rightarrow> string list \<Rightarrow> error + ((string, metrics) dict \<times> string)" where
  "FinancialAgent_run facts periods =
     (if periods = [] then Inl ValueError
      else Inr (fst (fold (fa_step facts) periods ([], None)), last periods))"

section \<open>tools/financial\_calcs.py\<close>

text \<open>\<open>safe_div\<close>: the guard returns \<open>0.0\<close> for a zero denominator.\<close>

definition safe_div :: "real \<Rightarrow> real \<Rightarrow> real" where
  "safe_div a b = (if b = 0 then 0 else a / b)"

definition get_value :: "facts \<Rightarrow> string \<Rightarrow> string \<Rightarrow> real option" where
  "get_value facts metric period =
     (case map_of facts metric of
        None \<Rightarrow> None
      | Some metric_map \<Rightarrow> map_of metric_map period)"

fun get_any_value :: "facts \<Rightarrow> string list \<Rightarrow> string \<Rightarrow> real option" where
  "get_any_value facts [] period = None"
| "get_any_value facts (name # names) period =
     (case get_value facts name period of
        Some val \<Rightarrow> Some val
      | None \<Rightarrow> get_any_value facts names period)"

text \<open>\<open>ebitda_val = net_income; if x is not None: ebitda_val += x\<close>.\<close>

definition add_if_present :: "real \<Rightarrow> real option \<Rightarrow> real" where
  "add_if_present acc x = (case x of None \<Rightarrow> acc | Some y \<Rightarrow> acc + y)"

text \<open>
  \<open>_compute_metrics_for_period\<close>: the result dict is built by successive assignments,
  each under the condition the source tests.
\<close>

definition set_if :: "bool \<Rightarrow> string \<Rightarrow> real \<Rightarrow> (string, real) dict \<Rightarrow> (string, real) dict" where
  "set_if c k v d = (if c then AList.update k v d else d)"

definition compute_metrics_for_period :: "facts \<Rightarrow> string \<Rightarrow> (string, real) dict" where
  "compute_metrics_for_period facts period =
     (let revenue = get_any_value facts [''net_sales'', ''revenue''] period;
          net_income = get_value facts ''net_income'' period;
          op_cf = get_value facts ''operating_cash_flow'' period;
          capex = get_value facts ''capital_expenditures'' period;
          cost_of_sales = get_value facts ''cost_of_sales'' period;
          operating_income = get_value facts ''operating_income'' period;
          interest = get_any_value facts
            [''interest_expense'', ''interest_and_other_expense'', ''interest_and_other''] period;
          income_tax = get_any_value facts
            [''income_tax_expense'', ''provision_for_income_taxes''] period;
          d_and_a = get_any_value facts
            [''depreciation_and_amortization'', ''depreciation_amortization''] period;
          ebitda_val = add_if_present (add_if_present (add_if_present (the net_income) interest)
                         income_tax) d_and_a;
          r0 = [];
          r1 = set_if (revenue \<noteq> None) ''revenue'' (the revenue) r0;
          r2 = set_if (net_income \<noteq> None) ''net_income'' (the net_income) r1;
          r3 = set_if (op_cf \<noteq> None) ''operating_cash_flow'' (the op_cf) r2;
          r4 = set_if (capex \<noteq> None) ''capital_expenditures'' (the capex) r3;
          gross = (revenue \<noteq> None \<and> cost_of_sales \<noteq> None);
          r5 = set_if gross ''gross_profit'' (the revenue - the cost_of_sales) r4;
          r6 = set_if gross ''gross_margin''
                 (safe_div (the revenue - the cost_of_sales) (the revenue)) r5;
          opm = (revenue \<noteq> None \<and> operating_income \<noteq> None);
          r7 = set_if opm ''operating_income'' (the operating_income) r6;
          r8 = set_if opm ''operating_margin'' (safe_div (the operating_income) (the revenue)) r7;
          r9 = set_if (net_income \<noteq> None) ''ebitda'' ebitda_val r8;
          r10 = set_if (net_income \<noteq> None \<and> revenue \<noteq> None) ''ebitda_margin''
                  (safe_div ebitda_val (the revenue)) r9;
          r11 = set_if (revenue \<noteq> None \<and> net_income \<noteq> None) ''net_margin''
                  (safe_div (the net_income) (the revenue)) r10;
          hasfcf = (op_cf \<noteq> None \<and> capex \<noteq> None);
          r12 = set_if hasfcf ''fcf'' (the op_cf - the capex) r11;
          r13 = set_if (hasfcf \<and> revenue \<noteq> None) ''fcf_margin''
                  (safe_div (the op_cf - the capex) (the revenue)) r12
      in r13)"

text \<open>\<open>per_period.get(period, {}).get(metric)\<close>.\<close>

definition pp_get :: "(string, (string, real) dict) dict \<Rightarrow> string \<Rightarrow> string \<Rightarrow> real option" where
  "pp_get per_period period metric =
     (case map_of per_period period of
        None \<Rightarrow> None
      | Some m \<Rightarrow> map_of m metric)"

text \<open>\<open>idx_by_period = {p: i for i, p in enumerate(sorted_periods)}\<close>.\<close>

definition idx_by_period :: "string list \<Rightarrow> (string, nat) dict" where
  "idx_by_period sorted_periods =
     fold (\<lambda>ip d. AList.update (snd ip) (fst ip) d) (enumerate 0 sorted_periods) []"

text \<open>
  One iteration of the inner loop of \<open>_compute_yoy_growth\<close>.  \<open>idx_by_period[period]\<close>
  cannot raise \<open>KeyError\<close>, because \<open>period\<close> ranges over the keys of that dict (lemma
  \<open>idx_by_period_defined\<close> below); the model leaves the map unchanged in that branch.
\<close>

definition yoy_step ::
  "(string, (string, real) dict) dict \<Rightarrow> string list \<Rightarrow> string \<Rightarrow> string
     \<Rightarrow> (string, real) dict \<Rightarrow> (string, real) dict" where
  "yoy_step per_period sorted_periods metric period growth_map =
     (case map_of (idx_by_period sorted_periods) period of
        None \<Rightarrow> growth_map
      | Some idx \<Rightarrow>
          if idx = 0 then growth_map
          else
            (let prev_period = sorted_periods ! (idx - 1);
                 current_val = pp_get per_period period metric;
                 prev_val = pp_get per_period prev_period metric
             in if current_val = None \<or> prev_val = None \<or> the prev_val = 0 then growth_map
                else AList.update period ((the current_val - the prev_val) / the prev_val)
                       growth_map))"

definition yoy_growth_map ::
  "(string, (string, real) dict) dict \<Rightarrow> string list \<Rightarrow> string \<Rightarrow> (string, real) dict" where
  "yoy_growth_map per_period sorted_periods metric =
     fold (yoy_step per_period sorted_periods metric) sorted_periods []"

definition metrics_to_track :: "(string \<times> string) list" where
  "metrics_to_track =
     [(''revenue'', ''revenue_growth''),
      (''net_income'', ''net_income_growth''),
      (''fcf'', ''fcf_growth''),
      (''ebitda'', ''ebitda_growth'')]"

definition compute_yoy_growth ::
  "(string, (string, real) dict) dict \<Rightarrow> string list \<Rightarrow> (string, (string, real) dict) dict" where
  "compute_yoy_growth per_period periods =
     (let yoy0 = map (\<lambda>mg. (snd mg, [])) metrics_to_track;
          sorted_periods = sort periods
      in fold (\<lambda>mg yoy. AList.update (snd mg)
                 (yoy_growth_map per_period sorted_periods (fst mg)) yoy)
           metrics_to_track yoy0)"

text \<open>\<open>_collect_all_periods\<close> builds a set; \<open>compute_core_metrics\<close> sorts it.\<close>

definition collect_all_periods :: "facts \<Rightarrow> string list" where
  "collect_all_periods facts = remdups (concat (map (\<lambda>kv. map fst (snd kv)) facts))"

record core_metrics =
  cm_periods :: "string list"
  cm_per_period :: "(string, (string, real) dict) dict"
  cm_yoy :: "(string, (string, real) dict) dict"

definition compute_core_metrics :: "facts \<Rightarrow> core_metrics" where
  "compute_core_metrics facts =
     (let periods = sort (collect_all_periods facts);
          per_period = fold (\<lambda>period d. AList.update period
                         (compute_metrics_for_period facts period) d) periods []
      in \<lparr>cm_periods = periods, cm_per_period = per_period,
          cm_yoy = compute_yoy_growth per_period periods\<rparr>)"

section \<open>agents/valuation\_agent\_adk.py\<close>

text \<open>
  The part of \<open>ctx.session.state\<close> the agent reads.  A field the source reads as
  \<open>state.get(k) or {}\<close> (or \<open>or []\<close>) is the dict or list itself, empty when the key is
  missing; \<open>memo_latest_metrics\<close> is \<open>memo_financials.get("latest_metrics") or {}\<close> and
  \<open>live_current_price\<close> is \<open>live_quote.get("current_price")\<close>.
\<close>

record session_state =
  available_periods :: "string list"
  key_period :: "string option"
  financial_metrics :: "(string, metrics) dict"
  memo_latest_metrics :: metrics
  live_current_price :: "real option"
  financials_raw :: facts

text \<open>
  The \<open>valuation_metrics\<close> dict.  \<open>fcf_yield_pct\<close>, the yield formatted as a string, is
  left out.
\<close>

record valuation_metrics =
  vm_current_price :: "real option"
  vm_revenue :: "real option"
  vm_shares_raw :: "real option"
  vm_shares_source :: "string option"
  vm_shares :: "real option"
  vm_market_cap :: "real option"
  vm_market_cap_millions :: "real option"
  vm_pe :: "real option"
  vm_fcf_yield :: "real option"
  vm_key_period :: "string option"

definition no_periods_metrics :: valuation_metrics where
  "no_periods_metrics =
     \<lparr>vm_current_price = None, vm_revenue = None, vm_shares_raw = None,
      vm_shares_source = None, vm_shares = None, vm_market_cap = None,
      vm_market_cap_millions = None, vm_pe = None, vm_fcf_yield = None,
      vm_key_period = None\<rparr>"

definition share_keys_order :: "string list" where
  "share_keys_order =
     [''common_shares_outstanding'', ''shares_outstanding'',
      ''weighted_avg_shares_diluted'', ''weighted_avg_shares_basic'']"

text \<open>The loop over \<open>share_keys_order\<close>, leaving at the first value that is not \<open>None\<close>.\<close>

fun find_shares :: "facts \<Rightarrow> string \<Rightarrow> string list \<Rightarrow> (real \<times> string) option" where
  "find_shares facts kp [] = None"
| "find_shares facts kp (key # keys) =
     (case get_for_period facts key kp of
        Some val \<Rightarrow> Some (val, key)
      | None \<Rightarrow> find_shares facts kp keys)"

text \<open>Python truthiness of an \<open>Optional[float]\<close>: neither \<open>None\<close> nor zero.\<close>

definition truthy :: "real option \<Rightarrow> bool" where
  "truthy x = (x \<noteq> None \<and> the x \<noteq> 0)"

text \<open>
  \<open>metrics = financial_metrics.get(key_period, {}) or {}\<close>, replaced by the memo's
  \<open>latest_metrics\<close> when it is empty.
\<close>

definition valuation_source_metrics :: "session_state \<Rightarrow> string \<Rightarrow> metrics" where
  "valuation_source_metrics st kp =
     (let m0 = (case map_of (financial_metrics st) kp of None \<Rightarrow> [] | Some m \<Rightarrow> m)
      in if m0 = [] then memo_latest_metrics st else m0)"

definition valuation_for :: "session_state \<Rightarrow> string \<Rightarrow> valuation_metrics" where
  "valuation_for st kp =
     (let m = valuation_source_metrics st kp;
          revenue = mget m ''revenue'';
          net_income = mget m ''net_income'';
          fcf = mget m ''fcf'';
          current_price = live_current_price st;
          found = find_shares (financials_raw st) kp share_keys_order;
          shares_raw = map_option fst found;
          shares_source = map_option snd found;
          shares = shares_raw;
          have_cap = (current_price \<noteq> None \<and> shares \<noteq> None);
          market_cap = (if have_cap then Some (the current_price * the shares) else None);
          pe = (if have_cap \<and> truthy net_income
                then Some (the market_cap / the net_income) else None);
          fcf_yield = (if have_cap \<and> truthy fcf \<and> truthy market_cap
                       then Some (the fcf / the market_cap) else None);
          market_cap_millions = (if market_cap \<noteq> None
                                 then Some (the market_cap / 1000000) else None)
      in \<lparr>vm_current_price = current_price, vm_revenue = revenue,
          vm_shares_raw = shares_raw, vm_shares_source = shares_source,
          vm_shares = shares, vm_market_cap = market_cap,
          vm_market_cap_millions = market_cap_millions, vm_pe = pe,
          vm_fcf_yield = fcf_yield, vm_key_period = Some kp\<rparr>)"

text \<open>
  \<open>ValuationAgent._run_async_impl\<close>.  \<open>not key_period\<close> holds for \<open>None\<close> and for the empty
  string.  With no key period and no periods the agent yields the all-\<open>None\<close> dict and
  returns; no path of the agent raises.
\<close>

definition ValuationAgent_run :: "session_state \<Rightarrow> error + valuation_metrics" where
  "ValuationAgent_run st =
     (if key_period st = None \<or> key_period st = Some []
      then (if available_periods st \<noteq> []
            then Inr (valuation_for st (last (available_periods st)))
            else Inr no_periods_metrics)
      else Inr (valuation_for st (the (key_period st))))"

text \<open>The keys of the \<open>metrics\<close> dict literal, before any growth key is added.\<close>

definition fa_base_keys :: "string list" where
  "fa_base_keys = [''revenue'', ''net_income'', ''operating_cash_flow'', ''capital_expenditures'',
     ''operating_income'', ''depreciation_amortization'', ''ebitda'', ''ebitda_margin'',
     ''net_margin'', ''fcf'', ''fcf_margin'']"

text \<open>Auxiliary, for the proofs: what one inner iteration of \<open>_compute_yoy_growth\<close> writes
  for its own period, if anything.\<close>

definition yoy_entry ::
  "(string, (string, real) dict) dict \<Rightarrow> string list \<Rightarrow> string \<Rightarrow> string \<Rightarrow> real option" where
  "yoy_entry per_period sorted_periods metric period =
     (case map_of (idx_by_period sorted_periods) period of
        None \<Rightarrow> None
      | Some idx \<Rightarrow>
          if idx = 0 then None
          else (case pp_get per_period period metric of
                  None \<Rightarrow> None
                | Some c \<Rightarrow>
                    (case pp_get per_period (sorted_periods ! (idx - 1)) metric of
                       None \<Rightarrow> None
                     | Some p \<Rightarrow> if p = 0 then None else Some ((c - p) / p))))"

text \<open>A missing optional term of a sum counts as zero.\<close>

definition or_zero :: "real option \<Rightarrow> real" where
  "or_zero x = (case x of None \<Rightarrow> 0 | Some v \<Rightarrow> v)"

text \<open>Concrete inputs used below.\<close>

definition st_empty :: session_state where
  "st_empty = \<lparr>available_periods = [], key_period = None, financial_metrics = [],
      memo_latest_metrics = [], live_current_price = None, financials_raw = []\<rparr>"

definition facts_c5 :: facts where
  "facts_c5 = [(''operating_income'', [(''P'', 10)]),
               (''depreciation_amortization'', [(''P'', 2)]),
               (''net_income'', [(''P'', 5)])]"

definition facts_c6 :: facts where
  "facts_c6 = [(''revenue'', [(''P1'', 100), (''P2'', 130)])]"

definition per_period_c6 :: "(string, (string, real) dict) dict" where
  "per_period_c6 = [(''P1'', [(''revenue'', 100)]), (''P2'', [(''revenue'', 130)])]"

text \<open>The margin keys written by \<open>_compute_metrics_for_period\<close>.\<close>

definition fc_margin_keys :: "string list" where
  "fc_margin_keys = [''gross_margin'', ''operating_margin'', ''ebitda_margin'', ''net_margin'',
     ''fcf_margin'']"

definition facts_c4 :: facts where
  "facts_c4 = [(''revenue'', [(''P'', 0)]), (''net_income'', [(''P'', 5)])]"

section \<open>agents/extraction\_agent\_adk.py: the period list\<close>

text \<open>
  Step 3 of \<open>ExtractionAgent._run_async_impl\<close>: the period keys of all metric maps of the
  fact table, collected in a set and sorted (\<open>sorted(periods) if periods else []\<close>).  The
  fact table has zero periods when this list is empty.
\<close>

definition extraction_available_periods :: "facts \<Rightarrow> string list" where
  "extraction_available_periods facts =
     sort (remdups (concat (map (\<lambda>km. map fst (snd km)) (AList.clearjunk facts))))"

text \<open>
  The \<open>available_periods\<close> key of the session state (\<open>None\<close> when the key is missing) once
  the state delta of the ExtractionAgent is applied: the delta carries the key only under
  \<open>if available_periods:\<close>, so the value the state had before stays when the list is
  empty.
\<close>

definition periods_after_extraction :: "string list option \<Rightarrow> facts \<Rightarrow> string list option" where
  "periods_after_extraction before facts =
     (if extraction_available_periods facts \<noteq> []
      then Some (extraction_available_periods facts)
      else before)"

text \<open>\<open>state.get("available_periods") or []\<close>, as both agents read the key.\<close>

definition state_periods :: "string list option \<Rightarrow> string list" where
  "state_periods v = (case v of None \<Rightarrow> [] | Some ps \<Rightarrow> ps)"

text \<open>A fact table with metrics but no period, and one with two periods.\<close>

definition facts_c7_empty :: facts where
  "facts_c7_empty = [(''revenue'', []), (''net_income'', [])]"

definition facts_c7 :: facts where
  "facts_c7 = [(''revenue'', [(''2023-12-31'', 2), (''2022-12-31'', 1)]),
               (''net_income'', [(''2023-12-31'', 3)])]"

section \<open>Python string operations\<close>

text \<open>
  Whitespace as \<open>str.strip\<close>, \<open>str.split\<close> and the regular expression class \<open>\s\<close> see it,
  restricted to ASCII: space, tab, line feed, vertical tab, form feed, carriage return and
  the four separators 0x1C to 0x1F.
\<close>

definition is_space :: "char \<Rightarrow> bool" where
  "is_space c = (c \<in> set [CHR '' '', CHR 0x09, CHR 0x0A, CHR 0x0B, CHR 0x0C, CHR 0x0D,
                            CHR 0x1C, CHR 0x1D, CHR 0x1E, CHR 0x1F])"

definition is_digit :: "char \<Rightarrow> bool" where
  "is_digit c = (c \<in> set ''0123456789'')"

definition is_upper :: "char \<Rightarrow> bool" where
  "is_upper c = (c \<in> set ''ABCDEFGHIJKLMNOPQRSTUVWXYZ'')"

definition is_lower :: "char \<Rightarrow> bool" where
  "is_lower c = (c \<in> set ''abcdefghijklmnopqrstuvwxyz'')"

definition lower_char :: "char \<Rightarrow> char" where
  "lower_char c =
     (case map_of (zip ''ABCDEFGHIJKLMNOPQRSTUVWXYZ'' ''abcdefghijklmnopqrstuvwxyz'') c of
        None \<Rightarrow> c
      | Some l \<Rightarrow> l)"

text \<open>\<open>s.lower()\<close>.\<close>

definition lower :: "string \<Rightarrow> string" where
  "lower s = map lower_char s"

text \<open>\<open>s.strip()\<close> and \<open>s.strip(chars)\<close>.\<close>

definition strip :: "string \<Rightarrow> string" where
  "strip s = rev (dropWhile is_space (rev (dropWhile is_space s)))"

definition strip_chars :: "string \<Rightarrow> string \<Rightarrow> string" where
  "strip_chars chars s =
     rev (dropWhile (\<lambda>c. c \<in> set chars) (rev (dropWhile (\<lambda>c. c \<in> set chars) s)))"

text \<open>
  \<open>int\<close> and \<open>float\<close>, given an ASCII string, skip only the whitespace of C's
  \<open>isspace\<close> at both ends: space, tab, line feed, vertical tab, form feed and carriage
  return.  A separator 0x1C to 0x1F at either end makes them raise \<open>ValueError\<close>.
\<close>

definition is_c_space :: "char \<Rightarrow> bool" where
  "is_c_space c = (c \<in> set [CHR '' '', CHR 0x09, CHR 0x0A, CHR 0x0B, CHR 0x0C, CHR 0x0D])"

definition c_strip :: "string \<Rightarrow> string" where
  "c_strip s = rev (dropWhile is_c_space (rev (dropWhile is_c_space s)))"

text \<open>\<open>s.startswith(p)\<close>, \<open>s.endswith(p)\<close> and \<open>sub in s\<close>.\<close>

fun startswith :: "string \<Rightarrow> string \<Rightarrow> bool" where
  "startswith s [] = True"
| "startswith [] (p # ps) = False"
| "startswith (c # cs) (p # ps) = (c = p \<and> startswith cs ps)"

definition endswith :: "string \<Rightarrow> string \<Rightarrow> bool" where
  "endswith s p = startswith (rev s) (rev p)"

fun contains :: "string \<Rightarrow> string \<Rightarrow> bool" where
  "contains sub [] = (sub = [])"
| "contains sub (c # cs) = (startswith (c # cs) sub \<or> contains sub cs)"

text \<open>\<open>s.replace(old, "")\<close> for a non-empty \<open>old\<close>, scanning from the left.\<close>

function remove_all :: "string \<Rightarrow> string \<Rightarrow> string" where
  "remove_all old [] = []"
| "remove_all old (c # cs) =
     (if old \<noteq> [] \<and> startswith (c # cs) old
      then remove_all old (drop (length old) (c # cs))
      else c # remove_all old cs)"
  by pat_completeness auto
termination
  by (relation "measure (\<lambda>(old, s). length s)") auto

text \<open>\<open>a or b\<close> for an optional string: \<open>None\<close> and the empty string are falsy.\<close>

definition or_str :: "string option \<Rightarrow> string \<Rightarrow> string" where
  "or_str a b = (case a of None \<Rightarrow> b | Some s \<Rightarrow> if s = [] then b else s)"

subsection \<open>Parsing numbers\<close>

definition digit_val :: "char \<Rightarrow> nat" where
  "digit_val c = of_char c - 48"

definition digits_val :: "string \<Rightarrow> nat" where
  "digits_val s = foldl (\<lambda>a c. 10 * a + digit_val c) 0 s"

text \<open>One or more digits, with single underscores allowed between digits (PEP 515).\<close>

fun digit_group :: "string \<Rightarrow> bool" where
  "digit_group [] = False"
| "digit_group [c] = is_digit c"
| "digit_group (c # d # r) =
     (is_digit c \<and> (if d = CHR ''_'' then digit_group r else digit_group (d # r)))"

definition group_val :: "string \<Rightarrow> nat" where
  "group_val s = digits_val (filter (\<lambda>c. c \<noteq> CHR ''_'') s)"

text \<open>An optional sign in front of the rest.\<close>

definition split_sign :: "string \<Rightarrow> bool \<times> string" where
  "split_sign t =
     (case t of
        [] \<Rightarrow> (False, [])
      | c # r \<Rightarrow> if c = CHR ''-'' then (True, r)
                else if c = CHR ''+'' then (False, r)
                else (False, t))"

text \<open>
  \<open>int(s)\<close> on a string, base ten: surrounding whitespace, an optional sign, a digit group.
  \<open>None\<close> stands for the \<open>ValueError\<close>.
\<close>

definition py_int :: "string \<Rightarrow> int option" where
  "py_int s =
     (let sb = split_sign (c_strip s)
      in if digit_group (snd sb)
         then Some ((if fst sb then - 1 else 1) * int (group_val (snd sb)))
         else None)"

text \<open>The text before the first character that satisfies \<open>P\<close>, and the text after it if any.\<close>

definition split_first :: "(char \<Rightarrow> bool) \<Rightarrow> string \<Rightarrow> string \<times> string option" where
  "split_first P s =
     (let a = takeWhile (\<lambda>c. \<not> P c) s; b = dropWhile (\<lambda>c. \<not> P c) s
      in (a, if b = [] then None else Some (tl b)))"

text \<open>
  \<open>float(s)\<close> on a string holding a decimal literal: surrounding whitespace, an optional
  sign, digits with an optional fraction (one side of the point may be empty), an optional
  exponent.  \<open>None\<close> stands for the \<open>ValueError\<close>.  The spellings of infinity and NaN, which
  have no real value, are not literals of this model.
\<close>

definition mantissa_val :: "string \<Rightarrow> real option" where
  "mantissa_val m =
     (let ipfp = split_first (\<lambda>c. c = CHR ''.'') m; ip = fst ipfp
      in case snd ipfp of
           None \<Rightarrow> if digit_group ip then Some (real (group_val ip)) else None
         | Some fp \<Rightarrow>
             if (ip = [] \<or> digit_group ip) \<and> (fp = [] \<or> digit_group fp) \<and> \<not> (ip = [] \<and> fp = [])
             then Some (real (group_val ip)
                        + real (group_val fp) / 10 ^ length (filter (\<lambda>c. c \<noteq> CHR ''_'') fp))
             else None)"

definition exponent_val :: "string option \<Rightarrow> int option" where
  "exponent_val e =
     (case e of
        None \<Rightarrow> Some 0
      | Some x \<Rightarrow>
          (let sb = split_sign x
           in if digit_group (snd sb)
              then Some ((if fst sb then - 1 else 1) * int (group_val (snd sb)))
              else None))"

definition py_float :: "string \<Rightarrow> real option" where
  "py_float s =
     (let sb = split_sign (c_strip s);
          me = split_first (\<lambda>c. c = CHR ''e'' \<or> c = CHR ''E'') (snd sb)
      in case mantissa_val (fst me) of
           None \<Rightarrow> None
         | Some m \<Rightarrow>
             (case exponent_val (snd me) of
                None \<Rightarrow> None
              | Some e \<Rightarrow>
                  Some ((if fst sb then - 1 else 1) * m
                        * (if e < 0 then 1 / 10 ^ nat (- e) else 10 ^ nat e))))"

section \<open>tools/adk\_pdf\_tools.py: the fact scanner\<close>

text \<open>
  An element of the parsed document as the scanner sees it: its tag name, its attributes
  (\<open>tag.get(k)\<close> is \<open>map_of (attrs t) k\<close>) and the text nodes below it in document order.
  \<open>tag.text\<close> joins the text nodes; \<open>tag.get_text(strip=True)\<close> strips each node and joins
  the non-empty ones.
\<close>

record ix_tag =
  tag_name :: string
  attrs :: "(string, string) dict"
  strings :: "string list"

definition tag_get :: "ix_tag \<Rightarrow> string \<Rightarrow> string option" where
  "tag_get t k = map_of (attrs t) k"

definition tag_text :: "ix_tag \<Rightarrow> string" where
  "tag_text t = concat (strings t)"

definition get_text_strip :: "ix_tag \<Rightarrow> string" where
  "get_text_strip t = concat (filter (\<lambda>s. s \<noteq> []) (map strip (strings t)))"

text \<open>
  \<open>_safe_parse_number\<close>.  The euro and pound signs are the byte sequences of their UTF-8
  encodings.
\<close>

definition euro_sign :: string where
  "euro_sign = [CHR 0xE2, CHR 0x82, CHR 0xAC]"

definition pound_sign :: string where
  "pound_sign = [CHR 0xC2, CHR 0xA3]"

definition safe_parse_number :: "string \<Rightarrow> real option" where
  "safe_parse_number text =
     (let t = strip text;
          is_negative = (startswith t ''('' \<and> endswith t '')'');
          t1 = strip_chars ''()'' t;
          t2 = remove_all pound_sign (remove_all euro_sign (remove_all ''$'' t1));
          t3 = strip (remove_all '','' t2)
      in case py_float t3 of
           None \<Rightarrow> None
         | Some num \<Rightarrow> Some (if is_negative then - num else num))"

text \<open>The \<open>decimals\<close> attribute: \<open>None\<close> when absent or when \<open>int\<close> raises \<open>ValueError\<close>.\<close>

definition parse_decimals :: "string option \<Rightarrow> int option" where
  "parse_decimals decimals_attr =
     (case decimals_attr of None \<Rightarrow> None | Some s \<Rightarrow> py_int s)"

text \<open>
  \<open>scale_decimals\<close> as a real number.  In the source \<open>10.0 ** abs(decimals)\<close> is a float
  power, which raises \<open>OverflowError\<close> once \<open>|decimals|\<close> reaches 309; facts with such a
  \<open>decimals\<close> are outside this model.
\<close>

definition scale_decimals :: "int option \<Rightarrow> real" where
  "scale_decimals decimals =
     (case decimals of
        None \<Rightarrow> 1
      | Some d \<Rightarrow> if d < 0 then 10 ^ nat \<bar>d\<bar>
                  else if d > 0 then 1 / 10 ^ nat d
                  else 1)"

definition unit_ref_of :: "ix_tag \<Rightarrow> string" where
  "unit_ref_of t = or_str (tag_get t ''unitref'') (or_str (tag_get t ''unitRef'') [])"

definition unit_desc_of :: "(string, string) dict \<Rightarrow> ix_tag \<Rightarrow> string" where
  "unit_desc_of unit_map t =
     lower (or_str (map_of unit_map (unit_ref_of t)) (or_str (Some (unit_ref_of t)) []))"

definition scale_unit :: "string \<Rightarrow> real" where
  "scale_unit unit_desc =
     (if contains ''thousand'' unit_desc then 1000
      else if contains ''million'' unit_desc then 1000000
      else if contains ''billion'' unit_desc then 1000000000
      else 1)"

text \<open>
  The body of the loop over the tags up to \<open>scaled_value\<close>: \<open>None\<close> when the iteration
  leaves through a \<open>continue\<close>, else the concept name, the period and the scaled value.
\<close>

definition fact_of_tag ::
  "(string, string) dict \<Rightarrow> (string, string) dict \<Rightarrow> ix_tag \<Rightarrow> (string \<times> string \<times> real) option" where
  "fact_of_tag context_period_map unit_map t =
     (let name_attr = or_str (tag_get t ''name'') []
      in if name_attr = [] then None
         else case tag_get t ''contextref'' of
           None \<Rightarrow> None
         | Some context_ref \<Rightarrow>
             if context_ref = [] then None
             else case map_of context_period_map context_ref of
               None \<Rightarrow> None
             | Some period_end \<Rightarrow>
                 if period_end = [] then None
                 else if get_text_strip t = [] then None
                 else case safe_parse_number (get_text_strip t) of
                   None \<Rightarrow> None
                 | Some number \<Rightarrow>
                     Some (name_attr, period_end,
                           number * scale_decimals (parse_decimals (tag_get t ''decimals''))
                                  * scale_unit (unit_desc_of unit_map t)))"

text \<open>\<open>raw_values_by_concept.setdefault(name_attr, {})[period_end] = scaled_value\<close>.\<close>

definition store_fact ::
  "string \<Rightarrow> string \<Rightarrow> real \<Rightarrow> (string, (string, real) dict) dict
     \<Rightarrow> (string, (string, real) dict) dict" where
  "store_fact name_attr period_end scaled_value raw =
     AList.update name_attr
       (AList.update period_end scaled_value
          (case map_of raw name_attr of None \<Rightarrow> [] | Some concept_dict \<Rightarrow> concept_dict))
       raw"

text \<open>\<open>soup.find_all\<close> with the name test of the scanner.\<close>

definition is_ix_nonfraction :: "ix_tag \<Rightarrow> bool" where
  "is_ix_nonfraction t =
     (tag_name t \<noteq> [] \<and> lower (tag_name t) \<in> set [''ix:nonfraction'', ''nonfraction''])"

definition scan_step ::
  "(string, string) dict \<Rightarrow> (string, string) dict \<Rightarrow> ix_tag
     \<Rightarrow> (string, (string, real) dict) dict \<Rightarrow> (string, (string, real) dict) dict" where
  "scan_step context_period_map unit_map t raw =
     (case fact_of_tag context_period_map unit_map t of
        None \<Rightarrow> raw
      | Some f \<Rightarrow> store_fact (fst f) (fst (snd f)) (snd (snd f)) raw)"

definition raw_values_by_concept ::
  "(string, string) dict \<Rightarrow> (string, string) dict \<Rightarrow> ix_tag list
     \<Rightarrow> (string, (string, real) dict) dict" where
  "raw_values_by_concept context_period_map unit_map soup =
     fold (scan_step context_period_map unit_map) (filter is_ix_nonfraction soup) []"

definition concept_map :: "(string \<times> string list) list" where
  "concept_map =
     [(''revenue'',
         [''us-gaap:Revenues'', ''us-gaap:SalesRevenueNet'',
          ''us-gaap:RevenueFromContractWithCustomerExcludingAssessedTax'']),
      (''total_current_assets'', [''us-gaap:AssetsCurrent'']),
      (''total_assets'', [''us-gaap:Assets'']),
      (''net_income'', [''us-gaap:NetIncomeLoss'', ''us-gaap:ProfitLoss'']),
      (''operating_cash_flow'', [''us-gaap:NetCashProvidedByUsedInOperatingActivities'']),
      (''capital_expenditures'',
         [''us-gaap:PaymentsToAcquirePropertyPlantAndEquipment'',
          ''us-gaap:CapitalExpendituresIncurredButNotYetPaid'']),
      (''operating_income'', [''us-gaap:OperatingIncomeLoss'']),
      (''depreciation_amortization'',
         [''us-gaap:DepreciationDepletionAndAmortization'',
          ''us-gaap:DepreciationAndAmortization'']),
      (''weighted_avg_shares_diluted'',
         [''us-gaap:WeightedAverageNumberOfDilutedSharesOutstanding'',
          ''us-gaap:WeightedAverageNumberOfShareOutstandingDiluted'']),
      (''weighted_avg_shares_basic'',
         [''us-gaap:WeightedAverageNumberOfSharesOutstandingBasic'']),
      (''common_shares_outstanding'',
         [''us-gaap:CommonStockSharesOutstanding'',
          ''us-gaap:EntityCommonStockSharesOutstanding'']),
      (''shares_outstanding'',
         [''us-gaap:CommonStockSharesOutstanding'',
          ''us-gaap:EntityCommonStockSharesOutstanding'',
          ''us-gaap:WeightedAverageNumberOfDilutedSharesOutstanding'',
          ''us-gaap:WeightedAverageNumberOfSharesOutstandingBasic''])]"

text \<open>
  The inner loop of the merge: the periods of one concept are written over whatever an
  earlier concept of the list has set.
\<close>

definition merge_concept ::
  "(string, (string, real) dict) dict \<Rightarrow> string \<Rightarrow> (string, real) dict \<Rightarrow> (string, real) dict" where
  "merge_concept raw concept merged =
     (case map_of raw concept of
        None \<Rightarrow> merged
      | Some period_map \<Rightarrow>
          if period_map = [] then merged
          else fold (\<lambda>pv m. AList.update (fst pv) (snd pv) m) period_map merged)"

definition merge_concepts ::
  "(string, (string, real) dict) dict \<Rightarrow> string list \<Rightarrow> (string, real) dict" where
  "merge_concepts raw concept_list = fold (merge_concept raw) concept_list []"

definition merge_step ::
  "(string, (string, real) dict) dict \<Rightarrow> string \<times> string list \<Rightarrow> facts \<Rightarrow> facts" where
  "merge_step raw entry result =
     (let merged = merge_concepts raw (snd entry)
      in if merged \<noteq> [] then AList.update (fst entry) merged result else result)"

text \<open>\<open>_extract_key_facts_from_ixbrl\<close>, with the concept table as a parameter of the merge.\<close>

definition merge_table ::
  "(string \<times> string list) list \<Rightarrow> (string, (string, real) dict) dict \<Rightarrow> facts" where
  "merge_table cmap raw = fold (merge_step raw) cmap []"

definition extract_key_facts_from_ixbrl ::
  "ix_tag list \<Rightarrow> (string, string) dict \<Rightarrow> (string, string) dict \<Rightarrow> facts" where
  "extract_key_facts_from_ixbrl soup context_period_map unit_map =
     merge_table concept_map (raw_values_by_concept context_period_map unit_map soup)"

text \<open>Reading a value out of a dict of dicts.\<close>

definition lookup2 :: "('a, ('b, 'c) dict) dict \<Rightarrow> 'a \<Rightarrow> 'b \<Rightarrow> 'c option" where
  "lookup2 d a b = (case map_of d a of None \<Rightarrow> None | Some m \<Rightarrow> map_of m b)"

text \<open>The facts the scanner accepts, in document order.\<close>

definition scanned_facts ::
  "(string, string) dict \<Rightarrow> (string, string) dict \<Rightarrow> ix_tag list \<Rightarrow> (string \<times> string \<times> real) list" where
  "scanned_facts context_period_map unit_map soup =
     List.map_filter (fact_of_tag context_period_map unit_map) (filter is_ix_nonfraction soup)"

text \<open>
  A concrete document: a revenue fact reported in millions through its \<open>decimals\<close>, a
  fact whose unit is described as thousands, and a fact with a positive \<open>decimals\<close>.
\<close>

definition tag_c1 :: ix_tag where
  "tag_c1 = \<lparr>tag_name = ''ix:nonfraction'',
      attrs = [(''name'', ''us-gaap:Revenues''), (''contextref'', ''c1''),
               (''unitref'', ''usd''), (''decimals'', ''-6'')],
      strings = [''648,125'']\<rparr>"

definition tag_c1_thousands :: ix_tag where
  "tag_c1_thousands = \<lparr>tag_name = ''ix:nonfraction'',
      attrs = [(''name'', ''us-gaap:NetIncomeLoss''), (''contextref'', ''c1''),
               (''unitref'', ''u_th'')],
      strings = [''12'']\<rparr>"

definition tag_c1_cents :: ix_tag where
  "tag_c1_cents = \<lparr>tag_name = ''ix:nonfraction'',
      attrs = [(''name'', ''us-gaap:Assets''), (''contextref'', ''c1''),
               (''unitref'', ''usd''), (''decimals'', ''2'')],
      strings = [''150'']\<rparr>"

definition soup_c1 :: "ix_tag list" where
  "soup_c1 = [tag_c1, tag_c1_thousands, tag_c1_cents]"

definition contexts_c1 :: "(string, string) dict" where
  "contexts_c1 = [(''c1'', ''2023-12-31'')]"

definition units_c1 :: "(string, string) dict" where
  "units_c1 = [(''usd'', ''iso4217:USD''), (''u_th'', ''USD Thousands'')]"

text \<open>
  The value of the last fact, in document order, reported for a concept and a period.
\<close>

definition last_value :: "(string \<times> string \<times> real) list \<Rightarrow> string \<Rightarrow> string \<Rightarrow> real option" where
  "last_value fs c p =
     (case filter (\<lambda>f. fst f = c \<and> fst (snd f) = p) fs of
        [] \<Rightarrow> None
      | x # xs \<Rightarrow> Some (snd (snd (last (x # xs)))))"

text \<open>Auxiliary, for the proofs: every inner dict has unique keys.\<close>

definition inner_distinct :: "('a, ('b, 'c) dict) dict \<Rightarrow> bool" where
  "inner_distinct raw = (\<forall>c pm. map_of raw c = Some pm \<longrightarrow> distinct (map fst pm))"

text \<open>The value of the last concept of a list that reports the period.\<close>

definition last_reporting ::
  "(string \<Rightarrow> string \<Rightarrow> real option) \<Rightarrow> string list \<Rightarrow> string \<Rightarrow> real option" where
  "last_reporting val concept_list p =
     (case filter (\<lambda>c. val c p \<noteq> None) concept_list of
        [] \<Rightarrow> None
      | x # xs \<Rightarrow> val (last (x # xs)) p)"

text \<open>An \<open>ix:nonFraction\<close> element with a name, a context reference and one text node.\<close>

definition mk_fact :: "string \<Rightarrow> string \<Rightarrow> string \<Rightarrow> ix_tag" where
  "mk_fact name_attr context_ref txt =
     \<lparr>tag_name = ''ix:nonfraction'',
      attrs = [(''name'', name_attr), (''contextref'', context_ref)],
      strings = [txt]\<rparr>"

section \<open>agents/extraction\_agent\_adk.py: the revenue reconciler\<close>

definition REVENUE_CONCEPTS :: "string list" where
  "REVENUE_CONCEPTS =
     [''us-gaap:Revenues'', ''us-gaap:RevenueFromContractWithCustomerExcludingAssessedTax'']"

text \<open>
  \<open>prev = revenue_by_period.get(period_str)\<close>, then the assignment under
  \<open>if prev is None or scaled > prev\<close>.
\<close>

definition keep_larger :: "string \<Rightarrow> real \<Rightarrow> (string, real) dict \<Rightarrow> (string, real) dict" where
  "keep_larger period_str scaled revenue_by_period =
     (case map_of revenue_by_period period_str of
        None \<Rightarrow> AList.update period_str scaled revenue_by_period
      | Some prev \<Rightarrow>
          if scaled > prev then AList.update period_str scaled revenue_by_period
          else revenue_by_period)"

text \<open>
  A context element as the direct pass reads it: its \<open>id\<close> attribute and the text of the
  first end-date or instant element inside its first period element (\<open>None\<close> when there
  is no such element).
\<close>

record ctx_tag =
  ctx_id :: "string option"
  ctx_end_text :: "string option"

definition context_step :: "ctx_tag \<Rightarrow> (string, string) dict \<Rightarrow> (string, string) dict" where
  "context_step ctx m =
     (case ctx_id ctx of
        None \<Rightarrow> m
      | Some i \<Rightarrow>
          if i = [] then m
          else case ctx_end_text ctx of
            None \<Rightarrow> m
          | Some txt \<Rightarrow>
              if txt = [] then m
              else if strip txt = [] then m
              else AList.update i (strip txt) m)"

definition context_end_by_id :: "ctx_tag list \<Rightarrow> (string, string) dict" where
  "context_end_by_id ctxs = fold context_step ctxs []"

text \<open>The parsed file: its context elements and all its elements, in document order.\<close>

record ix_document =
  doc_contexts :: "ctx_tag list"
  doc_tags :: "ix_tag list"

definition is_nonfraction_tag :: "ix_tag \<Rightarrow> bool" where
  "is_nonfraction_tag t = endswith (lower (tag_name t)) ''nonfraction''"

text \<open>
  The scaling of the direct pass: only a negative \<open>decimals\<close> scales, and a \<open>decimals\<close>
  that does not parse keeps the raw value.  \<open>10 ** (-d)\<close> is an \<open>int\<close>; from \<open>10 ** 309\<close> on
  it is too large to convert to a float, the product raises \<open>OverflowError\<close>, and the
  \<open>except Exception\<close> branch keeps the raw value.
\<close>

definition direct_scaled :: "real \<Rightarrow> string option \<Rightarrow> real" where
  "direct_scaled raw_val decimals_attr =
     (case decimals_attr of
        None \<Rightarrow> raw_val
      | Some s \<Rightarrow>
          (case py_int s of
             None \<Rightarrow> raw_val
           | Some d \<Rightarrow> if d < 0
                       then (if - d < 309 then raw_val * 10 ^ nat (- d) else raw_val)
                       else raw_val))"

text \<open>
  One iteration of the loop over the facts of the direct pass, up to \<open>scaled_val\<close>:
  \<open>None\<close> when the iteration leaves through a \<open>continue\<close>.
\<close>

definition direct_fact_of :: "(string, string) dict \<Rightarrow> ix_tag \<Rightarrow> (string \<times> real) option" where
  "direct_fact_of context_end fct =
     (let name = strip (or_str (tag_get fct ''name'') []);
          ctx_ref = or_str (tag_get fct ''contextref'') (or_str (tag_get fct ''contextRef'') []);
          raw_text = remove_all '','' (strip (tag_text fct))
      in if name \<notin> set REVENUE_CONCEPTS then None
         else if ctx_ref = [] then None
         else case map_of context_end ctx_ref of
           None \<Rightarrow> None
         | Some period_str \<Rightarrow>
             if period_str = [] then None
             else if raw_text = [] then None
             else case py_float raw_text of
               None \<Rightarrow> None
             | Some raw_val \<Rightarrow>
                 Some (period_str, direct_scaled raw_val (tag_get fct ''decimals'')))"

definition direct_step ::
  "(string, string) dict \<Rightarrow> ix_tag \<Rightarrow> (string, real) dict \<Rightarrow> (string, real) dict" where
  "direct_step context_end fct revenue_by_period =
     (case direct_fact_of context_end fct of
        None \<Rightarrow> revenue_by_period
      | Some pv \<Rightarrow> keep_larger (fst pv) (snd pv) revenue_by_period)"

text \<open>
  \<open>_extract_revenue_direct_from_file\<close>; the argument is \<open>None\<close> when the file cannot be
  read, and the function then returns the empty dict.
\<close>

definition extract_revenue_direct_from_file :: "ix_document option \<Rightarrow> (string, real) dict" where
  "extract_revenue_direct_from_file doc =
     (case doc of
        None \<Rightarrow> []
      | Some d \<Rightarrow>
          fold (direct_step (context_end_by_id (doc_contexts d)))
            (filter is_nonfraction_tag (doc_tags d)) [])"

text \<open>
  An entry of \<open>parsed["ixbrl_facts"]\<close>.  A value that may be a number or a string is
  \<open>PyNum\<close> or \<open>PyStr\<close>; the \<open>period\<close> is a dict with \<open>end\<close> and \<open>instant\<close> or a plain string;
  \<open>pf_decimals\<close> is \<open>None\<close> when the key is missing or its value is not an \<open>int\<close>.
\<close>

datatype py_num_or_str = PyNum real | PyStr string

datatype period_field = PeriodDict "string option" "string option" | PeriodStr string

record parsed_fact =
  pf_name :: "string option"
  pf_period :: "period_field option"
  pf_scaled :: "py_num_or_str option"
  pf_raw :: "py_num_or_str option"
  pf_decimals :: "int option"

definition parsed_period_str :: "parsed_fact \<Rightarrow> string" where
  "parsed_period_str fct =
     (case pf_period fct of
        None \<Rightarrow> []
      | Some (PeriodDict e i) \<Rightarrow> or_str e (or_str i [])
      | Some (PeriodStr s) \<Rightarrow> s)"

text \<open>
  \<open>scaled\<close> after the \<open>if scaled is None\<close> block and the \<open>isinstance\<close> test: \<open>None\<close> when the
  iteration leaves through a \<open>continue\<close>.  Here the \<open>OverflowError\<close> of a product with
  \<open>10 ** 309\<close> or more is caught by \<open>except Exception: continue\<close>.
\<close>

definition parsed_scaled :: "parsed_fact \<Rightarrow> real option" where
  "parsed_scaled fct =
     (case pf_scaled fct of
        Some (PyNum x) \<Rightarrow> Some x
      | Some (PyStr s) \<Rightarrow> None
      | None \<Rightarrow>
          (case pf_raw fct of
             None \<Rightarrow> None
           | Some r \<Rightarrow>
               (case (case r of PyNum x \<Rightarrow> Some x | PyStr s \<Rightarrow> py_float s) of
                  None \<Rightarrow> None
                | Some x \<Rightarrow>
                    (case pf_decimals fct of
                       None \<Rightarrow> Some x
                     | Some d \<Rightarrow> if d < 0
                                 then (if - d < 309 then Some (x * 10 ^ nat (- d)) else None)
                                 else Some x))))"

definition parsed_fact_of :: "parsed_fact \<Rightarrow> (string \<times> real) option" where
  "parsed_fact_of fct =
     (let name = strip (or_str (pf_name fct) []);
          period_str = parsed_period_str fct
      in if name \<notin> set REVENUE_CONCEPTS then None
         else if period_str = [] then None
         else case parsed_scaled fct of
           None \<Rightarrow> None
         | Some scaled \<Rightarrow> Some (period_str, scaled))"

definition parsed_step :: "parsed_fact \<Rightarrow> (string, real) dict \<Rightarrow> (string, real) dict" where
  "parsed_step fct revenue_by_period =
     (case parsed_fact_of fct of
        None \<Rightarrow> revenue_by_period
      | Some pv \<Rightarrow> keep_larger (fst pv) (snd pv) revenue_by_period)"

definition revenue_from_parsed :: "parsed_fact list \<Rightarrow> (string, real) dict" where
  "revenue_from_parsed ixbrl_facts = fold parsed_step ixbrl_facts []"

text \<open>
  \<open>_fix_revenue_from_ixbrl(doc_path, parsed, facts)\<close>: \<open>doc\<close> is the parsed file at
  \<open>doc_path\<close>, \<open>ixbrl_facts\<close> the list found in \<open>parsed\<close> (empty when there is none).  The
  function mutates \<open>facts\<close>; the model returns the new dict.
\<close>

definition fix_revenue_from_ixbrl ::
  "ix_document option \<Rightarrow> parsed_fact list \<Rightarrow> facts \<Rightarrow> facts" where
  "fix_revenue_from_ixbrl doc ixbrl_facts facts =
     (let from_parsed = (if ixbrl_facts \<noteq> [] then revenue_from_parsed ixbrl_facts else [])
      in if from_parsed \<noteq> [] then AList.update ''revenue'' from_parsed facts
         else (let revenue_by_period = extract_revenue_direct_from_file doc
               in if revenue_by_period = [] then facts
                  else AList.update ''revenue'' revenue_by_period facts))"

text \<open>
  The (period, scaled value) pairs the reconciler accepts, in order: those of the list in
  \<open>parsed\<close> when it yields any, else those of the direct pass over the file.
\<close>

definition parsed_pairs :: "parsed_fact list \<Rightarrow> (string \<times> real) list" where
  "parsed_pairs ixbrl_facts = List.map_filter parsed_fact_of ixbrl_facts"

definition direct_pairs :: "ix_document option \<Rightarrow> (string \<times> real) list" where
  "direct_pairs doc =
     (case doc of
        None \<Rightarrow> []
      | Some d \<Rightarrow>
          List.map_filter (direct_fact_of (context_end_by_id (doc_contexts d)))
            (filter is_nonfraction_tag (doc_tags d)))"

definition reconciler_pairs :: "ix_document option \<Rightarrow> parsed_fact list \<Rightarrow> (string \<times> real) list" where
  "reconciler_pairs doc ixbrl_facts =
     (if parsed_pairs ixbrl_facts \<noteq> [] then parsed_pairs ixbrl_facts else direct_pairs doc)"



text \<open>An \<open>ix:nonFraction\<close> element with further attributes.\<close>

definition mk_fact_with :: "string \<Rightarrow> string \<Rightarrow> (string \<times> string) list \<Rightarrow> string \<Rightarrow> ix_tag" where
  "mk_fact_with name_attr context_ref extra txt =
     \<lparr>tag_name = ''ix:nonfraction'',
      attrs = [(''name'', name_attr), (''contextref'', context_ref)] @ extra,
      strings = [txt]\<rparr>"

text \<open>
  A concrete file: two revenue facts for one period, in millions through \<open>decimals\<close> (one
  of them with a unit that names millions as well), a fact of another concept, and a
  revenue fact with a positive \<open>decimals\<close> for an earlier period; and a fact table to fix.
\<close>

definition doc_c3 :: ix_document where
  "doc_c3 =
     \<lparr>doc_contexts = [\<lparr>ctx_id = Some ''c1'', ctx_end_text = Some ''2023-12-31''\<rparr>,
                      \<lparr>ctx_id = Some ''c2'', ctx_end_text = Some ''2022-12-31''\<rparr>],
      doc_tags =
        [mk_fact_with ''us-gaap:Revenues'' ''c1'' [(''decimals'', ''-6'')] ''100'',
         mk_fact_with ''us-gaap:Revenues'' ''c1''
           [(''decimals'', ''-6''), (''unitref'', ''USD_Millions'')] ''120'',
         mk_fact_with ''us-gaap:NetIncomeLoss'' ''c1'' [(''decimals'', ''-6'')] ''999'',
         mk_fact_with ''us-gaap:RevenueFromContractWithCustomerExcludingAssessedTax'' ''c2''
           [(''decimals'', ''2'')] ''7'']\<rparr>"

definition facts_c3 :: facts where
  "facts_c3 = [(''revenue'', [(''2023-12-31'', 90), (''2022-12-31'', 80), (''2021-12-31'', 70)]),
               (''net_income'', [(''2023-12-31'', 7)])]"

text \<open>A file whose only revenue fact has a unit that names millions and no \<open>decimals\<close>.\<close>

definition doc_c3_unit :: ix_document where
  "doc_c3_unit =
     \<lparr>doc_contexts = [\<lparr>ctx_id = Some ''c1'', ctx_end_text = Some ''2023-12-31''\<rparr>],
      doc_tags = [mk_fact_with ''us-gaap:Revenues'' ''c1'' [(''unitref'', ''USD_Millions'')] ''5'']\<rparr>"

text \<open>
  A list of facts as \<open>parsed\<close> may carry it: a revenue fact with a raw string and a negative
  \<open>decimals\<close>, a fact of another concept, and a revenue fact that is already scaled.
\<close>

definition ixbrl_facts_c3 :: "parsed_fact list" where
  "ixbrl_facts_c3 =
     [\<lparr>pf_name = Some ''us-gaap:Revenues'',
       pf_period = Some (PeriodDict (Some ''2023-12-31'') None),
       pf_scaled = None, pf_raw = Some (PyStr ''3''), pf_decimals = Some (- 3)\<rparr>,
      \<lparr>pf_name = Some ''us-gaap:NetIncomeLoss'',
       pf_period = Some (PeriodStr ''2023-12-31''),
       pf_scaled = Some (PyNum 9999), pf_raw = None, pf_decimals = None\<rparr>,
      \<lparr>pf_name = Some ''us-gaap:Revenues'',
       pf_period = Some (PeriodStr ''2023-12-31''),
       pf_scaled = Some (PyNum 2500), pf_raw = None, pf_decimals = None\<rparr>]"

section \<open>agents/qa\_agent\_adk.py: lexical fallback ranking\<close>

text \<open>
  \<open>re.sub(r"[^a-z0-9\s]+", " ", text)\<close>: every maximal run of characters that are neither
  lower-case letters, digits nor whitespace becomes one space.
\<close>

definition keeps_char :: "char \<Rightarrow> bool" where
  "keeps_char c = (is_lower c \<or> is_digit c \<or> is_space c)"

function sub_nonword :: "string \<Rightarrow> string" where
  "sub_nonword [] = []"
| "sub_nonword (c # cs) =
     (if keeps_char c then c # sub_nonword cs
      else CHR '' '' # sub_nonword (dropWhile (\<lambda>d. \<not> keeps_char d) cs))"
  by pat_completeness auto
termination
  by (relation "measure length") (auto simp: length_dropWhile_le less_Suc_eq_le)

text \<open>\<open>text.split()\<close>: the maximal runs of characters that are not whitespace.\<close>

function py_split :: "string \<Rightarrow> string list" where
  "py_split s =
     (let t = dropWhile is_space s
      in if t = [] then []
         else takeWhile (\<lambda>c. \<not> is_space c) t # py_split (dropWhile (\<lambda>c. \<not> is_space c) t))"
  by pat_completeness auto
termination
proof (relation "measure length")
  show "wf (measure length)" by simp
next
  fix s t :: string
  assume t: "t = dropWhile is_space s" and ne: "t \<noteq> []"
  from ne obtain c cs where cons: "t = c # cs" by (cases t) auto
  have "dropWhile is_space s \<noteq> []" using t ne by simp
  then have "\<not> is_space (hd (dropWhile is_space s))" by (rule hd_dropWhile)
  moreover have "hd (dropWhile is_space s) = c" using t cons by (metis list.sel(1))
  ultimately have "\<not> is_space c" by simp
  then have "length (dropWhile (\<lambda>c. \<not> is_space c) t) \<le> length cs"
    using cons by (simp add: length_dropWhile_le)
  moreover have "length t \<le> length s" using t by (simp add: length_dropWhile_le)
  ultimately show "(dropWhile (\<lambda>c. \<not> is_space c) t, s) \<in> measure length"
    using cons by simp
qed

declare py_split.simps [simp del]

text \<open>\<open>_normalize_text\<close>.\<close>

definition normalize_text :: "string \<Rightarrow> string list" where
  "normalize_text text = filter (\<lambda>t. t \<noteq> []) (py_split (sub_nonword (lower text)))"

text \<open>
  The keys of an index entry that the scorer reads; a key that is missing is \<open>None\<close>.
  Every value of the index is taken to be a dict, as \<open>_build_sections_index\<close> builds them.
\<close>

record section_meta =
  sec_label :: "string option"
  sec_title :: "string option"
  sec_text :: "string option"

definition section_tokens :: "section_meta \<Rightarrow> string set" where
  "section_tokens section =
     (let title = or_str (sec_label section) (or_str (sec_title section) []);
          text = or_str (sec_text section) [];
          text_snippet = take 2000 text
      in set (normalize_text (title @ '' '' @ text_snippet)))"

text \<open>\<open>_score_section_for_question\<close>.\<close>

definition score_section_for_question :: "string \<Rightarrow> section_meta \<Rightarrow> real" where
  "score_section_for_question question section =
     (let q_tokens = set (normalize_text question);
          s_tokens = section_tokens section
      in if s_tokens = {} then 0
         else real (card (q_tokens \<inter> s_tokens)) / real (max (card q_tokens) 1))"

text \<open>The list \<open>scored\<close> before and after \<open>scored.sort(key=lambda x: x[0], reverse=True)\<close>;
  the sort is stable, so entries of equal score keep their order.\<close>

definition scored_sections :: "string \<Rightarrow> (string, section_meta) dict \<Rightarrow> (real \<times> string) list" where
  "scored_sections question sections_index_norm =
     map (\<lambda>sm. (score_section_for_question question (snd sm), fst sm))
       (filter (\<lambda>sm. score_section_for_question question (snd sm) > 0) sections_index_norm)"

definition sort_scored :: "(real \<times> string) list \<Rightarrow> (real \<times> string) list" where
  "sort_scored scored = sort_key (\<lambda>x. - fst x) scored"

text \<open>
  The loop that fills \<open>results\<close>, with its two \<open>break\<close>s.  \<open>sections_index_norm[sid]\<close>
  cannot raise \<open>KeyError\<close>, because every \<open>sid\<close> of \<open>scored\<close> is a key of the index; the
  model leaves \<open>results\<close> unchanged in that branch.
\<close>

fun fallback_loop ::
  "(string, section_meta) dict \<Rightarrow> nat \<Rightarrow> real \<Rightarrow> (real \<times> string) list
     \<Rightarrow> (string, section_meta) dict \<Rightarrow> (string, section_meta) dict" where
  "fallback_loop idx top_k min_score [] results = results"
| "fallback_loop idx top_k min_score (x # rest) results =
     (if fst x < min_score then results
      else (let results' = (case map_of idx (snd x) of
                              None \<Rightarrow> results
                            | Some meta \<Rightarrow> AList.update (snd x) meta results)
            in if length results' \<ge> top_k then results'
               else fallback_loop idx top_k min_score rest results'))"

text \<open>\<open>_fallback_sections_for_question\<close>.\<close>

definition fallback_sections_for_question ::
  "string \<Rightarrow> (string, section_meta) dict \<Rightarrow> nat \<Rightarrow> real \<Rightarrow> (string, section_meta) dict" where
  "fallback_sections_for_question question sections_index_norm top_k min_score =
     fallback_loop sections_index_norm top_k min_score
       (sort_scored (scored_sections question sections_index_norm)) []"

text \<open>The call in \<open>QaAgent\<close>: \<open>top_k=5, min_score=0.15\<close>.\<close>

definition qa_fallback :: "string \<Rightarrow> (string, section_meta) dict \<Rightarrow> (string, section_meta) dict" where
  "qa_fallback question sections_index_norm =
     fallback_sections_for_question question sections_index_norm 5 (15 / 100)"

text \<open>
  The tokens in the words of the specification: the text is case-folded and cut at every
  character that is neither a letter nor a digit, and the tokens are the pieces that are
  not empty.  \<open>cur\<close> is the piece being read.
\<close>

fun pieces :: "(char \<Rightarrow> bool) \<Rightarrow> string \<Rightarrow> string \<Rightarrow> string list" where
  "pieces P cur [] = (if cur = [] then [] else [cur])"
| "pieces P cur (c # cs) =
     (if P c then pieces P (cur @ [c]) cs
      else if cur = [] then pieces P [] cs
      else cur # pieces P [] cs)"

definition spec_tokens :: "string \<Rightarrow> string list" where
  "spec_tokens s = pieces (\<lambda>c. is_lower c \<or> is_digit c) [] (lower s)"

text \<open>A concrete question and a concrete index of four sections.\<close>

definition question_c9 :: string where
  "question_c9 = ''What are the supply-chain RISK factors?''"

definition idx_c9 :: "(string, section_meta) dict" where
  "idx_c9 =
     [(''item_1'',
       \<lparr>sec_label = Some ''Item 1. Business'', sec_title = None,
        sec_text = Some ''We design, manufacture and market smartphones.''\<rparr>),
      (''item_7a'',
       \<lparr>sec_label = Some ''Item 7A. Market Risk'', sec_title = None, sec_text = None\<rparr>),
      (''overview'',
       \<lparr>sec_label = None, sec_title = Some ''SUPPLY (Factors)'', sec_text = Some []\<rparr>),
      (''item_1a'',
       \<lparr>sec_label = Some ''Item 1A. Risk Factors'', sec_title = Some ''unused'',
        sec_text = Some ''The Company's supply chain is exposed.''\<rparr>)]"

section \<open>tools/adk\_text\_tools.py: the section map\<close>

text \<open>
  The regular expression of \<open>_find_item_headings\<close>, compiled with \<open>re.IGNORECASE\<close>:
  \<^verbatim>\<open>(item\s+(\d+[a]?)\.\s*[^\n]{0,120})\<close>.
  \<open>match_heading s\<close> matches it at the start of \<open>s\<close> and returns group 2 and the length
  of the match.  Every quantifier is greedy, and none has to give anything back: what
  follows \<open>\s+\<close>, \<open>\d+\<close> and \<open>[a]?\<close> cannot match a character they have taken, and nothing
  follows \<open>\s*\<close> and \<open>[^\n]{0,120}\<close> that could fail.  The optional letter is the class
  \<open>[a]\<close>: the letter a, in either case.
\<close>

definition match_heading :: "string \<Rightarrow> (string \<times> nat) option" where
  "match_heading s =
     (let r1 = drop 4 s;
          sp = takeWhile is_space r1; r2 = dropWhile is_space r1;
          ds = takeWhile is_digit r2; r3 = dropWhile is_digit r2;
          letter = (case r3 of
                      [] \<Rightarrow> []
                    | c # r \<Rightarrow> if c = CHR ''a'' \<or> c = CHR ''A'' then [c] else []);
          r4 = drop (length letter) r3
      in if lower (take 4 s) \<noteq> ''item'' then None
         else if sp = [] then None
         else if ds = [] then None
         else case r4 of
           [] \<Rightarrow> None
         | c # r5 \<Rightarrow>
             if c \<noteq> CHR ''.'' then None
             else (let sp2 = takeWhile is_space r5; r6 = dropWhile is_space r5;
                       rest = take 120 (takeWhile (\<lambda>d. d \<noteq> CHR 0x0A) r6)
                   in Some (ds @ letter,
                            4 + length sp + length ds + length letter + 1
                              + length sp2 + length rest)))"

text \<open>
  \<open>pattern.finditer(full_text)\<close>: the matches from left to right, without overlap.  The
  scan walks the text one character at a time; after a match of length \<open>len\<close> at \<open>pos\<close>
  it skips the \<open>len - 1\<close> characters that remain of the match, so that the next attempt
  is at \<open>pos + len\<close>.  The result lists (start, end, group 2).
\<close>

fun finditer :: "nat \<Rightarrow> nat \<Rightarrow> string \<Rightarrow> (nat \<times> nat \<times> string) list" where
  "finditer pos skip [] = []"
| "finditer pos (Suc k) (c # cs) = finditer (Suc pos) k cs"
| "finditer pos 0 (c # cs) =
     (case match_heading (c # cs) of
        None \<Rightarrow> finditer (Suc pos) 0 cs
      | Some m \<Rightarrow> (pos, pos + snd m, fst m) # finditer (Suc pos) (snd m - 1) cs)"

text \<open>\<open>full_text[start:end]\<close> for \<open>start \<le> end\<close>.\<close>

definition slice :: "nat \<Rightarrow> nat \<Rightarrow> string \<Rightarrow> string" where
  "slice start end' s = take (end' - start) (drop start s)"

record heading =
  h_start :: nat
  h_end :: nat
  h_section_number :: string
  h_heading :: string
  h_section_id :: string

text \<open>\<open>_find_item_headings\<close>; the final sort is by \<open>start\<close>.\<close>

definition find_item_headings :: "string \<Rightarrow> heading list" where
  "find_item_headings full_text =
     sort_key h_start
       (map (\<lambda>m. \<lparr>h_start = fst m, h_end = fst (snd m),
                    h_section_number = strip (snd (snd m)),
                    h_heading = strip (slice (fst m) (fst (snd m)) full_text),
                    h_section_id = ''item_'' @ lower (strip (snd (snd m)))\<rparr>)
          (finditer 0 0 full_text))"

record chunk =
  c_id :: string
  c_label :: string
  c_section_number :: string
  c_text :: string

text \<open>
  The loop that builds \<open>chunks\<close>: the text of a heading runs to the start of the next
  heading, or to the end of the text for the last one.
\<close>

fun build_chunks :: "string \<Rightarrow> heading list \<Rightarrow> chunk list" where
  "build_chunks full_text [] = []"
| "build_chunks full_text (h # hs) =
     (let end' = (case hs of [] \<Rightarrow> length full_text | h' # _ \<Rightarrow> h_start h')
      in \<lparr>c_id = h_section_id h, c_label = h_heading h,
          c_section_number = h_section_number h,
          c_text = strip (slice (h_start h) end' full_text)\<rparr>
         # build_chunks full_text hs)"

text \<open>\<open>sections_by_id\<close>: for an id seen again, the chunk with the longer text is kept.\<close>

definition index_chunk :: "chunk \<Rightarrow> (string, chunk) dict \<Rightarrow> (string, chunk) dict" where
  "index_chunk c sections_by_id =
     (case map_of sections_by_id (c_id c) of
        None \<Rightarrow> AList.update (c_id c) c sections_by_id
      | Some old \<Rightarrow>
          if length (c_text c) > length (c_text old)
          then AList.update (c_id c) c sections_by_id
          else sections_by_id)"

record index_entry =
  e_id :: string
  e_label :: string
  e_section_type :: string
  e_part :: string
  e_page_estimate :: "nat option"
  e_approx_char_len :: "nat option"
  e_present_in_document :: bool

text \<open>
  The closure \<open>_entry\<close> of \<open>_build_sections_index\<close>.  A detected chunk is a non-empty
  dict, so \<open>sections_by_id.get(sec_id) or {}\<close> is the chunk when there is one.
\<close>

definition entry ::
  "(string, chunk) dict \<Rightarrow> string \<Rightarrow> string \<Rightarrow> string \<Rightarrow> string \<Rightarrow> nat option \<Rightarrow> index_entry" where
  "entry sections_by_id sec_id default_label section_type part page =
     (let detected = map_of sections_by_id sec_id;
          detected_label = map_option c_label detected;
          text = or_str (map_option c_text detected) []
      in \<lparr>e_id = sec_id,
          e_label = or_str detected_label default_label,
          e_section_type = section_type,
          e_part = part,
          e_page_estimate = page,
          e_approx_char_len = (if text \<noteq> [] then Some (length text) else None),
          e_present_in_document = (detected \<noteq> None)\<rparr>)"

text \<open>
  The static catalogue: id, default label, section type, part and page of each entry of
  the dict literal, in its order.  The apostrophe of two labels is the byte sequence the
  source file holds.
\<close>

definition apostrophe :: string where
  "apostrophe = [CHR 0xC3, CHR 0xA2, CHR 0xE2, CHR 0x82, CHR 0xAC, CHR 0xE2, CHR 0x84, CHR 0xA2]"

definition static_catalogue :: "(string \<times> string \<times> string \<times> string \<times> nat) list" where
  "static_catalogue =
     [(''item_1'', ''Item 1. Business'', ''business'', ''PART I'', 3),
      (''item_1a'', ''Item 1A. Risk Factors'', ''risks'', ''PART I'', 9),
      (''item_1b'', ''Item 1B. Unresolved Staff Comments'', ''staff_comments'', ''PART I'', 28),
      (''item_1c'', ''Item 1C. Cybersecurity'', ''cybersecurity'', ''PART I'', 28),
      (''item_2'', ''Item 2. Properties'', ''properties'', ''PART I'', 29),
      (''item_3'', ''Item 3. Legal Proceedings'', ''legal'', ''PART I'', 51),
      (''item_4'', ''Item 4. Mine Safety Disclosures'', ''safety'', ''PART I'', 51),
      (''item_5'',
         ''Item 5. Market for the Registrant'' @ apostrophe @
         ''s Common Equity, Related Stockholder Matters and Issuer Purchases of Equity Securities'',
         ''equity_market'', ''PART II'', 53),
      (''item_6'', ''Item 6. [Reserved]'', ''reserved'', ''PART II'', 54),
      (''item_7'',
         ''Item 7. Management'' @ apostrophe @
         ''s Discussion and Analysis of Financial Condition and Results of Operations'',
         ''mdna'', ''PART II'', 54),
      (''item_7a'', ''Item 7A. Quantitative and Qualitative Disclosures About Market Risk'',
         ''market_risk'', ''PART II'', 82),
      (''item_8'', ''Item 8. Financial Statements and Supplementary Data'',
         ''financials'', ''PART II'', 84),
      (''item_9'',
         ''Item 9. Changes in and Disagreements with Accountants on Accounting and Financial Disclosure'',
         ''accounting_changes'', ''PART II'', 137),
      (''item_9a'', ''Item 9A. Controls and Procedures'', ''controls'', ''PART II'', 137),
      (''item_9b'', ''Item 9B. Other Information'', ''other_info'', ''PART II'', 137),
      (''item_9c'',
         ''Item 9C. Disclosure Regarding Foreign Jurisdictions That Prevent Inspections'',
         ''foreign_disclosure'', ''PART II'', 137),
      (''item_10'', ''Item 10. Directors, Executive Officers and Corporate Governance'',
         ''directors_governance'', ''PART III'', 137),
      (''item_11'', ''Item 11. Executive Compensation'', ''compensation'', ''PART III'', 138),
      (''item_12'',
         ''Item 12. Security Ownership of Certain Beneficial Owners and Management and Related Stockholder Matters'',
         ''ownership'', ''PART III'', 138),
      (''item_13'',
         ''Item 13. Certain Relationships and Related Transactions, and Director Independence'',
         ''relationships'', ''PART III'', 138),
      (''item_14'', ''Item 14. Principal Accountant Fees and Services'',
         ''accountant_fees'', ''PART III'', 138),
      (''item_15'', ''Item 15. Exhibits and Financial Statement Schedules'',
         ''exhibits'', ''PART IV'', 138),
      (''item_16'', ''Item 16. Form 10-K Summary'', ''summary'', ''PART IV'', 144)]"

definition static_index :: "(string, chunk) dict \<Rightarrow> (string, index_entry) dict" where
  "static_index sections_by_id =
     map (\<lambda>r. (fst r,
                 entry sections_by_id (fst r) (fst (snd r)) (fst (snd (snd r)))
                   (fst (snd (snd (snd r)))) (Some (snd (snd (snd (snd r)))))))
       static_catalogue"

text \<open>The loop that adds the detected sections the catalogue does not have.\<close>

definition add_extra :: "string \<times> chunk \<Rightarrow> (string, index_entry) dict \<Rightarrow> (string, index_entry) dict" where
  "add_extra item index =
     (let sid = fst item; sec = snd item; text = c_text sec
      in if map_of index sid \<noteq> None then index
         else AList.update sid
                \<lparr>e_id = sid, e_label = c_label sec, e_section_type = ''other'',
                 e_part = ''UNKNOWN'', e_page_estimate = None,
                 e_approx_char_len = (if text \<noteq> [] then Some (length text) else None),
                 e_present_in_document = True\<rparr>
                index)"

definition build_sections_index :: "(string, chunk) dict \<Rightarrow> (string, index_entry) dict" where
  "build_sections_index sections_by_id =
     fold add_extra sections_by_id (static_index sections_by_id)"

record section_map =
  sm_full_text :: string
  sm_sections_by_id :: "(string, chunk) dict"
  sm_chunks :: "chunk list"
  sm_sections_index :: "(string, index_entry) dict"

text \<open>
  \<open>build_10k_section_map\<close>, from the flattened text on (reading the file and flattening
  the HTML come before).
\<close>

definition build_10k_section_map :: "string \<Rightarrow> section_map" where
  "build_10k_section_map full_text =
     (let headings = find_item_headings full_text
      in if headings = []
         then \<lparr>sm_full_text = full_text, sm_sections_by_id = [], sm_chunks = [],
               sm_sections_index = []\<rparr>
         else (let chunks = build_chunks full_text headings;
                   sections_by_id = fold index_chunk chunks []
               in \<lparr>sm_full_text = full_text, sm_sections_by_id = sections_by_id,
                   sm_chunks = chunks,
                   sm_sections_index = build_sections_index sections_by_id\<rparr>))"

text \<open>The ids of the static catalogue.\<close>

definition catalogue_ids :: "string list" where
  "catalogue_ids =
     [''item_1'', ''item_1a'', ''item_1b'', ''item_1c'', ''item_2'', ''item_3'', ''item_4'',
      ''item_5'', ''item_6'', ''item_7'', ''item_7a'', ''item_8'', ''item_9'', ''item_9a'',
      ''item_9b'', ''item_9c'', ''item_10'', ''item_11'', ''item_12'', ''item_13'', ''item_14'',
      ''item_15'', ''item_16'']"

text \<open>Two texts: one with the headings 1A and 1B, one with the headings 1A and 17.\<close>

definition text_c8 :: string where
  "text_c8 = ''Item 1A. Risk Factors'' @ [CHR 0x0A] @ ''body1'' @ [CHR 0x0A] @
             ''Item 1B. Unresolved Staff Comments'' @ [CHR 0x0A] @ ''body2''"

definition text_c10 :: string where
  "text_c10 = ''Item 1A. Risk Factors'' @ [CHR 0x0A] @ ''body1'' @ [CHR 0x0A] @
              ''Item 17. Extra'' @ [CHR 0x0A] @ ''body2''"

section \<open>Properties of the FinancialAgent loop\<close>

lemma fa_fold_snoc:
  "fold (fa_step facts) (ps @ [p]) st = fa_step facts p (fold (fa_step facts) ps st)"
  by simp

lemma fa_fold_prev:
  "snd (fold (fa_step facts) ps st) = (if ps = [] then snd st else Some (last ps))"
  by (induction ps arbitrary: st) (auto simp: fa_step_def Let_def)

lemma fa_fold_other:
  "p \<notin> set ps \<Longrightarrow> map_of (fst (fold (fa_step facts) ps st)) p = map_of (fst st) p"
  by (induction ps arbitrary: st) (auto simp: fa_step_def Let_def update_conv')

lemma fa_step_lookup:
  "map_of (fst (fa_step facts p st)) p =
     Some (fa_growth_metrics (fst st) (snd st) (fa_base_metrics facts p))"
  by (simp add: fa_step_def Let_def update_conv')

lemma fa_growth_keeps_base:
  "k \<in> set fa_base_keys \<Longrightarrow> mget (fa_growth_metrics fm pp m) k = mget m k"
  by (cases pp) (auto simp: fa_growth_metrics_def fa_base_keys_def mget_def Let_def update_conv')

lemma fa_fold_member:
  "p \<in> set ps \<Longrightarrow>
     \<exists>fm pp. map_of (fst (fold (fa_step facts) ps st)) p =
        Some (fa_growth_metrics fm pp (fa_base_metrics facts p))"
proof (induction ps rule: rev_induct)
  case Nil
  then show ?case by simp
next
  case (snoc x xs)
  show ?case
  proof (cases "p = x")
    case True
    then show ?thesis by (auto simp: fa_step_lookup)
  next
    case False
    with snoc have "p \<in> set xs" by simp
    from snoc.IH[OF this] False show ?thesis
      by (auto simp: fa_step_def Let_def update_conv')
  qed
qed

lemma mget_base:
  "mget (fa_base_metrics facts p) ''ebitda'' =
     fa_ebitda (get_for_period facts ''operating_income'' p)
       (get_for_period facts ''depreciation_amortization'' p)
       (get_for_period facts ''net_income'' p)"
  "mget (fa_base_metrics facts p) ''revenue'' = get_for_period facts ''revenue'' p"
  "mget (fa_base_metrics facts p) ''net_income'' = get_for_period facts ''net_income'' p"
  "mget (fa_base_metrics facts p) ''fcf'' =
     fa_fcf (get_for_period facts ''operating_cash_flow'' p)
       (get_for_period facts ''capital_expenditures'' p)"
  by (simp_all add: fa_base_metrics_def mget_def Let_def)


lemma fa_growth_entries:
  "map_of (fa_growth_metrics fm (Some q) (fa_base_metrics facts p)) ''revenue_growth'' =
     Some (safe_growth (mget (fa_base_metrics facts p) ''revenue'')
        (mget (case map_of fm q of None \<Rightarrow> [] | Some pm \<Rightarrow> pm) ''revenue''))"
  "map_of (fa_growth_metrics fm (Some q) (fa_base_metrics facts p)) ''net_income_growth'' =
     Some (safe_growth (mget (fa_base_metrics facts p) ''net_income'')
        (mget (case map_of fm q of None \<Rightarrow> [] | Some pm \<Rightarrow> pm) ''net_income''))"
  "map_of (fa_growth_metrics fm (Some q) (fa_base_metrics facts p)) ''fcf_growth'' =
     Some (safe_growth (mget (fa_base_metrics facts p) ''fcf'')
        (mget (case map_of fm q of None \<Rightarrow> [] | Some pm \<Rightarrow> pm) ''fcf''))"
  "map_of (fa_growth_metrics fm (Some q) (fa_base_metrics facts p)) ''ebitda_growth'' =
     Some (safe_growth (mget (fa_base_metrics facts p) ''ebitda'')
        (mget (case map_of fm q of None \<Rightarrow> [] | Some pm \<Rightarrow> pm) ''ebitda''))"
  by (simp_all add: fa_growth_metrics_def Let_def update_conv')

lemma fa_fold_pair:
  assumes "p \<notin> set rs"
  shows "map_of (fst (fold (fa_step facts) (qs @ [q, p] @ rs) st)) p =
           Some (fa_growth_metrics (fst (fa_step facts q (fold (fa_step facts) qs st))) (Some q)
                   (fa_base_metrics facts p))"
proof -
  let ?S1 = "fa_step facts q (fold (fa_step facts) qs st)"
  have "fold (fa_step facts) (qs @ [q, p] @ rs) st =
          fold (fa_step facts) rs (fa_step facts p ?S1)"
    by simp
  moreover have "snd ?S1 = Some q"
    by (simp add: fa_step_def Let_def)
  ultimately show ?thesis
    using assms by (simp add: fa_fold_other fa_step_lookup del: fold_append fold_simps)
qed

lemma fa_fold_first:
  assumes "p \<notin> set rs"
  shows "map_of (fst (fold (fa_step facts) (p # rs) ([], None))) p =
           Some (fa_base_metrics facts p)"
  using assms
  by (simp add: fa_fold_other fa_step_lookup fa_growth_metrics_def)

lemma split_at_pair:
  assumes "Suc i < length xs"
  shows "xs = take i xs @ [xs ! i, xs ! Suc i] @ drop (Suc (Suc i)) xs"
proof -
  have "xs = take i xs @ xs ! i # drop (Suc i) xs"
    using assms by (simp add: id_take_nth_drop)
  moreover have "drop (Suc i) xs = xs ! Suc i # drop (Suc (Suc i)) xs"
    using assms by (simp add: Cons_nth_drop_Suc)
  ultimately show ?thesis by simp
qed

lemma fa_run_growth:
  assumes d: "distinct periods" and i: "Suc i < length periods"
  shows "\<exists>m. map_of (fst (fold (fa_step facts) periods ([], None))) (periods ! Suc i) = Some m
      \<and> map_of m ''revenue_growth'' =
          Some (safe_growth (mget (fa_base_metrics facts (periods ! Suc i)) ''revenue'')
                  (mget (fa_base_metrics facts (periods ! i)) ''revenue''))
      \<and> map_of m ''net_income_growth'' =
          Some (safe_growth (mget (fa_base_metrics facts (periods ! Suc i)) ''net_income'')
                  (mget (fa_base_metrics facts (periods ! i)) ''net_income''))
      \<and> map_of m ''fcf_growth'' =
          Some (safe_growth (mget (fa_base_metrics facts (periods ! Suc i)) ''fcf'')
                  (mget (fa_base_metrics facts (periods ! i)) ''fcf''))
      \<and> map_of m ''ebitda_growth'' =
          Some (safe_growth (mget (fa_base_metrics facts (periods ! Suc i)) ''ebitda'')
                  (mget (fa_base_metrics facts (periods ! i)) ''ebitda''))"
proof -
  let ?p = "periods ! Suc i" and ?q = "periods ! i"
  let ?qs = "take i periods" and ?rs = "drop (Suc (Suc i)) periods"
  have sp: "periods = ?qs @ [?q, ?p] @ ?rs" by (rule split_at_pair[OF i])
  have "distinct (?qs @ [?q, ?p] @ ?rs)" using d sp by metis
  then have notin: "?p \<notin> set ?rs" by simp
  let ?S0 = "fold (fa_step facts) ?qs ([], None)"
  let ?S1 = "fa_step facts ?q ?S0"
  have look: "map_of (fst (fold (fa_step facts) (?qs @ [?q, ?p] @ ?rs) ([], None))) ?p =
      Some (fa_growth_metrics (fst ?S1) (Some ?q) (fa_base_metrics facts ?p))"
    by (rule fa_fold_pair[OF notin])
  have prev: "map_of (fst ?S1) ?q =
      Some (fa_growth_metrics (fst ?S0) (snd ?S0) (fa_base_metrics facts ?q))"
    by (rule fa_step_lookup)
  have keys: "''revenue'' \<in> set fa_base_keys" "''net_income'' \<in> set fa_base_keys"
    "''fcf'' \<in> set fa_base_keys" "''ebitda'' \<in> set fa_base_keys"
    by (simp_all add: fa_base_keys_def)
  let ?m = "fa_growth_metrics (fst ?S1) (Some ?q) (fa_base_metrics facts ?p)"
  have m: "map_of (fst (fold (fa_step facts) periods ([], None))) ?p = Some ?m"
    by (metis look sp)
  have pm: "mget (case map_of (fst ?S1) ?q of None \<Rightarrow> [] | Some pm \<Rightarrow> pm) k =
      mget (fa_base_metrics facts ?q) k" if "k \<in> set fa_base_keys" for k
    using that by (simp only: prev option.case fa_growth_keeps_base)
  have "map_of ?m ''revenue_growth'' =
          Some (safe_growth (mget (fa_base_metrics facts ?p) ''revenue'')
                  (mget (fa_base_metrics facts ?q) ''revenue''))"
    by (simp only: fa_growth_entries pm[OF keys(1)])
  moreover have "map_of ?m ''net_income_growth'' =
          Some (safe_growth (mget (fa_base_metrics facts ?p) ''net_income'')
                  (mget (fa_base_metrics facts ?q) ''net_income''))"
    by (simp only: fa_growth_entries pm[OF keys(2)])
  moreover have "map_of ?m ''fcf_growth'' =
          Some (safe_growth (mget (fa_base_metrics facts ?p) ''fcf'')
                  (mget (fa_base_metrics facts ?q) ''fcf''))"
    by (simp only: fa_growth_entries pm[OF keys(3)])
  moreover have "map_of ?m ''ebitda_growth'' =
          Some (safe_growth (mget (fa_base_metrics facts ?p) ''ebitda'')
                  (mget (fa_base_metrics facts ?q) ''ebitda''))"
    by (simp only: fa_growth_entries pm[OF keys(4)])
  ultimately show ?thesis using m by blast
qed

section \<open>Properties of the year-over-year loop of financial\_calcs\<close>

lemma idx_fold_other:
  "p \<notin> set ps \<Longrightarrow>
     map_of (fold (\<lambda>ip d. AList.update (snd ip) (fst ip) d) (enumerate n ps) d) p = map_of d p"
  by (induction ps arbitrary: n d) (auto simp: update_conv')

lemma idx_fold_nth:
  "distinct ps \<Longrightarrow> i < length ps \<Longrightarrow>
     map_of (fold (\<lambda>ip d. AList.update (snd ip) (fst ip) d) (enumerate n ps) d) (ps ! i)
       = Some (n + i)"
proof (induction ps arbitrary: n d i)
  case Nil
  then show ?case by simp
next
  case (Cons a as)
  show ?case
  proof (cases i)
    case 0
    with Cons.prems show ?thesis by (simp add: idx_fold_other update_conv')
  next
    case (Suc j)
    with Cons.prems have "distinct as" "j < length as" by simp_all
    from Cons.IH[OF this, of "Suc n"] Suc show ?thesis by simp
  qed
qed

lemma idx_by_period_nth:
  "distinct ps \<Longrightarrow> i < length ps \<Longrightarrow> map_of (idx_by_period ps) (ps ! i) = Some i"
  using idx_fold_nth[of ps i 0 "[]"] by (simp add: idx_by_period_def)

lemma idx_fold_defined:
  "p \<in> set ps \<Longrightarrow>
     map_of (fold (\<lambda>ip d. AList.update (snd ip) (fst ip) d) (enumerate n ps) d) p \<noteq> None"
proof (induction ps arbitrary: n d)
  case Nil
  then show ?case by simp
next
  case (Cons a as)
  show ?case
  proof (cases "p \<in> set as")
    case True
    then show ?thesis using Cons.IH by simp
  next
    case False
    with Cons.prems have "p = a" by simp
    with False show ?thesis by (simp add: idx_fold_other update_conv')
  qed
qed

lemma idx_by_period_defined:
  "p \<in> set ps \<Longrightarrow> map_of (idx_by_period ps) p \<noteq> None"
  by (simp add: idx_by_period_def idx_fold_defined)

lemma yoy_step_lookup:
  "map_of (yoy_step pp sp metric p d) q =
     (if q = p then (case yoy_entry pp sp metric p of None \<Rightarrow> map_of d q | Some v \<Rightarrow> Some v)
      else map_of d q)"
  by (auto simp: yoy_step_def yoy_entry_def Let_def update_conv' split: option.splits)

lemma yoy_fold_lookup:
  "map_of (fold (yoy_step pp sp metric) ps d) q =
     (if q \<in> set ps then (case yoy_entry pp sp metric q of None \<Rightarrow> map_of d q | Some v \<Rightarrow> Some v)
      else map_of d q)"
  by (induction ps arbitrary: d) (auto simp: yoy_step_lookup split: option.splits)

lemma yoy_growth_map_lookup:
  "map_of (yoy_growth_map pp sp metric) q =
     (if q \<in> set sp then yoy_entry pp sp metric q else None)"
  by (simp add: yoy_growth_map_def yoy_fold_lookup split: option.splits)

lemma compute_yoy_growth_lookup:
  "(metric, growth_name) \<in> set metrics_to_track \<Longrightarrow>
     map_of (compute_yoy_growth pp periods) growth_name =
       Some (yoy_growth_map pp (sort periods) metric)"
  by (auto simp: compute_yoy_growth_def metrics_to_track_def Let_def update_conv')

lemma yoy_entry_nth:
  assumes "distinct sp" "i < length sp"
  shows "yoy_entry pp sp metric (sp ! i) =
     (if i = 0 then None
      else (case pp_get pp (sp ! i) metric of
              None \<Rightarrow> None
            | Some c \<Rightarrow>
                (case pp_get pp (sp ! (i - 1)) metric of
                   None \<Rightarrow> None
                 | Some p \<Rightarrow> if p = 0 then None else Some ((c - p) / p))))"
  by (simp add: yoy_entry_def idx_by_period_nth[OF assms])

section \<open>Per-period metrics\<close>

lemma add_if_present_or_zero: "add_if_present a x = a + or_zero x"
  by (simp add: add_if_present_def or_zero_def split: option.splits)

lemma map_of_set_if:
  "map_of (set_if c k v d) k' = (if c \<and> k' = k then Some v else map_of d k')"
  by (simp add: set_if_def update_conv')

lemma fc_ebitda_lookup:
  "map_of (compute_metrics_for_period facts period) ''ebitda'' =
     (case get_value facts ''net_income'' period of
        None \<Rightarrow> None
      | Some ni \<Rightarrow>
          Some (ni
            + or_zero (get_any_value facts
                 [''interest_expense'', ''interest_and_other_expense'', ''interest_and_other''] period)
            + or_zero (get_any_value facts
                 [''income_tax_expense'', ''provision_for_income_taxes''] period)
            + or_zero (get_any_value facts
                 [''depreciation_and_amortization'', ''depreciation_amortization''] period)))"
proof (cases "get_value facts ''net_income'' period")
  case None
  then show ?thesis
    by (simp add: compute_metrics_for_period_def Let_def map_of_set_if)
next
  case (Some ni)
  then show ?thesis
    by (simp add: compute_metrics_for_period_def Let_def map_of_set_if add_if_present_or_zero)
qed

lemma fa_ebitda_cases:
  "fa_ebitda oi da ni =
     (case oi of
        Some x \<Rightarrow> (case da of Some d \<Rightarrow> Some (x + d) | None \<Rightarrow> Some x)
      | None \<Rightarrow> (case da of
                   Some d \<Rightarrow> (case ni of Some n \<Rightarrow> Some (n + d) | None \<Rightarrow> None)
                 | None \<Rightarrow> ni))"
  by (simp add: fa_ebitda_def split: option.splits)

lemma fa_run_member:
  assumes "period \<in> set periods"
  shows "\<exists>fm kp m. FinancialAgent_run facts periods = Inr (fm, kp) \<and> map_of fm period = Some m
          \<and> (\<forall>k \<in> set fa_base_keys. mget m k = mget (fa_base_metrics facts period) k)"
proof -
  from fa_fold_member[OF assms, of facts "([], None)"] obtain fm0 pp where
    "map_of (fst (fold (fa_step facts) periods ([], None))) period =
        Some (fa_growth_metrics fm0 pp (fa_base_metrics facts period))" by blast
  moreover have "periods \<noteq> []" using assms by auto
  ultimately show ?thesis
    by (simp add: FinancialAgent_run_def fa_growth_keeps_base)
qed


lemma fa_run_growth_shape:
  assumes d: "distinct periods" and i: "Suc i < length periods"
  shows "\<exists>FM FM0 PP0.
      map_of (fst (fold (fa_step facts) periods ([], None))) (periods ! Suc i) =
        Some (fa_growth_metrics FM (Some (periods ! i)) (fa_base_metrics facts (periods ! Suc i)))
    \<and> map_of FM (periods ! i) =
        Some (fa_growth_metrics FM0 PP0 (fa_base_metrics facts (periods ! i)))"
proof -
  let ?p = "periods ! Suc i" and ?q = "periods ! i"
  let ?qs = "take i periods" and ?rs = "drop (Suc (Suc i)) periods"
  have sp: "periods = ?qs @ [?q, ?p] @ ?rs" by (rule split_at_pair[OF i])
  have "distinct (?qs @ [?q, ?p] @ ?rs)" using d sp by metis
  then have notin: "?p \<notin> set ?rs" by simp
  let ?S0 = "fold (fa_step facts) ?qs ([], None)"
  let ?S1 = "fa_step facts ?q ?S0"
  have look: "map_of (fst (fold (fa_step facts) (?qs @ [?q, ?p] @ ?rs) ([], None))) ?p =
      Some (fa_growth_metrics (fst ?S1) (Some ?q) (fa_base_metrics facts ?p))"
    by (rule fa_fold_pair[OF notin])
  have prev: "map_of (fst ?S1) ?q =
      Some (fa_growth_metrics (fst ?S0) (snd ?S0) (fa_base_metrics facts ?q))"
    by (rule fa_step_lookup)
  have m: "map_of (fst (fold (fa_step facts) periods ([], None))) ?p =
      Some (fa_growth_metrics (fst ?S1) (Some ?q) (fa_base_metrics facts ?p))"
    by (metis look sp)
  from m prev show ?thesis by blast
qed

lemma fa_growth_mget:
  assumes "map_of FM q = Some (fa_growth_metrics FM0 PP0 (fa_base_metrics facts q))"
    and "m = fa_growth_metrics FM (Some q) (fa_base_metrics facts p)"
    and "map_of FMfinal q = Some mp"
    and "\<forall>k \<in> set fa_base_keys. mget mp k = mget (fa_base_metrics facts q) k"
  shows "mget m ''revenue_growth'' = safe_growth (mget m ''revenue'') (mget mp ''revenue'')"
    and "mget m ''net_income_growth'' = safe_growth (mget m ''net_income'') (mget mp ''net_income'')"
    and "mget m ''fcf_growth'' = safe_growth (mget m ''fcf'') (mget mp ''fcf'')"
    and "mget m ''ebitda_growth'' = safe_growth (mget m ''ebitda'') (mget mp ''ebitda'')"
proof -
  have keys: "''revenue'' \<in> set fa_base_keys" "''net_income'' \<in> set fa_base_keys"
    "''fcf'' \<in> set fa_base_keys" "''ebitda'' \<in> set fa_base_keys"
    by (simp_all add: fa_base_keys_def)
  have pm: "mget (case map_of FM q of None \<Rightarrow> [] | Some pm \<Rightarrow> pm) k = mget mp k"
    if "k \<in> set fa_base_keys" for k
    using that assms(4) by (simp only: assms(1) option.case fa_growth_keeps_base)
  have cur: "mget m k = mget (fa_base_metrics facts p) k" if "k \<in> set fa_base_keys" for k
    using that by (simp only: assms(2) fa_growth_keeps_base)
  show "mget m ''revenue_growth'' = safe_growth (mget m ''revenue'') (mget mp ''revenue'')"
    unfolding cur[OF keys(1)] unfolding assms(2) mget_def[of _ "''revenue_growth''"]
    by (simp only: fa_growth_entries pm[OF keys(1)] option.case)
  show "mget m ''net_income_growth'' = safe_growth (mget m ''net_income'') (mget mp ''net_income'')"
    unfolding cur[OF keys(2)] unfolding assms(2) mget_def[of _ "''net_income_growth''"]
    by (simp only: fa_growth_entries pm[OF keys(2)] option.case)
  show "mget m ''fcf_growth'' = safe_growth (mget m ''fcf'') (mget mp ''fcf'')"
    unfolding cur[OF keys(3)] unfolding assms(2) mget_def[of _ "''fcf_growth''"]
    by (simp only: fa_growth_entries pm[OF keys(3)] option.case)
  show "mget m ''ebitda_growth'' = safe_growth (mget m ''ebitda'') (mget mp ''ebitda'')"
    unfolding cur[OF keys(4)] unfolding assms(2) mget_def[of _ "''ebitda_growth''"]
    by (simp only: fa_growth_entries pm[OF keys(4)] option.case)
qed

lemma fa_run_growth_full:
  assumes d: "distinct periods" and i: "Suc i < length periods"
  shows "\<exists>fm kp m mp. FinancialAgent_run facts periods = Inr (fm, kp)
      \<and> map_of fm (periods ! Suc i) = Some m \<and> map_of fm (periods ! i) = Some mp
      \<and> (\<forall>kg \<in> set metrics_to_track.
            mget m (snd kg) = safe_growth (mget m (fst kg)) (mget mp (fst kg)))"
proof -
  let ?fm = "fst (fold (fa_step facts) periods ([], None))"
  from fa_run_growth_shape[OF d i, of facts] obtain FM FM0 PP0 where
    m: "map_of ?fm (periods ! Suc i) =
        Some (fa_growth_metrics FM (Some (periods ! i)) (fa_base_metrics facts (periods ! Suc i)))"
    and q: "map_of FM (periods ! i) =
        Some (fa_growth_metrics FM0 PP0 (fa_base_metrics facts (periods ! i)))"
    by blast
  have "periods ! i \<in> set periods" using i by simp
  from fa_fold_member[OF this, of facts "([], None)"] obtain fm1 pp1 where
    mp: "map_of ?fm (periods ! i) =
        Some (fa_growth_metrics fm1 pp1 (fa_base_metrics facts (periods ! i)))" by blast
  let ?m = "fa_growth_metrics FM (Some (periods ! i)) (fa_base_metrics facts (periods ! Suc i))"
  let ?mp = "fa_growth_metrics fm1 pp1 (fa_base_metrics facts (periods ! i))"
  have base: "\<forall>k \<in> set fa_base_keys. mget ?mp k = mget (fa_base_metrics facts (periods ! i)) k"
    by (simp add: fa_growth_keeps_base)
  note g = fa_growth_mget[OF q refl mp base]
  have all: "\<forall>kg \<in> set metrics_to_track.
            mget ?m (snd kg) = safe_growth (mget ?m (fst kg)) (mget ?mp (fst kg))"
    unfolding metrics_to_track_def using g by simp
  have ne: "periods \<noteq> []" using i by auto
  have run: "FinancialAgent_run facts periods = Inr (?fm, last periods)"
    using ne by (simp add: FinancialAgent_run_def)
  from run m mp all show ?thesis by blast
qed

lemma fa_run_first:
  assumes d: "distinct periods" and ne: "periods \<noteq> []"
  shows "\<exists>fm kp m. FinancialAgent_run facts periods = Inr (fm, kp)
      \<and> map_of fm (periods ! 0) = Some m
      \<and> (\<forall>kg \<in> set metrics_to_track. map_of m (snd kg) = None)"
proof -
  from ne obtain p rs where ps: "periods = p # rs" by (cases periods) auto
  with d have notin: "p \<notin> set rs" by simp
  have look: "map_of (fst (fold (fa_step facts) periods ([], None))) (periods ! 0) =
      Some (fa_base_metrics facts p)"
    unfolding ps using fa_fold_first[OF notin, of facts] by simp
  have none: "\<forall>kg \<in> set metrics_to_track. map_of (fa_base_metrics facts p) (snd kg) = None"
    by (simp add: metrics_to_track_def fa_base_metrics_def Let_def)
  have run: "FinancialAgent_run facts periods =
      Inr (fst (fold (fa_step facts) periods ([], None)), last periods)"
    using ne by (simp add: FinancialAgent_run_def)
  from run look none show ?thesis by blast
qed

lemma fc_yoy_at:
  assumes d: "distinct periods" and kg: "kg \<in> set metrics_to_track" and j: "j < length periods"
  shows "\<exists>gm. map_of (compute_yoy_growth per_period periods) (snd kg) = Some gm \<and>
     map_of gm (sort periods ! j) =
       (if j = 0 then None
        else (case pp_get per_period (sort periods ! j) (fst kg) of
                None \<Rightarrow> None
              | Some c \<Rightarrow>
                  (case pp_get per_period (sort periods ! (j - 1)) (fst kg) of
                     None \<Rightarrow> None
                   | Some p \<Rightarrow> if p = 0 then None else Some ((c - p) / p))))"
proof -
  let ?sp = "sort periods"
  have dsp: "distinct ?sp" using d by simp
  have jsp: "j < length ?sp" using j by simp
  have "(fst kg, snd kg) \<in> set metrics_to_track" using kg by simp
  then have look: "map_of (compute_yoy_growth per_period periods) (snd kg) =
      Some (yoy_growth_map per_period ?sp (fst kg))"
    by (rule compute_yoy_growth_lookup)
  have mem: "?sp ! j \<in> set ?sp" using jsp by (rule nth_mem)
  have "map_of (yoy_growth_map per_period ?sp (fst kg)) (?sp ! j) =
      yoy_entry per_period ?sp (fst kg) (?sp ! j)"
    using mem by (simp only: yoy_growth_map_lookup if_True)
  also have "\<dots> = (if j = 0 then None
        else (case pp_get per_period (?sp ! j) (fst kg) of
                None \<Rightarrow> None
              | Some c \<Rightarrow>
                  (case pp_get per_period (?sp ! (j - 1)) (fst kg) of
                     None \<Rightarrow> None
                   | Some p \<Rightarrow> if p = 0 then None else Some ((c - p) / p))))"
    by (rule yoy_entry_nth[OF dsp jsp])
  finally show ?thesis using look by blast
qed

lemma safe_growth_cases:
  "safe_growth cur prev =
     (case cur of
        None \<Rightarrow> None
      | Some c \<Rightarrow>
          (case prev of
             None \<Rightarrow> None
           | Some p \<Rightarrow> if p = 0 then None else Some ((c - p) / \<bar>p\<bar>)))"
  by (rule safe_growth_def)

section \<open>Division guards\<close>

lemma fa_margins_guard:
  assumes "period \<in> set periods"
    and "get_for_period facts ''revenue'' period = None \<or>
         get_for_period facts ''revenue'' period = Some 0"
  shows "\<exists>fm kp m. FinancialAgent_run facts periods = Inr (fm, kp) \<and> map_of fm period = Some m
      \<and> mget m ''ebitda_margin'' = None \<and> mget m ''net_margin'' = None
      \<and> mget m ''fcf_margin'' = None"
proof -
  from fa_run_member[OF assms(1), of facts] obtain fm kp m where
    run: "FinancialAgent_run facts periods = Inr (fm, kp)" and
    look: "map_of fm period = Some m" and
    base: "\<forall>k \<in> set fa_base_keys. mget m k = mget (fa_base_metrics facts period) k"
    by blast
  have keys: "''ebitda_margin'' \<in> set fa_base_keys" "''net_margin'' \<in> set fa_base_keys"
    "''fcf_margin'' \<in> set fa_base_keys"
    by (simp_all add: fa_base_keys_def)
  have none: "fa_margin x (get_for_period facts ''revenue'' period) = None" for x
    using assms(2) by (auto simp: fa_margin_def)
  have "mget (fa_base_metrics facts period) ''ebitda_margin'' = None"
    "mget (fa_base_metrics facts period) ''net_margin'' = None"
    "mget (fa_base_metrics facts period) ''fcf_margin'' = None"
    by (simp_all add: fa_base_metrics_def mget_def Let_def none)
  with base keys have "mget m ''ebitda_margin'' = None" "mget m ''net_margin'' = None"
    "mget m ''fcf_margin'' = None" by simp_all
  with run look show ?thesis by blast
qed

lemma safe_growth_guard:
  "cur = None \<or> prev = None \<or> prev = Some 0 \<Longrightarrow> safe_growth cur prev = None"
  by (auto simp: safe_growth_def split: option.splits)

lemma valuation_guard:
  "(mget (valuation_source_metrics st kp) ''net_income'' = None \<or>
    mget (valuation_source_metrics st kp) ''net_income'' = Some 0
      \<longrightarrow> vm_pe (valuation_for st kp) = None)
   \<and> (vm_market_cap (valuation_for st kp) = None \<or> vm_market_cap (valuation_for st kp) = Some 0
      \<longrightarrow> vm_fcf_yield (valuation_for st kp) = None)"
  by (auto simp: valuation_for_def Let_def truthy_def)

lemma fc_margins_missing_revenue:
  assumes "get_any_value facts [''net_sales'', ''revenue''] period = None"
  shows "\<forall>k \<in> set fc_margin_keys. map_of (compute_metrics_for_period facts period) k = None"
  using assms
  by (simp add: fc_margin_keys_def compute_metrics_for_period_def Let_def map_of_set_if)

lemma fc_margins_zero_revenue:
  assumes "get_any_value facts [''net_sales'', ''revenue''] period = Some 0"
  shows "map_of (compute_metrics_for_period facts period) ''gross_margin'' =
           (if get_value facts ''cost_of_sales'' period = None then None else Some 0)"
    and "map_of (compute_metrics_for_period facts period) ''operating_margin'' =
           (if get_value facts ''operating_income'' period = None then None else Some 0)"
    and "map_of (compute_metrics_for_period facts period) ''ebitda_margin'' =
           (if get_value facts ''net_income'' period = None then None else Some 0)"
    and "map_of (compute_metrics_for_period facts period) ''net_margin'' =
           (if get_value facts ''net_income'' period = None then None else Some 0)"
    and "map_of (compute_metrics_for_period facts period) ''fcf_margin'' =
           (if get_value facts ''operating_cash_flow'' period = None \<or>
               get_value facts ''capital_expenditures'' period = None then None else Some 0)"
  using assms
  by (simp_all add: compute_metrics_for_period_def Let_def map_of_set_if safe_div_def)

lemma fc_yoy_guard:
  assumes d: "distinct periods" and kg: "kg \<in> set metrics_to_track" and j: "j < length periods"
    and g: "j = 0 \<or> pp_get per_period (sort periods ! j) (fst kg) = None \<or>
            pp_get per_period (sort periods ! (j - 1)) (fst kg) = None \<or>
            pp_get per_period (sort periods ! (j - 1)) (fst kg) = Some 0"
  shows "\<exists>gm. map_of (compute_yoy_growth per_period periods) (snd kg) = Some gm \<and>
     map_of gm (sort periods ! j) = None"
proof -
  from fc_yoy_at[OF d kg j, of per_period] obtain gm where
    1: "map_of (compute_yoy_growth per_period periods) (snd kg) = Some gm" and
    2: "map_of gm (sort periods ! j) =
       (if j = 0 then None
        else (case pp_get per_period (sort periods ! j) (fst kg) of
                None \<Rightarrow> None
              | Some c \<Rightarrow>
                  (case pp_get per_period (sort periods ! (j - 1)) (fst kg) of
                     None \<Rightarrow> None
                   | Some p \<Rightarrow> if p = 0 then None else Some ((c - p) / p))))" by blast
  have "map_of gm (sort periods ! j) = None"
    unfolding 2 using g by (auto split: option.splits)
  with 1 show ?thesis by blast
qed


text \<open>The period lists of the two concrete fact tables.\<close>

lemma periods_c7_empty: "extraction_available_periods facts_c7_empty = []"
  by (simp add: extraction_available_periods_def facts_c7_empty_def AList.delete_eq)

lemma periods_c7: "extraction_available_periods facts_c7 = [''2022-12-31'', ''2023-12-31'']"
  by (simp add: extraction_available_periods_def facts_c7_def AList.delete_eq
        less_eq_char_def less_char_def)

section \<open>Properties of the fact scanner\<close>

lemmas number_eval =
  safe_parse_number_def py_float_def py_int_def strip_def c_strip_def strip_chars_def is_space_def
  is_c_space_def
  split_sign_def split_first_def mantissa_val_def exponent_val_def group_val_def
  digits_val_def digit_val_def is_digit_def endswith_def euro_sign_def pound_sign_def

lemmas tag_eval =
  fact_of_tag_def mk_fact_def tag_get_def or_str_def get_text_strip_def parse_decimals_def
  scale_decimals_def unit_desc_of_def unit_ref_of_def lower_def lower_char_def
  scale_unit_def is_ix_nonfraction_def

lemma lookup2_store_fact:
  "lookup2 (store_fact n q w raw) c p =
     (if c = n then (if p = q then Some w else lookup2 raw c p) else lookup2 raw c p)"
  by (auto simp: lookup2_def store_fact_def update_conv' split: option.splits)

lemma lookup2_scan_fold:
  "lookup2 (fold (scan_step cpm um) tags raw) c p = Some v \<Longrightarrow>
     lookup2 raw c p = Some v \<or> (\<exists>t \<in> set tags. fact_of_tag cpm um t = Some (c, p, v))"
proof (induction tags arbitrary: raw)
  case Nil
  then show ?case by simp
next
  case (Cons t ts)
  from Cons.prems have "lookup2 (fold (scan_step cpm um) ts (scan_step cpm um t raw)) c p = Some v"
    by simp
  from Cons.IH[OF this] show ?case
  proof
    assume a: "lookup2 (scan_step cpm um t raw) c p = Some v"
    show ?thesis
    proof (cases "fact_of_tag cpm um t")
      case None
      with a show ?thesis by (simp add: scan_step_def)
    next
      case (Some f)
      obtain n q w where f: "f = (n, q, w)" by (cases f) auto
      with a Some show ?thesis
        by (auto simp: scan_step_def lookup2_store_fact split: if_splits)
    qed
  next
    assume "\<exists>t \<in> set ts. fact_of_tag cpm um t = Some (c, p, v)"
    then show ?thesis by auto
  qed
qed

lemma fact_of_tag_SomeD:
  assumes "fact_of_tag cpm um t = Some (c, p, v)"
  shows "\<exists>number cr. tag_get t ''name'' = Some c \<and> tag_get t ''contextref'' = Some cr
      \<and> map_of cpm cr = Some p
      \<and> safe_parse_number (get_text_strip t) = Some number
      \<and> v = number * scale_decimals (parse_decimals (tag_get t ''decimals''))
                   * scale_unit (unit_desc_of um t)"
  using assms
  by (auto simp: fact_of_tag_def Let_def or_str_def split: option.splits if_splits)

lemma scale_decimals_parse:
  "scale_decimals (parse_decimals a) =
     (case a of
        None \<Rightarrow> 1
      | Some s \<Rightarrow>
          (case py_int s of
             None \<Rightarrow> 1
           | Some d \<Rightarrow> if d < 0 then 10 ^ nat \<bar>d\<bar> else if 0 < d then 1 / 10 ^ nat d else 1))"
  by (simp add: scale_decimals_def parse_decimals_def split: option.splits)

lemma facts_c1:
  "fact_of_tag contexts_c1 units_c1 tag_c1 =
     Some (''us-gaap:Revenues'', ''2023-12-31'', 648125000000)"
  "fact_of_tag contexts_c1 units_c1 tag_c1_thousands =
     Some (''us-gaap:NetIncomeLoss'', ''2023-12-31'', 12000)"
  "fact_of_tag contexts_c1 units_c1 tag_c1_cents =
     Some (''us-gaap:Assets'', ''2023-12-31'', 3 / 2)"
  by (simp_all add: tag_c1_def tag_c1_thousands_def tag_c1_cents_def contexts_c1_def
        units_c1_def tag_eval number_eval Let_def)

lemma raw_c1:
  "raw_values_by_concept contexts_c1 units_c1 soup_c1 =
     [(''us-gaap:Revenues'', [(''2023-12-31'', 648125000000)]),
      (''us-gaap:NetIncomeLoss'', [(''2023-12-31'', 12000)]),
      (''us-gaap:Assets'', [(''2023-12-31'', 3 / 2)])]"
proof -
  have "is_ix_nonfraction tag_c1" "is_ix_nonfraction tag_c1_thousands"
    "is_ix_nonfraction tag_c1_cents"
    by (simp_all add: is_ix_nonfraction_def tag_c1_def tag_c1_thousands_def tag_c1_cents_def
          lower_def lower_char_def)
  then show ?thesis
    by (simp add: raw_values_by_concept_def soup_c1_def scan_step_def facts_c1 store_fact_def)
qed

lemma table_c1:
  "extract_key_facts_from_ixbrl soup_c1 contexts_c1 units_c1 =
     [(''revenue'', [(''2023-12-31'', 648125000000)]),
      (''total_assets'', [(''2023-12-31'', 3 / 2)]),
      (''net_income'', [(''2023-12-31'', 12000)])]"
  by (simp add: extract_key_facts_from_ixbrl_def raw_c1 merge_table_def concept_map_def
        merge_step_def merge_concepts_def merge_concept_def Let_def)

section \<open>Properties of the concept merge\<close>

lemma last_value_Cons:
  "last_value (f # fs) c p =
     (case last_value fs c p of
        Some v \<Rightarrow> Some v
      | None \<Rightarrow> if fst f = c \<and> fst (snd f) = p then Some (snd (snd f)) else None)"
  by (auto simp: last_value_def split: list.splits)

lemma last_value_Nil: "last_value [] c p = None"
  by (simp add: last_value_def)

lemma lookup2_scan_step:
  "lookup2 (scan_step cpm um t raw) c p =
     (case fact_of_tag cpm um t of
        None \<Rightarrow> lookup2 raw c p
      | Some f \<Rightarrow> if fst f = c \<and> fst (snd f) = p then Some (snd (snd f)) else lookup2 raw c p)"
  by (auto simp: scan_step_def lookup2_store_fact split: option.splits)

lemma lookup2_scan_last:
  "lookup2 (fold (scan_step cpm um) tags raw) c p =
     (case last_value (List.map_filter (fact_of_tag cpm um) tags) c p of
        None \<Rightarrow> lookup2 raw c p
      | Some v \<Rightarrow> Some v)"
proof (induction tags arbitrary: raw)
  case Nil
  then show ?case by (simp add: map_filter_simps last_value_Nil)
next
  case (Cons t ts)
  show ?case
  proof (cases "fact_of_tag cpm um t")
    case None
    then show ?thesis
      using Cons.IH[of "scan_step cpm um t raw"]
      by (simp add: map_filter_simps lookup2_scan_step split: option.splits)
  next
    case (Some f)
    then show ?thesis
      using Cons.IH[of "scan_step cpm um t raw"]
      by (simp add: map_filter_simps lookup2_scan_step last_value_Cons split: option.splits)
  qed
qed

lemma lookup2_Nil: "lookup2 [] c p = None"
  by (simp add: lookup2_def)

lemma raw_last_value:
  "lookup2 (raw_values_by_concept cpm um soup) c p = last_value (scanned_facts cpm um soup) c p"
  by (simp add: raw_values_by_concept_def scanned_facts_def lookup2_scan_last lookup2_Nil
        split: option.splits)

lemma inner_distinct_store:
  "inner_distinct raw \<Longrightarrow> inner_distinct (store_fact n q w raw)"
  by (auto simp: inner_distinct_def store_fact_def update_conv' distinct_update
        split: option.splits if_splits)

lemma inner_distinct_scan:
  "inner_distinct raw \<Longrightarrow> inner_distinct (fold (scan_step cpm um) tags raw)"
proof (induction tags arbitrary: raw)
  case Nil
  then show ?case by simp
next
  case (Cons t ts)
  have "inner_distinct (scan_step cpm um t raw)"
    using Cons.prems by (auto simp: scan_step_def inner_distinct_store split: option.splits)
  then show ?case using Cons.IH by simp
qed

lemma inner_distinct_raw: "inner_distinct (raw_values_by_concept cpm um soup)"
proof -
  have "inner_distinct ([] :: (string, (string, real) dict) dict)"
    by (simp add: inner_distinct_def)
  then show ?thesis
    unfolding raw_values_by_concept_def by (rule inner_distinct_scan)
qed

lemma fold_update_lookup:
  "distinct (map fst pm) \<Longrightarrow>
     map_of (fold (\<lambda>pv m. AList.update (fst pv) (snd pv) m) pm merged) p =
       (case map_of pm p of Some v \<Rightarrow> Some v | None \<Rightarrow> map_of merged p)"
proof (induction pm arbitrary: merged)
  case Nil
  then show ?case by simp
next
  case (Cons a pm)
  then have d: "distinct (map fst pm)" and na: "fst a \<notin> fst ` set pm" by auto
  have "map_of pm (fst a) = None" using na by (simp add: map_of_eq_None_iff)
  then show ?case
    using Cons.IH[OF d, of "AList.update (fst a) (snd a) merged"]
    by (cases a) (auto simp: update_conv' split: option.splits)
qed

lemma merge_concept_lookup:
  assumes "inner_distinct raw"
  shows "map_of (merge_concept raw c merged) p =
     (case lookup2 raw c p of Some v \<Rightarrow> Some v | None \<Rightarrow> map_of merged p)"
proof (cases "map_of raw c")
  case None
  then show ?thesis by (simp add: merge_concept_def lookup2_def)
next
  case (Some pm)
  with assms have "distinct (map fst pm)" by (simp add: inner_distinct_def)
  from fold_update_lookup[OF this] Some show ?thesis
    by (simp add: merge_concept_def lookup2_def)
qed

lemma last_reporting_Cons:
  "last_reporting val (c # cs) p =
     (case last_reporting val cs p of Some v \<Rightarrow> Some v | None \<Rightarrow> val c p)"
proof (cases "filter (\<lambda>c. val c p \<noteq> None) cs")
  case Nil
  then show ?thesis by (simp add: last_reporting_def)
next
  case (Cons x xs)
  have "last (x # xs) \<in> set (filter (\<lambda>c. val c p \<noteq> None) cs)"
    unfolding Cons by (rule last_in_set) simp
  then have "val (last (x # xs)) p \<noteq> None" by simp
  then obtain v where v: "val (last (x # xs)) p = Some v" by blast
  have "last_reporting val cs p = Some v"
    using Cons v by (simp add: last_reporting_def del: last.simps)
  moreover have "last_reporting val (c # cs) p = Some v"
    using Cons v by (simp add: last_reporting_def del: last.simps) (simp)
  ultimately show ?thesis by simp
qed

lemma merge_concepts_fold_lookup:
  assumes "inner_distinct raw"
  shows "map_of (fold (merge_concept raw) cl merged) p =
     (case last_reporting (lookup2 raw) cl p of Some v \<Rightarrow> Some v | None \<Rightarrow> map_of merged p)"
proof (induction cl arbitrary: merged)
  case Nil
  then show ?case by (simp add: last_reporting_def)
next
  case (Cons c cl)
  show ?case
    using Cons.IH[of "merge_concept raw c merged"]
    by (simp add: last_reporting_Cons merge_concept_lookup[OF assms] split: option.splits)
qed

lemma merge_concepts_lookup:
  "inner_distinct raw \<Longrightarrow>
     map_of (merge_concepts raw cl) p = last_reporting (lookup2 raw) cl p"
  by (simp add: merge_concepts_def merge_concepts_fold_lookup split: option.splits)

lemma merge_step_lookup:
  "map_of (merge_step raw e res) k =
     (if k = fst e \<and> merge_concepts raw (snd e) \<noteq> [] then Some (merge_concepts raw (snd e))
      else map_of res k)"
  by (simp add: merge_step_def Let_def update_conv')

lemma merge_table_other:
  "key \<notin> fst ` set cmap \<Longrightarrow> map_of (fold (merge_step raw) cmap res) key = map_of res key"
  by (induction cmap arbitrary: res) (auto simp: merge_step_lookup)

lemma merge_table_lookup:
  assumes "distinct (map fst cmap)" and "(key, cl) \<in> set cmap"
  shows "get_for_period (fold (merge_step raw) cmap res) key p =
     (if merge_concepts raw cl = [] then get_for_period res key p
      else map_of (merge_concepts raw cl) p)"
  using assms
proof (induction cmap arbitrary: res)
  case Nil
  then show ?case by simp
next
  case (Cons e es)
  show ?case
  proof (cases "e = (key, cl)")
    case True
    with Cons.prems have "key \<notin> fst ` set es" by auto
    then have "map_of (fold (merge_step raw) es (merge_step raw e res)) key =
        map_of (merge_step raw e res) key"
      by (rule merge_table_other)
    then have "get_for_period (fold (merge_step raw) (e # es) res) key p =
        (case map_of (merge_step raw e res) key of None \<Rightarrow> None | Some pp \<Rightarrow> map_of pp p)"
      by (simp add: get_for_period_def)
    also have "\<dots> = (if merge_concepts raw cl = [] then get_for_period res key p
      else map_of (merge_concepts raw cl) p)"
      using True by (simp add: merge_step_lookup get_for_period_def)
    finally show ?thesis .
  next
    case False
    with Cons.prems have mem: "(key, cl) \<in> set es" and d: "distinct (map fst es)" by auto
    from mem have "key \<in> fst ` set es" by force
    with Cons.prems have "fst e \<noteq> key" by auto
    then have "get_for_period (merge_step raw e res) key p = get_for_period res key p"
      by (simp add: get_for_period_def merge_step_lookup)
    with Cons.IH[OF d mem, of "merge_step raw e res"] show ?thesis by simp
  qed
qed

lemma concept_map_distinct: "distinct (map fst concept_map)"
  by (simp add: concept_map_def)

lemma mk_fact_nonfraction: "is_ix_nonfraction (mk_fact n c t)"
  by (simp add: tag_eval)

lemma mk_fact_eval:
  "fact_of_tag [(''c1'', ''2023-12-31'')] [] (mk_fact ''us-gaap:Revenues'' ''c1'' ''100'') =
     Some (''us-gaap:Revenues'', ''2023-12-31'', 100)"
  "fact_of_tag [(''c1'', ''2023-12-31'')] [] (mk_fact ''us-gaap:Revenues'' ''c1'' ''120'') =
     Some (''us-gaap:Revenues'', ''2023-12-31'', 120)"
  "fact_of_tag [(''c1'', ''2023-12-31'')] [] (mk_fact ''us-gaap:SalesRevenueNet'' ''c1'' ''50'') =
     Some (''us-gaap:SalesRevenueNet'', ''2023-12-31'', 50)"
  by (simp_all add: tag_eval number_eval Let_def)

lemmas merge_eval =
  extract_key_facts_from_ixbrl_def raw_values_by_concept_def scan_step_def store_fact_def
  merge_table_def concept_map_def merge_step_def merge_concepts_def merge_concept_def
  get_for_period_def mk_fact_nonfraction mk_fact_eval

section \<open>Properties of the revenue reconciler\<close>






















lemmas reconciler_eval = direct_pairs_def parsed_pairs_def reconciler_pairs_def
  context_end_by_id_def context_step_def is_nonfraction_tag_def direct_fact_of_def
  direct_scaled_def REVENUE_CONCEPTS_def parsed_fact_of_def parsed_scaled_def
  parsed_period_str_def mk_fact_with_def tag_text_def map_filter_simps
  contains_def



lemma pairs_c3_unit:
  "reconciler_pairs (Some doc_c3_unit) [] = [(''2023-12-31'', 5)]"
  by (simp add: doc_c3_unit_def reconciler_eval number_eval tag_eval Let_def)

lemmas fix_eval = fix_revenue_from_ixbrl_def revenue_from_parsed_def parsed_step_def
  extract_revenue_direct_from_file_def direct_step_def keep_larger_def


lemma fixed_c3_parsed:
  "fix_revenue_from_ixbrl (Some doc_c3) ixbrl_facts_c3 facts_c3 =
     [(''revenue'', [(''2023-12-31'', 3000)]),
      (''net_income'', [(''2023-12-31'', 7)])]"
  by (simp add: ixbrl_facts_c3_def facts_c3_def fix_eval reconciler_eval number_eval tag_eval
        Let_def)




section \<open>Properties of the lexical fallback ranking\<close>

lemma update_fresh:
  "k \<notin> fst ` set al \<Longrightarrow> AList.update k v al = al @ [(k, v)]"
  by (induction al) auto

lemma fallback_loop_closed:
  assumes "distinct (map snd xs)"
    and "snd ` set xs \<inter> fst ` set res = {}"
    and "\<forall>x \<in> set xs. map_of idx (snd x) \<noteq> None"
    and "length res < max k 1"
  shows "fallback_loop idx k ms xs res =
     res @ map (\<lambda>x. (snd x, the (map_of idx (snd x))))
             (take (max k 1 - length res) (takeWhile (\<lambda>x. \<not> fst x < ms) xs))"
  using assms
proof (induction xs arbitrary: res)
  case Nil
  then show ?case by simp
next
  case (Cons x xs)
  show ?case
  proof (cases "fst x < ms")
    case True
    then show ?thesis by simp
  next
    case False
    from Cons.prems(3) obtain m where m: "map_of idx (snd x) = Some m" by auto
    from Cons.prems(2) have fresh: "snd x \<notin> fst ` set res" by auto
    let ?res' = "res @ [(snd x, m)]"
    have upd: "AList.update (snd x) m res = ?res'" using fresh by (rule update_fresh)
    have pos: "0 < max k 1 - length res" using Cons.prems(4) by simp
    then obtain j where j: "max k 1 - length res = Suc j" by (cases "max k 1 - length res") auto
    show ?thesis
    proof (cases "k \<le> length ?res'")
      case True
      then have "j = 0" using j Cons.prems(4) by simp
      with True False m upd j show ?thesis by simp
    next
      case nk: False
      have d: "distinct (map snd xs)" using Cons.prems(1) by simp
      have disj: "snd ` set xs \<inter> fst ` set ?res' = {}"
        using Cons.prems(1,2) by auto
      have def: "\<forall>y \<in> set xs. map_of idx (snd y) \<noteq> None" using Cons.prems(3) by simp
      have len: "length ?res' < max k 1" using nk by simp
      have jj: "max k 1 - length ?res' = j" using j by simp
      from Cons.IH[OF d disj def len] nk False m upd j jj show ?thesis by simp
    qed
  qed
qed

lemma scored_sections_props:
  assumes "distinct (map fst idx)" and "x \<in> set (scored_sections question idx)"
  shows "\<exists>m. (snd x, m) \<in> set idx \<and> map_of idx (snd x) = Some m
           \<and> fst x = score_section_for_question question m \<and> 0 < fst x"
proof -
  from assms(2) obtain sm where sm: "sm \<in> set idx"
    "0 < score_section_for_question question (snd sm)"
    "x = (score_section_for_question question (snd sm), fst sm)"
    by (auto simp: scored_sections_def)
  then have "(fst sm, snd sm) \<in> set idx" by simp
  with assms(1) have "map_of idx (fst sm) = Some (snd sm)" by (simp only: map_of_is_SomeI)
  with sm show ?thesis by auto
qed

lemma scored_sections_sids: "map snd (scored_sections question idx) =
    map fst (filter (\<lambda>sm. score_section_for_question question (snd sm) > 0) idx)"
  by (simp add: scored_sections_def comp_def)

lemma scored_sections_distinct:
  assumes "distinct (map fst idx)"
  shows "distinct (map snd (sort_scored (scored_sections question idx)))"
proof -
  have d: "distinct (map snd (scored_sections question idx))"
    unfolding scored_sections_sids using assms by (rule distinct_map_filter)
  then have "distinct (scored_sections question idx)"
    and "inj_on snd (set (scored_sections question idx))"
    by (simp_all add: distinct_map)
  then show ?thesis by (simp add: sort_scored_def distinct_map)
qed

lemma fallback_closed:
  assumes "distinct (map fst idx)"
  shows "fallback_sections_for_question question idx top_k min_score =
     map (\<lambda>x. (snd x, the (map_of idx (snd x))))
       (take (max top_k 1)
          (takeWhile (\<lambda>x. min_score \<le> fst x) (sort_scored (scored_sections question idx))))"
proof -
  let ?L = "sort_scored (scored_sections question idx)"
  have 1: "distinct (map snd ?L)" using assms by (rule scored_sections_distinct)
  have 2: "snd ` set ?L \<inter> fst ` set ([] :: (string, section_meta) dict) = {}" by simp
  have 3: "\<forall>x \<in> set ?L. map_of idx (snd x) \<noteq> None"
    using scored_sections_props[OF assms] by (fastforce simp: sort_scored_def)
  have 4: "length ([] :: (string, section_meta) dict) < max top_k 1" by simp
  have eq: "(\<lambda>x :: real \<times> string. \<not> fst x < min_score) = (\<lambda>x. min_score \<le> fst x)"
    by (auto simp: not_less)
  from fallback_loop_closed[OF 1 2 3 4, of min_score] show ?thesis
    by (simp add: fallback_sections_for_question_def eq)
qed

lemma score_formula:
  assumes "normalize_text question \<noteq> []"
  shows "score_section_for_question question m =
     real (card (set (normalize_text question) \<inter> section_tokens m))
       / real (card (set (normalize_text question)))"
proof -
  have "set (normalize_text question) \<noteq> {}" using assms by simp
  then have "0 < card (set (normalize_text question))" by (simp add: card_gt_0_iff)
  then have "max (card (set (normalize_text question))) 1 = card (set (normalize_text question))"
    by simp
  then show ?thesis
    by (simp add: score_section_for_question_def Let_def)
qed

lemma score_zero_overlap:
  "set (normalize_text question) \<inter> section_tokens m = {} \<Longrightarrow>
     score_section_for_question question m = 0"
  by (simp add: score_section_for_question_def Let_def)

lemma prefix_take_takeWhile:
  "\<exists>rest. xs = take n (takeWhile P xs) @ rest"
proof -
  have "xs = takeWhile P xs @ dropWhile P xs" by simp
  moreover have "takeWhile P xs = take n (takeWhile P xs) @ drop n (takeWhile P xs)" by simp
  ultimately have "xs = take n (takeWhile P xs) @ (drop n (takeWhile P xs) @ dropWhile P xs)"
    by (metis append.assoc)
  then show ?thesis by blast
qed

lemma sorted_desc_takeWhile_mem:
  assumes "sorted (map (\<lambda>x. - fst x) (L :: (real \<times> 'a) list))" and "x \<in> set L" and "ms \<le> fst x"
  shows "x \<in> set (takeWhile (\<lambda>x. ms \<le> fst x) L)"
proof (rule ccontr)
  let ?P = "\<lambda>x :: real \<times> 'a. ms \<le> fst x"
  assume n: "x \<notin> set (takeWhile ?P L)"
  have L: "L = takeWhile ?P L @ dropWhile ?P L" by simp
  with assms(2) n have xd: "x \<in> set (dropWhile ?P L)" by (metis Un_iff set_append)
  then obtain y ys where d: "dropWhile ?P L = y # ys" by (cases "dropWhile ?P L") auto
  then have "dropWhile ?P L \<noteq> []" by simp
  then have "\<not> ?P (hd (dropWhile ?P L))" by (rule hd_dropWhile)
  with d have ny: "fst y < ms" by simp
  have "sorted (map (\<lambda>x. - fst x) (takeWhile ?P L @ y # ys))" using assms(1) L d by metis
  then have "sorted (map (\<lambda>x. - fst x) (y # ys))" by (simp add: sorted_append)
  then have "\<forall>z \<in> set (y # ys). - fst y \<le> - fst z" by auto
  with xd d have "fst x \<le> fst y" by auto
  with ny assms(3) show False by simp
qed

lemma fallback_members:
  assumes d: "distinct (map fst idx)"
    and mem: "sm \<in> set (fallback_sections_for_question question idx top_k min_score)"
  shows "sm \<in> set idx \<and> min_score \<le> score_section_for_question question (snd sm)
       \<and> 0 < score_section_for_question question (snd sm)"
proof -
  let ?L = "sort_scored (scored_sections question idx)"
  let ?W = "takeWhile (\<lambda>x. min_score \<le> fst x) ?L"
  from mem obtain x where x: "x \<in> set (take (max top_k 1) ?W)"
    and sm: "sm = (snd x, the (map_of idx (snd x)))"
    unfolding fallback_closed[OF d] by auto
  from x have xw: "x \<in> set ?W" by (rule in_set_takeD)
  then have p: "min_score \<le> fst x" by (rule set_takeWhileD[THEN conjunct2])
  from xw have "x \<in> set ?L" by (rule set_takeWhileD[THEN conjunct1])
  then have "x \<in> set (scored_sections question idx)" by (simp add: sort_scored_def)
  from scored_sections_props[OF d this] obtain m where
    "(snd x, m) \<in> set idx" "map_of idx (snd x) = Some m"
    "fst x = score_section_for_question question m" "0 < fst x" by blast
  with sm p show ?thesis by simp
qed

lemma fallback_scores:
  assumes d: "distinct (map fst idx)"
  shows "map (\<lambda>sm. - score_section_for_question question (snd sm))
           (fallback_sections_for_question question idx top_k min_score) =
         map (\<lambda>x. - fst x)
           (take (max top_k 1)
              (takeWhile (\<lambda>x. min_score \<le> fst x) (sort_scored (scored_sections question idx))))"
proof -
  let ?L = "sort_scored (scored_sections question idx)"
  let ?T = "take (max top_k 1) (takeWhile (\<lambda>x. min_score \<le> fst x) ?L)"
  have "score_section_for_question question (the (map_of idx (snd x))) = fst x"
    if "x \<in> set ?T" for x
  proof -
    from that have "x \<in> set (takeWhile (\<lambda>x. min_score \<le> fst x) ?L)" by (rule in_set_takeD)
    then have "x \<in> set ?L" by (rule set_takeWhileD[THEN conjunct1])
    then have "x \<in> set (scored_sections question idx)" by (simp add: sort_scored_def)
    from scored_sections_props[OF d this] show ?thesis by auto
  qed
  then show ?thesis unfolding fallback_closed[OF d] by (simp add: comp_def)
qed

lemma fallback_sorted:
  assumes d: "distinct (map fst idx)"
  shows "sorted (map (\<lambda>sm. - score_section_for_question question (snd sm))
           (fallback_sections_for_question question idx top_k min_score))"
proof -
  let ?L = "sort_scored (scored_sections question idx)"
  let ?T = "take (max top_k 1) (takeWhile (\<lambda>x. min_score \<le> fst x) ?L)"
  obtain rest where L: "?L = ?T @ rest" using prefix_take_takeWhile by blast
  have "sorted (map (\<lambda>x. - fst x) ?L)" by (simp add: sort_scored_def)
  then have "sorted (map (\<lambda>x. - fst x) (?T @ rest))" using L by simp
  then have "sorted (map (\<lambda>x. - fst x) ?T)" by (simp add: sorted_append)
  then show ?thesis by (simp only: fallback_scores[OF d])
qed

lemma fallback_length:
  assumes d: "distinct (map fst idx)" and k: "0 < top_k"
  shows "length (fallback_sections_for_question question idx top_k min_score) \<le> top_k"
  using k unfolding fallback_closed[OF d] by simp

lemma fallback_zero_overlap:
  assumes d: "distinct (map fst idx)" and sm: "sm \<in> set idx"
    and z: "set (normalize_text question) \<inter> section_tokens (snd sm) = {}"
  shows "fst sm \<notin> fst ` set (fallback_sections_for_question question idx top_k min_score)"
proof
  assume "fst sm \<in> fst ` set (fallback_sections_for_question question idx top_k min_score)"
  then obtain r where r: "r \<in> set (fallback_sections_for_question question idx top_k min_score)"
    and f: "fst r = fst sm" by auto
  from fallback_members[OF d r] have ri: "r \<in> set idx"
    and pos: "0 < score_section_for_question question (snd r)" by simp_all
  from d ri sm f have "r = sm" by (metis eq_key_imp_eq_value prod.collapse)
  with pos score_zero_overlap[OF z] show False by simp
qed

lemma sorted_map_split:
  "sorted (map f ((A @ B) @ C)) \<Longrightarrow> \<forall>t \<in> set A. \<forall>y \<in> set B. f t \<le> f y"
  by (simp add: sorted_append)

lemma fallback_best:
  assumes d: "distinct (map fst idx)" and sm: "sm \<in> set idx"
    and ok: "min_score \<le> score_section_for_question question (snd sm)"
            "0 < score_section_for_question question (snd sm)"
    and out: "fst sm \<notin> fst ` set (fallback_sections_for_question question idx top_k min_score)"
  shows "length (fallback_sections_for_question question idx top_k min_score) = max top_k 1
     \<and> (\<forall>r \<in> set (fallback_sections_for_question question idx top_k min_score).
           score_section_for_question question (snd sm)
             \<le> score_section_for_question question (snd r))"
proof -
  let ?sc = "score_section_for_question question"
  let ?L = "sort_scored (scored_sections question idx)"
  let ?W = "takeWhile (\<lambda>x. min_score \<le> fst x) ?L"
  let ?n = "max top_k 1"
  let ?x = "(?sc (snd sm), fst sm)"
  have srt: "sorted (map (\<lambda>x. - fst x) ?L)" by (simp add: sort_scored_def)
  have "?x \<in> set (scored_sections question idx)"
    using sm ok(2) by (force simp: scored_sections_def)
  then have xl: "?x \<in> set ?L" by (simp add: sort_scored_def)
  have xw: "?x \<in> set ?W"
    using srt xl ok(1) by (intro sorted_desc_takeWhile_mem) simp_all
  have keys: "fst ` set (fallback_sections_for_question question idx top_k min_score) =
      snd ` set (take ?n ?W)"
    unfolding fallback_closed[OF d] by (simp add: image_comp comp_def)
  have xt: "?x \<notin> set (take ?n ?W)"
  proof
    assume "?x \<in> set (take ?n ?W)"
    then have "snd ?x \<in> snd ` set (take ?n ?W)" by (rule imageI)
    with out keys show False by simp
  qed
  have W: "?W = take ?n ?W @ drop ?n ?W" by simp
  with xw xt have xd: "?x \<in> set (drop ?n ?W)" by (metis Un_iff set_append)
  then have "drop ?n ?W \<noteq> []" by auto
  then have len: "length (take ?n ?W) = ?n" by simp
  obtain rest where L: "?L = ?W @ rest" by (metis takeWhile_dropWhile_id)
  have "sorted (map (\<lambda>x. - fst x) ((take ?n ?W @ drop ?n ?W) @ rest))"
    using srt L W by metis
  then have "\<forall>t \<in> set (take ?n ?W). \<forall>y \<in> set (drop ?n ?W). - fst t \<le> - fst y"
    by (rule sorted_map_split)
  with xd have le: "\<forall>t \<in> set (take ?n ?W). ?sc (snd sm) \<le> fst t" by fastforce
  have "\<forall>v \<in> set (map (\<lambda>x. - fst x) (take ?n ?W)). - v \<ge> ?sc (snd sm)"
    using le by auto
  then have "\<forall>v \<in> set (map (\<lambda>r. - ?sc (snd r))
      (fallback_sections_for_question question idx top_k min_score)). - v \<ge> ?sc (snd sm)"
    by (simp only: fallback_scores[OF d])
  then have "\<forall>r \<in> set (fallback_sections_for_question question idx top_k min_score).
      ?sc (snd sm) \<le> ?sc (snd r)" by auto
  moreover have "length (fallback_sections_for_question question idx top_k min_score) = ?n"
    unfolding fallback_closed[OF d] using len by simp
  ultimately show ?thesis by blast
qed

lemma py_split_Nil: "py_split [] = []"
  by (subst py_split.simps) simp

lemma py_split_word:
  "\<not> is_space c \<Longrightarrow>
     py_split (c # cs) =
       (c # takeWhile (\<lambda>d. \<not> is_space d) cs) # py_split (dropWhile (\<lambda>d. \<not> is_space d) cs)"
  by (subst py_split.simps) simp

lemma py_split_space: "is_space c \<Longrightarrow> py_split (c # cs) = py_split cs"
proof -
  assume c: "is_space c"
  have "py_split (c # cs) =
     (let t = dropWhile is_space (c # cs)
      in if t = [] then []
         else takeWhile (\<lambda>c. \<not> is_space c) t # py_split (dropWhile (\<lambda>c. \<not> is_space c) t))"
    by (rule py_split.simps)
  also have "dropWhile is_space (c # cs) = dropWhile is_space cs" using c by simp
  also have "(let t = dropWhile is_space cs
      in if t = [] then []
         else takeWhile (\<lambda>c. \<not> is_space c) t # py_split (dropWhile (\<lambda>c. \<not> is_space c) t))
     = py_split cs"
    by (rule py_split.simps[symmetric])
  finally show ?thesis .
qed

text \<open>The tokeniser of the code yields the tokens of the specification.\<close>

lemma space_not_token: "is_space c \<Longrightarrow> \<not> (is_lower c \<or> is_digit c)"
  by (auto simp: is_space_def is_lower_def is_digit_def)

lemma py_split_run:
  assumes w: "w \<noteq> []" "\<forall>c \<in> set w. \<not> is_space c" and s: "s = [] \<or> is_space (hd s)"
  shows "py_split (w @ s) = w # py_split s"
proof -
  from w obtain c cs where wc: "w = c # cs" by (cases w) auto
  with w have c: "\<not> is_space c" by simp
  have d: "dropWhile is_space (w @ s) = w @ s" using wc c by simp
  have t: "takeWhile (\<lambda>c. \<not> is_space c) (w @ s) = w"
    using w(2) s by (cases s) (simp_all add: takeWhile_append2)
  have r: "dropWhile (\<lambda>c. \<not> is_space c) (w @ s) = s"
    using w(2) s by (cases s) (simp_all add: dropWhile_append2)
  have "py_split (w @ s) =
     (let t = dropWhile is_space (w @ s)
      in if t = [] then []
         else takeWhile (\<lambda>c. \<not> is_space c) t # py_split (dropWhile (\<lambda>c. \<not> is_space c) t))"
    by (rule py_split.simps)
  then show ?thesis using w(1) by (simp add: d t r)
qed

lemma pieces_dropWhile:
  "(\<And>c. Q c \<Longrightarrow> \<not> P c) \<Longrightarrow> pieces P [] (dropWhile Q cs) = pieces P [] cs"
  by (induction cs) simp_all

lemma py_split_sub_nonword:
  "(\<forall>c \<in> set cur. is_lower c \<or> is_digit c) \<Longrightarrow>
     py_split (cur @ sub_nonword u) = pieces (\<lambda>c. is_lower c \<or> is_digit c) cur u"
proof (induction u arbitrary: cur rule: sub_nonword.induct)
  case 1
  have ns: "\<forall>c \<in> set cur. \<not> is_space c" using 1 space_not_token by blast
  show ?case
  proof (cases "cur = []")
    case True
    then show ?thesis by (simp add: py_split_Nil)
  next
    case False
    from py_split_run[OF False ns, of "[]"] show ?thesis using False by (simp add: py_split_Nil)
  qed
next
  case (2 c cs)
  have ns: "\<forall>c \<in> set cur. \<not> is_space c" using "2.prems" space_not_token by blast
  show ?case
  proof (cases "is_lower c \<or> is_digit c")
    case True
    then have k: "keeps_char c" by (auto simp: keeps_char_def)
    have "\<forall>d \<in> set (cur @ [c]). is_lower d \<or> is_digit d" using "2.prems" True by simp
    from "2.IH"(1)[OF k this] show ?thesis using True k by simp
  next
    case False
    have e: "\<forall>c \<in> set ([]::string). is_lower c \<or> is_digit c" by simp
    show ?thesis
    proof (cases "is_space c")
      case True
      then have k: "keeps_char c" by (simp add: keeps_char_def)
      from "2.IH"(1)[OF k e]
      have ih: "py_split (sub_nonword cs) = pieces (\<lambda>c. is_lower c \<or> is_digit c) [] cs" by simp
      have sp: "py_split (c # sub_nonword cs) = py_split (sub_nonword cs)"
        using True by (rule py_split_space)
      show ?thesis
      proof (cases "cur = []")
        case True
        then show ?thesis using False k sp ih by simp
      next
        case nonempty: False
        from py_split_run[OF nonempty ns, of "c # sub_nonword cs"] True
        have "py_split (cur @ c # sub_nonword cs) = cur # py_split (c # sub_nonword cs)" by simp
        then show ?thesis using False k sp ih nonempty by simp
      qed
    next
      case nospace: False
      then have k: "\<not> keeps_char c" using False by (simp add: keeps_char_def)
      from "2.IH"(2)[OF k e]
      have "py_split (sub_nonword (dropWhile (\<lambda>d. \<not> keeps_char d) cs)) =
          pieces (\<lambda>c. is_lower c \<or> is_digit c) [] (dropWhile (\<lambda>d. \<not> keeps_char d) cs)"
        by simp
      also have "\<dots> = pieces (\<lambda>c. is_lower c \<or> is_digit c) [] cs"
        by (rule pieces_dropWhile) (simp add: keeps_char_def)
      finally have ih: "py_split (sub_nonword (dropWhile (\<lambda>d. \<not> keeps_char d) cs)) =
          pieces (\<lambda>c. is_lower c \<or> is_digit c) [] cs" .
      let ?rest = "sub_nonword (dropWhile (\<lambda>d. \<not> keeps_char d) cs)"
      have sp: "py_split (CHR '' '' # ?rest) = py_split ?rest"
        by (rule py_split_space) (simp add: is_space_def)
      show ?thesis
      proof (cases "cur = []")
        case True
        then show ?thesis using False k sp ih by simp
      next
        case nonempty: False
        from py_split_run[OF nonempty ns, of "CHR '' '' # ?rest"]
        have "py_split (cur @ CHR '' '' # ?rest) = cur # py_split (CHR '' '' # ?rest)"
          by (simp add: is_space_def)
        then show ?thesis using False k sp ih nonempty by simp
      qed
    qed
  qed
qed

lemma pieces_nonempty: "[] \<notin> set (pieces P [] u)"
proof -
  have "\<And>cur. [] \<notin> set (pieces P cur u)"
    by (induction u) auto
  then show ?thesis .
qed

lemma normalize_text_spec: "normalize_text s = spec_tokens s"
proof -
  have "py_split (sub_nonword (lower s)) = spec_tokens s"
    using py_split_sub_nonword[of "[]" "lower s"] by (simp add: spec_tokens_def)
  moreover have "filter (\<lambda>t. t \<noteq> []) (spec_tokens s) = spec_tokens s"
    unfolding spec_tokens_def using pieces_nonempty[of "\<lambda>c. is_lower c \<or> is_digit c" "lower s"]
    by (auto simp: filter_id_conv)
  ultimately show ?thesis by (simp add: normalize_text_def)
qed

lemma section_tokens_spec:
  "section_tokens m =
     set (spec_tokens (or_str (sec_label m) (or_str (sec_title m) []) @ '' ''
            @ take 2000 (or_str (sec_text m) [])))"
  by (simp add: section_tokens_def normalize_text_spec Let_def)

text \<open>The concrete question and index.\<close>

lemmas text_eval =
  spec_tokens_def lower_def lower_char_def is_lower_def is_digit_def or_str_def

lemma tokens_c9:
  "spec_tokens question_c9 =
     [''what'', ''are'', ''the'', ''supply'', ''chain'', ''risk'', ''factors'']"
  "spec_tokens (''Item 1. Business'' @ '' ''
       @ take 2000 ''We design, manufacture and market smartphones.'') =
     [''item'', ''1'', ''business'', ''we'', ''design'', ''manufacture'', ''and'', ''market'',
      ''smartphones'']"
  "spec_tokens (''Item 7A. Market Risk'' @ '' '' @ take 2000 []) =
     [''item'', ''7a'', ''market'', ''risk'']"
  "spec_tokens (''SUPPLY (Factors)'' @ '' '' @ take 2000 []) = [''supply'', ''factors'']"
  "spec_tokens (''Item 1A. Risk Factors'' @ '' ''
       @ take 2000 ''The Company's supply chain is exposed.'') =
     [''item'', ''1a'', ''risk'', ''factors'', ''the'', ''company'', ''s'', ''supply'', ''chain'',
      ''is'', ''exposed'']"
  by (simp_all add: text_eval question_c9_def)

lemma scores_c9:
  "score_section_for_question question_c9
     \<lparr>sec_label = Some ''Item 1. Business'', sec_title = None,
      sec_text = Some ''We design, manufacture and market smartphones.''\<rparr> = 0"
  "score_section_for_question question_c9
     \<lparr>sec_label = Some ''Item 7A. Market Risk'', sec_title = None, sec_text = None\<rparr> = 1 / 7"
  "score_section_for_question question_c9
     \<lparr>sec_label = None, sec_title = Some ''SUPPLY (Factors)'', sec_text = Some []\<rparr> = 2 / 7"
  "score_section_for_question question_c9
     \<lparr>sec_label = Some ''Item 1A. Risk Factors'', sec_title = Some ''unused'',
      sec_text = Some ''The Company's supply chain is exposed.''\<rparr> = 5 / 7"
  unfolding score_section_for_question_def section_tokens_spec normalize_text_spec Let_def
  by (simp_all add: or_str_def tokens_c9[simplified])

lemma result_c9:
  "map fst (qa_fallback question_c9 idx_c9) = [''item_1a'', ''overview'']"
  by (simp add: qa_fallback_def fallback_sections_for_question_def scored_sections_def
        sort_scored_def idx_c9_def scores_c9 Let_def)

section \<open>Properties of the section map\<close>

lemma finditer_skip:
  "0 < k \<Longrightarrow> finditer pos k (c # cs) = finditer (Suc pos) (k - 1) cs"
  by (cases k) simp_all

lemmas heading_eval =
  match_heading_def lower_def lower_char_def is_space_def is_digit_def Let_def finditer_skip

lemma finditer_c8: "finditer 0 0 text_c8 = [(0, 21, ''1A'')]"
  by (simp add: text_c8_def heading_eval)

lemma finditer_c10: "finditer 0 0 text_c10 = [(0, 21, ''1A''), (28, 42, ''17'')]"
  by (simp add: text_c10_def heading_eval)

lemma headings_c8:
  "find_item_headings text_c8 =
     [\<lparr>h_start = 0, h_end = 21, h_section_number = ''1A'',
       h_heading = ''Item 1A. Risk Factors'', h_section_id = ''item_1a''\<rparr>]"
  by (simp add: find_item_headings_def finditer_c8 strip_def is_space_def lower_def
        lower_char_def)
     (simp add: text_c8_def slice_def is_space_def)

lemma map_c8:
  "sm_chunks (build_10k_section_map text_c8) =
     [\<lparr>c_id = ''item_1a'', c_label = ''Item 1A. Risk Factors'', c_section_number = ''1A'',
       c_text = text_c8\<rparr>]"
  "sm_sections_by_id (build_10k_section_map text_c8) =
     [(''item_1a'',
       \<lparr>c_id = ''item_1a'', c_label = ''Item 1A. Risk Factors'', c_section_number = ''1A'',
        c_text = text_c8\<rparr>)]"
proof -
  have s: "strip (slice 0 (length text_c8) text_c8) = text_c8"
    by (simp add: slice_def) (simp add: text_c8_def strip_def is_space_def)
  show "sm_chunks (build_10k_section_map text_c8) =
     [\<lparr>c_id = ''item_1a'', c_label = ''Item 1A. Risk Factors'', c_section_number = ''1A'',
       c_text = text_c8\<rparr>]"
    by (simp add: build_10k_section_map_def headings_c8 Let_def s)
  show "sm_sections_by_id (build_10k_section_map text_c8) =
     [(''item_1a'',
       \<lparr>c_id = ''item_1a'', c_label = ''Item 1A. Risk Factors'', c_section_number = ''1A'',
        c_text = text_c8\<rparr>)]"
    by (simp add: build_10k_section_map_def headings_c8 Let_def s index_chunk_def)
qed

lemma static_index_keys: "map fst (static_index sbi) = catalogue_ids"
  by (simp add: static_index_def static_catalogue_def catalogue_ids_def)

lemma static_index_entry:
  "(sid, e) \<in> set (static_index sbi) \<Longrightarrow> \<exists>l t p g. e = entry sbi sid l t p g"
  by (auto simp: static_index_def)

lemma static_index_lookup:
  assumes "sid \<in> set catalogue_ids"
  shows "\<exists>l t p g. map_of (static_index sbi) sid = Some (entry sbi sid l t p g)"
proof -
  from assms have "sid \<in> fst ` set (static_index sbi)"
    using static_index_keys[of sbi] by (metis set_map)
  then obtain e where e: "map_of (static_index sbi) sid = Some e"
    by (metis map_of_eq_None_iff not_Some_eq)
  then have "(sid, e) \<in> set (static_index sbi)" by (rule map_of_SomeD)
  from static_index_entry[OF this] e show ?thesis by blast
qed

lemma static_index_absent:
  assumes "sid \<notin> set catalogue_ids"
  shows "map_of (static_index sbi) sid = None"
proof -
  from assms have "sid \<notin> fst ` set (static_index sbi)"
    using static_index_keys[of sbi] by (metis set_map)
  then show ?thesis by (simp add: map_of_eq_None_iff)
qed

lemma add_extra_keeps:
  "map_of index sid = Some e \<Longrightarrow> map_of (add_extra item index) sid = Some e"
  by (auto simp: add_extra_def Let_def update_conv')

lemma fold_add_extra_keeps:
  "map_of index sid = Some e \<Longrightarrow> map_of (fold add_extra items index) sid = Some e"
  by (induction items arbitrary: index) (simp_all add: add_extra_keeps)

lemma fold_add_extra_new:
  "map_of index sid = None \<Longrightarrow> sid \<in> fst ` set items \<Longrightarrow>
     \<exists>e. map_of (fold add_extra items index) sid = Some e
        \<and> e_section_type e = ''other'' \<and> e_present_in_document e"
proof (induction items arbitrary: index)
  case Nil
  then show ?case by simp
next
  case (Cons item items)
  show ?case
  proof (cases "fst item = sid")
    case True
    let ?e = "\<lparr>e_id = sid, e_label = c_label (snd item), e_section_type = ''other'',
                 e_part = ''UNKNOWN'', e_page_estimate = None,
                 e_approx_char_len = (if c_text (snd item) \<noteq> []
                                      then Some (length (c_text (snd item))) else None),
                 e_present_in_document = True\<rparr>"
    have "map_of (add_extra item index) sid = Some ?e"
      using True Cons.prems(1) by (simp add: add_extra_def Let_def update_conv')
    then have "map_of (fold add_extra items (add_extra item index)) sid = Some ?e"
      by (rule fold_add_extra_keeps)
    then show ?thesis by simp
  next
    case False
    with Cons.prems have mem: "sid \<in> fst ` set items" by auto
    have "map_of (add_extra item index) sid = None"
      using False Cons.prems(1) by (simp add: add_extra_def Let_def update_conv')
    from Cons.IH[OF this mem] show ?thesis by simp
  qed
qed

lemma entry_absent:
  "map_of sbi sid = None \<Longrightarrow>
     \<not> e_present_in_document (entry sbi sid l t p g) \<and>
     e_approx_char_len (entry sbi sid l t p g) = None"
  by (simp add: entry_def or_str_def Let_def)

lemma index_catalogue:
  assumes "sid \<in> set catalogue_ids"
  shows "\<exists>e. map_of (build_sections_index sbi) sid = Some e
      \<and> (map_of sbi sid = None \<longrightarrow> \<not> e_present_in_document e \<and> e_approx_char_len e = None)"
proof -
  from static_index_lookup[OF assms, of sbi] obtain l t p g where
    "map_of (static_index sbi) sid = Some (entry sbi sid l t p g)" by blast
  then have "map_of (build_sections_index sbi) sid = Some (entry sbi sid l t p g)"
    unfolding build_sections_index_def by (rule fold_add_extra_keeps)
  moreover have "map_of sbi sid = None \<longrightarrow>
      \<not> e_present_in_document (entry sbi sid l t p g)
      \<and> e_approx_char_len (entry sbi sid l t p g) = None"
    using entry_absent[of sbi sid l t p g] by simp
  ultimately show ?thesis by (intro exI[of _ "entry sbi sid l t p g"] conjI)
qed

lemma index_extra:
  assumes "map_of sbi sid \<noteq> None" and "sid \<notin> set catalogue_ids"
  shows "\<exists>e. map_of (build_sections_index sbi) sid = Some e
      \<and> e_section_type e = ''other'' \<and> e_present_in_document e"
proof -
  from assms(1) have "sid \<in> fst ` set sbi" by (simp add: map_of_eq_None_iff)
  with static_index_absent[OF assms(2), of sbi] show ?thesis
    unfolding build_sections_index_def by (rule fold_add_extra_new)
qed

lemma headings_c10:
  "find_item_headings text_c10 =
     [\<lparr>h_start = 0, h_end = 21, h_section_number = ''1A'',
       h_heading = ''Item 1A. Risk Factors'', h_section_id = ''item_1a''\<rparr>,
      \<lparr>h_start = 28, h_end = 42, h_section_number = ''17'',
       h_heading = ''Item 17. Extra'', h_section_id = ''item_17''\<rparr>]"
  by (simp add: find_item_headings_def finditer_c10 strip_def is_space_def lower_def
        lower_char_def)
     (simp add: text_c10_def slice_def is_space_def)

lemma chunks_ids: "map c_id (build_chunks t hs) = map h_section_id hs"
  by (induction hs) (simp_all add: Let_def)

lemma index_chunk_dom:
  "map_of (index_chunk c d) sid \<noteq> None \<longleftrightarrow> sid = c_id c \<or> map_of d sid \<noteq> None"
  by (auto simp: index_chunk_def update_conv' split: option.splits if_splits)

lemma fold_index_chunk_dom:
  "map_of (fold index_chunk cs d) sid \<noteq> None \<longleftrightarrow> sid \<in> c_id ` set cs \<or> map_of d sid \<noteq> None"
proof (induction cs arbitrary: d)
  case Nil
  then show ?case by simp
next
  case (Cons c cs)
  have "map_of (fold index_chunk (c # cs) d) sid \<noteq> None \<longleftrightarrow>
      sid \<in> c_id ` set cs \<or> map_of (index_chunk c d) sid \<noteq> None"
    using Cons.IH[of "index_chunk c d"] by simp
  then show ?case unfolding index_chunk_dom by auto
qed

lemma detected_ids:
  assumes "find_item_headings full_text \<noteq> []"
  shows "map_of (sm_sections_by_id (build_10k_section_map full_text)) sid \<noteq> None \<longleftrightarrow>
     sid \<in> h_section_id ` set (find_item_headings full_text)"
proof -
  let ?hs = "find_item_headings full_text"
  have 1: "sm_sections_by_id (build_10k_section_map full_text) =
      fold index_chunk (build_chunks full_text ?hs) []"
    using assms by (simp add: build_10k_section_map_def Let_def)
  have 2: "c_id ` set (build_chunks full_text ?hs) = h_section_id ` set ?hs"
    using chunks_ids[of full_text ?hs] by (metis set_map)
  show ?thesis unfolding 1 fold_index_chunk_dom 2 by simp
qed

lemma index_of_map:
  assumes "find_item_headings full_text \<noteq> []"
  shows "sm_sections_index (build_10k_section_map full_text) =
     build_sections_index (sm_sections_by_id (build_10k_section_map full_text))"
  using assms by (simp add: build_10k_section_map_def Let_def)

section \<open>Claims about the metrics engine and the valuation calculator\<close>

text \<open>
  C7 (as amended).  The FinancialAgent raises \<open>ValueError\<close> exactly when the
  \<open>available_periods\<close> list it reads from the session state is missing or empty, whatever
  the fact table holds.  After the extraction of a fact table with zero periods that is
  the case when the state held no period list before; a list the state already held
  stays, since the ExtractionAgent writes the key only for a non-empty list, and the
  FinancialAgent then does not raise.  A fact table with periods replaces the list, and the
  FinancialAgent does not raise.  The ValuationAgent, when the state has no period and no
  key period, does not raise: it yields the valuation dict in which every field is
  \<open>None\<close>.
\<close>

theorem C7_no_periods:
  "(isl (FinancialAgent_run facts periods) \<longleftrightarrow> periods = [])
   \<and> FinancialAgent_run facts [] = Inl ValueError
   \<and> (extraction_available_periods facts = [] \<and> state_periods before = [] \<longrightarrow>
        FinancialAgent_run facts (state_periods (periods_after_extraction before facts))
          = Inl ValueError)
   \<and> (extraction_available_periods facts = [] \<and> state_periods before \<noteq> [] \<longrightarrow>
        \<not> isl (FinancialAgent_run facts
                 (state_periods (periods_after_extraction before facts))))
   \<and> (extraction_available_periods facts \<noteq> [] \<longrightarrow>
        state_periods (periods_after_extraction before facts)
          = extraction_available_periods facts
        \<and> \<not> isl (FinancialAgent_run facts
                   (state_periods (periods_after_extraction before facts))))
   \<and> (available_periods st = [] \<and> (key_period st = None \<or> key_period st = Some []) \<longrightarrow>
        ValuationAgent_run st = Inr no_periods_metrics)"
  by (simp add: FinancialAgent_run_def ValuationAgent_run_def periods_after_extraction_def
        state_periods_def)

theorem C7_no_periods_witness:
  "extraction_available_periods facts_c7_empty = []
   \<and> FinancialAgent_run facts_c7_empty
       (state_periods (periods_after_extraction None facts_c7_empty)) = Inl ValueError
   \<and> FinancialAgent_run facts_c7_empty
       (state_periods (periods_after_extraction (Some []) facts_c7_empty)) = Inl ValueError
   \<and> \<not> isl (FinancialAgent_run facts_c7_empty
              (state_periods (periods_after_extraction (Some [''2023-12-31'']) facts_c7_empty)))
   \<and> extraction_available_periods facts_c7 = [''2022-12-31'', ''2023-12-31'']
   \<and> state_periods (periods_after_extraction (Some [''2021-12-31'']) facts_c7)
       = [''2022-12-31'', ''2023-12-31'']
   \<and> \<not> isl (FinancialAgent_run facts_c7
              (state_periods (periods_after_extraction (Some [''2021-12-31'']) facts_c7)))
   \<and> available_periods st_empty = [] \<and> key_period st_empty = None
   \<and> ValuationAgent_run st_empty = Inr no_periods_metrics"
proof -
  have e: "state_periods None = []" "state_periods (Some []) = []"
    "state_periods (Some [''2023-12-31'']) \<noteq> []"
    by (simp_all add: state_periods_def)
  have s: "available_periods st_empty = []" "key_period st_empty = None"
    by (simp_all add: st_empty_def)
  note z = periods_c7_empty
  have n: "extraction_available_periods facts_c7 \<noteq> []" by (simp add: periods_c7)
  note t1 = C7_no_periods[of facts_c7_empty "[]" None st_empty]
  note t2 = C7_no_periods[of facts_c7_empty "[]" "Some []" st_empty]
  note t3 = C7_no_periods[of facts_c7_empty "[]" "Some [''2023-12-31'']" st_empty]
  note t4 = C7_no_periods[of facts_c7 "[]" "Some [''2021-12-31'']" st_empty]
  have 1: "FinancialAgent_run facts_c7_empty
       (state_periods (periods_after_extraction None facts_c7_empty)) = Inl ValueError"
    using t1 z e(1) by blast
  have 2: "FinancialAgent_run facts_c7_empty
       (state_periods (periods_after_extraction (Some []) facts_c7_empty)) = Inl ValueError"
    using t2 z e(2) by blast
  have 3: "\<not> isl (FinancialAgent_run facts_c7_empty
              (state_periods (periods_after_extraction (Some [''2023-12-31'']) facts_c7_empty)))"
    using t3 z e(3) by blast
  have 4: "state_periods (periods_after_extraction (Some [''2021-12-31'']) facts_c7)
       = [''2022-12-31'', ''2023-12-31'']"
    using t4 n periods_c7 by simp
  have 5: "\<not> isl (FinancialAgent_run facts_c7
              (state_periods (periods_after_extraction (Some [''2021-12-31'']) facts_c7)))"
    using t4 n by blast
  have 6: "ValuationAgent_run st_empty = Inr no_periods_metrics"
    using t1 s by blast
  from z 1 2 3 periods_c7 4 5 s 6 show ?thesis by (intro conjI)
qed

theorem C7_counterexample:
  "\<not> isl (ValuationAgent_run
      \<lparr>available_periods = [], key_period = None, financial_metrics = [],
       memo_latest_metrics = [], live_current_price = None, financials_raw = []\<rparr>)"
  by (simp add: ValuationAgent_run_def)

text \<open>
  C5 (as amended).  In the FinancialAgent the ebitda of a period is operating income plus
  D&A when both are present, else operating income alone, else net income plus D&A when
  both are present, else net income.  In \<open>financial_calcs._compute_metrics_for_period\<close> the
  ebitda is net income plus whichever of interest, income tax and D&A are present, and it
  is present only when net income is.
\<close>

theorem C5_ebitda:
  "(period \<in> set periods \<longrightarrow>
      (\<exists>fm kp m. FinancialAgent_run facts periods = Inr (fm, kp) \<and> map_of fm period = Some m \<and>
         mget m ''ebitda'' =
           (case get_for_period facts ''operating_income'' period of
              Some oi \<Rightarrow>
                (case get_for_period facts ''depreciation_amortization'' period of
                   Some da \<Rightarrow> Some (oi + da)
                 | None \<Rightarrow> Some oi)
            | None \<Rightarrow>
                (case get_for_period facts ''depreciation_amortization'' period of
                   Some da \<Rightarrow>
                     (case get_for_period facts ''net_income'' period of
                        Some ni \<Rightarrow> Some (ni + da)
                      | None \<Rightarrow> None)
                 | None \<Rightarrow> get_for_period facts ''net_income'' period))))
   \<and> map_of (compute_metrics_for_period facts period) ''ebitda'' =
       (case get_value facts ''net_income'' period of
          None \<Rightarrow> None
        | Some ni \<Rightarrow>
            Some (ni
              + or_zero (get_any_value facts
                  [''interest_expense'', ''interest_and_other_expense'', ''interest_and_other'']
                  period)
              + or_zero (get_any_value facts
                  [''income_tax_expense'', ''provision_for_income_taxes''] period)
              + or_zero (get_any_value facts
                  [''depreciation_and_amortization'', ''depreciation_amortization''] period)))"
proof (intro conjI impI)
  assume "period \<in> set periods"
  from fa_run_member[OF this, of facts] obtain fm kp m where
    run: "FinancialAgent_run facts periods = Inr (fm, kp)" and
    look: "map_of fm period = Some m" and
    base: "\<forall>k \<in> set fa_base_keys. mget m k = mget (fa_base_metrics facts period) k"
    by blast
  have "''ebitda'' \<in> set fa_base_keys" by (simp add: fa_base_keys_def)
  with base have "mget m ''ebitda'' = mget (fa_base_metrics facts period) ''ebitda''" by blast
  then have "mget m ''ebitda'' =
      fa_ebitda (get_for_period facts ''operating_income'' period)
        (get_for_period facts ''depreciation_amortization'' period)
        (get_for_period facts ''net_income'' period)"
    by (simp only: mget_base)
  with run look show "\<exists>fm kp m. FinancialAgent_run facts periods = Inr (fm, kp) \<and>
      map_of fm period = Some m \<and>
      mget m ''ebitda'' =
           (case get_for_period facts ''operating_income'' period of
              Some oi \<Rightarrow>
                (case get_for_period facts ''depreciation_amortization'' period of
                   Some da \<Rightarrow> Some (oi + da)
                 | None \<Rightarrow> Some oi)
            | None \<Rightarrow>
                (case get_for_period facts ''depreciation_amortization'' period of
                   Some da \<Rightarrow>
                     (case get_for_period facts ''net_income'' period of
                        Some ni \<Rightarrow> Some (ni + da)
                      | None \<Rightarrow> None)
                 | None \<Rightarrow> get_for_period facts ''net_income'' period))"
    by (simp only: fa_ebitda_cases) blast
next
  show "map_of (compute_metrics_for_period facts period) ''ebitda'' =
       (case get_value facts ''net_income'' period of
          None \<Rightarrow> None
        | Some ni \<Rightarrow>
            Some (ni
              + or_zero (get_any_value facts
                  [''interest_expense'', ''interest_and_other_expense'', ''interest_and_other'']
                  period)
              + or_zero (get_any_value facts
                  [''income_tax_expense'', ''provision_for_income_taxes''] period)
              + or_zero (get_any_value facts
                  [''depreciation_and_amortization'', ''depreciation_amortization''] period)))"
    by (rule fc_ebitda_lookup)
qed

theorem C5_ebitda_witness:
  "''P'' \<in> set [''P''] \<and>
   (\<exists>fm kp m. FinancialAgent_run facts_c5 [''P''] = Inr (fm, kp) \<and> map_of fm ''P'' = Some m \<and>
       mget m ''ebitda'' = Some 12) \<and>
   map_of (compute_metrics_for_period facts_c5 ''P'') ''ebitda'' = Some 7"
  using C5_ebitda[of "''P''" "[''P'']" facts_c5]
  by (simp add: facts_c5_def get_for_period_def get_value_def or_zero_def)

theorem C5_counterexample:
  "map_of (compute_metrics_for_period
      [(''operating_income'', [(''P'', 10)]),
       (''depreciation_amortization'', [(''P'', 2)]),
       (''net_income'', [(''P'', 5)])] ''P'') ''ebitda'' \<noteq> Some (10 + 2)"
  by (simp add: fc_ebitda_lookup get_value_def or_zero_def)

text \<open>
  C6 (as amended).  For every tracked metric and every period with an immediately preceding
  period, the FinancialAgent stores growth (current - previous) / |previous|, and
  \<open>financial_calcs._compute_yoy_growth\<close> stores (current - previous) / previous, without
  the absolute value; in both the growth is absent when either value is missing or the
  previous value is zero, and the first period has no growth entry.
\<close>

theorem C6_yoy_growth:
  "(distinct periods \<and> Suc i < length periods \<longrightarrow>
      (\<exists>fm kp m mp. FinancialAgent_run facts periods = Inr (fm, kp)
         \<and> map_of fm (periods ! Suc i) = Some m \<and> map_of fm (periods ! i) = Some mp
         \<and> (\<forall>kg \<in> set metrics_to_track.
               mget m (snd kg) =
                 (case mget m (fst kg) of
                    None \<Rightarrow> None
                  | Some c \<Rightarrow>
                      (case mget mp (fst kg) of
                         None \<Rightarrow> None
                       | Some p \<Rightarrow> if p = 0 then None else Some ((c - p) / \<bar>p\<bar>))))))
   \<and> (distinct periods \<and> periods \<noteq> [] \<longrightarrow>
      (\<exists>fm kp m. FinancialAgent_run facts periods = Inr (fm, kp)
         \<and> map_of fm (periods ! 0) = Some m
         \<and> (\<forall>kg \<in> set metrics_to_track. map_of m (snd kg) = None)))
   \<and> (distinct periods \<and> kg \<in> set metrics_to_track \<and> j < length periods \<longrightarrow>
      (\<exists>gm. map_of (compute_yoy_growth per_period periods) (snd kg) = Some gm \<and>
         map_of gm (sort periods ! j) =
           (if j = 0 then None
            else (case pp_get per_period (sort periods ! j) (fst kg) of
                    None \<Rightarrow> None
                  | Some c \<Rightarrow>
                      (case pp_get per_period (sort periods ! (j - 1)) (fst kg) of
                         None \<Rightarrow> None
                       | Some p \<Rightarrow> if p = 0 then None else Some ((c - p) / p))))))"
proof (intro conjI impI)
  assume "distinct periods \<and> Suc i < length periods"
  then have "distinct periods" "Suc i < length periods" by simp_all
  from fa_run_growth_full[OF this, of facts]
  show "\<exists>fm kp m mp. FinancialAgent_run facts periods = Inr (fm, kp)
         \<and> map_of fm (periods ! Suc i) = Some m \<and> map_of fm (periods ! i) = Some mp
         \<and> (\<forall>kg \<in> set metrics_to_track.
               mget m (snd kg) =
                 (case mget m (fst kg) of
                    None \<Rightarrow> None
                  | Some c \<Rightarrow>
                      (case mget mp (fst kg) of
                         None \<Rightarrow> None
                       | Some p \<Rightarrow> if p = 0 then None else Some ((c - p) / \<bar>p\<bar>))))"
    by (simp only: safe_growth_cases)
next
  assume "distinct periods \<and> periods \<noteq> []"
  then have "distinct periods" "periods \<noteq> []" by simp_all
  then show "\<exists>fm kp m. FinancialAgent_run facts periods = Inr (fm, kp)
         \<and> map_of fm (periods ! 0) = Some m
         \<and> (\<forall>kg \<in> set metrics_to_track. map_of m (snd kg) = None)"
    by (rule fa_run_first)
next
  assume "distinct periods \<and> kg \<in> set metrics_to_track \<and> j < length periods"
  then have "distinct periods" "kg \<in> set metrics_to_track" "j < length periods" by simp_all
  then show "\<exists>gm. map_of (compute_yoy_growth per_period periods) (snd kg) = Some gm \<and>
         map_of gm (sort periods ! j) =
           (if j = 0 then None
            else (case pp_get per_period (sort periods ! j) (fst kg) of
                    None \<Rightarrow> None
                  | Some c \<Rightarrow>
                      (case pp_get per_period (sort periods ! (j - 1)) (fst kg) of
                         None \<Rightarrow> None
                       | Some p \<Rightarrow> if p = 0 then None else Some ((c - p) / p))))"
    by (rule fc_yoy_at)
qed

theorem C6_yoy_growth_witness:
  "distinct [''P1'', ''P2''] \<and> Suc 0 < length [''P1'', ''P2''] \<and> [''P1'', ''P2''] \<noteq> []
   \<and> (''revenue'', ''revenue_growth'') \<in> set metrics_to_track
   \<and> (\<exists>fm kp m mp. FinancialAgent_run facts_c6 [''P1'', ''P2''] = Inr (fm, kp)
         \<and> map_of fm ''P2'' = Some m \<and> map_of fm ''P1'' = Some mp
         \<and> (\<forall>kg \<in> set metrics_to_track.
               mget m (snd kg) =
                 (case mget m (fst kg) of
                    None \<Rightarrow> None
                  | Some c \<Rightarrow>
                      (case mget mp (fst kg) of
                         None \<Rightarrow> None
                       | Some p \<Rightarrow> if p = 0 then None else Some ((c - p) / \<bar>p\<bar>)))))
   \<and> (\<exists>fm kp m. FinancialAgent_run facts_c6 [''P1'', ''P2''] = Inr (fm, kp)
         \<and> map_of fm ''P1'' = Some m
         \<and> (\<forall>kg \<in> set metrics_to_track. map_of m (snd kg) = None))
   \<and> (\<exists>gm. map_of (compute_yoy_growth per_period_c6 [''P1'', ''P2'']) ''revenue_growth'' = Some gm
         \<and> map_of gm ''P2'' = Some (3 / 10))"
  using C6_yoy_growth[of "[''P1'', ''P2'']" 0 facts_c6 "(''revenue'', ''revenue_growth'')" 1
      per_period_c6]
  by (simp add: metrics_to_track_def per_period_c6_def pp_get_def)

theorem C6_counterexample:
  "pp_get (cm_yoy (compute_core_metrics [(''net_income'', [(''P1'', - 100), (''P2'', - 50)])]))
      ''net_income_growth'' ''P2'' \<noteq> Some ((- 50 - (- 100)) / \<bar>- 100\<bar>)"
  by (simp add: compute_core_metrics_def collect_all_periods_def Let_def
        compute_yoy_growth_def metrics_to_track_def yoy_growth_map_def yoy_step_def
        idx_by_period_def pp_get_def compute_metrics_for_period_def set_if_def
        get_value_def add_if_present_def enumerate_eq_zip update_conv')

text \<open>
  C4 (as amended).  In the FinancialAgent every margin is \<open>None\<close> when revenue is zero or
  missing, and a growth rate is \<open>None\<close> when the previous value is zero or either value is
  missing.  In the ValuationAgent \<open>pe\<close> is \<open>None\<close> when net income is zero or missing and
  \<open>fcf_yield\<close> is \<open>None\<close> when the market capitalisation is zero or missing.  In
  \<open>financial_calcs\<close> a growth rate has no entry when the previous value is zero or either
  value is missing, and a margin has no entry when revenue is missing; when revenue is
  zero, however, \<open>safe_div\<close> returns 0.0 and every margin whose numerator is present is
  stored as 0.0.
\<close>

theorem C4_division_guard:
  "(period \<in> set periods \<and>
      (get_for_period facts ''revenue'' period = None \<or>
       get_for_period facts ''revenue'' period = Some 0) \<longrightarrow>
      (\<exists>fm kp m. FinancialAgent_run facts periods = Inr (fm, kp) \<and> map_of fm period = Some m
         \<and> mget m ''ebitda_margin'' = None \<and> mget m ''net_margin'' = None
         \<and> mget m ''fcf_margin'' = None))
   \<and> (cur = None \<or> prev = None \<or> prev = Some 0 \<longrightarrow> safe_growth cur prev = None)
   \<and> (mget (valuation_source_metrics st kp) ''net_income'' = None \<or>
       mget (valuation_source_metrics st kp) ''net_income'' = Some 0
         \<longrightarrow> vm_pe (valuation_for st kp) = None)
   \<and> (vm_market_cap (valuation_for st kp) = None \<or> vm_market_cap (valuation_for st kp) = Some 0
         \<longrightarrow> vm_fcf_yield (valuation_for st kp) = None)
   \<and> (get_any_value facts [''net_sales'', ''revenue''] period = None \<longrightarrow>
         (\<forall>k \<in> set fc_margin_keys. map_of (compute_metrics_for_period facts period) k = None))
   \<and> (get_any_value facts [''net_sales'', ''revenue''] period = Some 0 \<longrightarrow>
         map_of (compute_metrics_for_period facts period) ''gross_margin'' =
           (if get_value facts ''cost_of_sales'' period = None then None else Some 0)
       \<and> map_of (compute_metrics_for_period facts period) ''operating_margin'' =
           (if get_value facts ''operating_income'' period = None then None else Some 0)
       \<and> map_of (compute_metrics_for_period facts period) ''ebitda_margin'' =
           (if get_value facts ''net_income'' period = None then None else Some 0)
       \<and> map_of (compute_metrics_for_period facts period) ''net_margin'' =
           (if get_value facts ''net_income'' period = None then None else Some 0)
       \<and> map_of (compute_metrics_for_period facts period) ''fcf_margin'' =
           (if get_value facts ''operating_cash_flow'' period = None \<or>
               get_value facts ''capital_expenditures'' period = None then None else Some 0))
   \<and> (distinct ps \<and> kg \<in> set metrics_to_track \<and> j < length ps \<and>
       (j = 0 \<or> pp_get per_period (sort ps ! j) (fst kg) = None \<or>
        pp_get per_period (sort ps ! (j - 1)) (fst kg) = None \<or>
        pp_get per_period (sort ps ! (j - 1)) (fst kg) = Some 0) \<longrightarrow>
         (\<exists>gm. map_of (compute_yoy_growth per_period ps) (snd kg) = Some gm \<and>
            map_of gm (sort ps ! j) = None))"
proof -
  have 1: "period \<in> set periods \<and>
      (get_for_period facts ''revenue'' period = None \<or>
       get_for_period facts ''revenue'' period = Some 0) \<longrightarrow>
      (\<exists>fm kp m. FinancialAgent_run facts periods = Inr (fm, kp) \<and> map_of fm period = Some m
         \<and> mget m ''ebitda_margin'' = None \<and> mget m ''net_margin'' = None
         \<and> mget m ''fcf_margin'' = None)"
    using fa_margins_guard[of period periods facts] by blast
  have 2: "cur = None \<or> prev = None \<or> prev = Some 0 \<longrightarrow> safe_growth cur prev = None"
    using safe_growth_guard[of cur prev] by blast
  note 3 = valuation_guard[of st kp]
  have 4: "get_any_value facts [''net_sales'', ''revenue''] period = None \<longrightarrow>
         (\<forall>k \<in> set fc_margin_keys. map_of (compute_metrics_for_period facts period) k = None)"
    using fc_margins_missing_revenue[of facts period] by blast
  have 5: "get_any_value facts [''net_sales'', ''revenue''] period = Some 0 \<longrightarrow>
         map_of (compute_metrics_for_period facts period) ''gross_margin'' =
           (if get_value facts ''cost_of_sales'' period = None then None else Some 0)
       \<and> map_of (compute_metrics_for_period facts period) ''operating_margin'' =
           (if get_value facts ''operating_income'' period = None then None else Some 0)
       \<and> map_of (compute_metrics_for_period facts period) ''ebitda_margin'' =
           (if get_value facts ''net_income'' period = None then None else Some 0)
       \<and> map_of (compute_metrics_for_period facts period) ''net_margin'' =
           (if get_value facts ''net_income'' period = None then None else Some 0)
       \<and> map_of (compute_metrics_for_period facts period) ''fcf_margin'' =
           (if get_value facts ''operating_cash_flow'' period = None \<or>
               get_value facts ''capital_expenditures'' period = None then None else Some 0)"
    using fc_margins_zero_revenue[of facts period] by blast
  have 6: "distinct ps \<and> kg \<in> set metrics_to_track \<and> j < length ps \<and>
       (j = 0 \<or> pp_get per_period (sort ps ! j) (fst kg) = None \<or>
        pp_get per_period (sort ps ! (j - 1)) (fst kg) = None \<or>
        pp_get per_period (sort ps ! (j - 1)) (fst kg) = Some 0) \<longrightarrow>
         (\<exists>gm. map_of (compute_yoy_growth per_period ps) (snd kg) = Some gm \<and>
            map_of gm (sort ps ! j) = None)"
    using fc_yoy_guard[of ps kg j per_period] by blast
  from 1 2 3 4 5 6 show ?thesis by (intro conjI) (rule 1 2 4 5 6 conjunct1[OF 3] conjunct2[OF 3])+
qed

theorem C4_division_guard_witness:
  "''P'' \<in> set [''P''] \<and> get_for_period facts_c4 ''revenue'' ''P'' = Some 0
   \<and> get_any_value facts_c4 [''net_sales'', ''revenue''] ''P'' = Some 0
   \<and> distinct [''P1'', ''P2''] \<and> (''revenue'', ''revenue_growth'') \<in> set metrics_to_track
   \<and> (\<exists>fm kp m. FinancialAgent_run facts_c4 [''P''] = Inr (fm, kp) \<and> map_of fm ''P'' = Some m
         \<and> mget m ''ebitda_margin'' = None \<and> mget m ''net_margin'' = None
         \<and> mget m ''fcf_margin'' = None)
   \<and> safe_growth (Some 5) (Some 0) = None
   \<and> vm_pe (valuation_for st_empty ''P'') = None
   \<and> vm_fcf_yield (valuation_for st_empty ''P'') = None
   \<and> map_of (compute_metrics_for_period facts_c4 ''P'') ''gross_margin'' = None
   \<and> map_of (compute_metrics_for_period facts_c4 ''P'') ''net_margin'' = Some 0
   \<and> (\<exists>gm. map_of (compute_yoy_growth per_period_c6 [''P1'', ''P2'']) ''revenue_growth'' = Some gm
         \<and> map_of gm ''P1'' = None)"
  using C4_division_guard[of "''P''" "[''P'']" facts_c4 "Some 5" "Some 0" st_empty "''P''"
      "[''P1'', ''P2'']" "(''revenue'', ''revenue_growth'')" 0 per_period_c6]
  by (simp add: facts_c4_def get_for_period_def get_value_def metrics_to_track_def
        st_empty_def valuation_for_def valuation_source_metrics_def mget_def Let_def)

theorem C4_counterexample:
  "map_of (compute_metrics_for_period
      [(''revenue'', [(''P'', 0)]), (''net_income'', [(''P'', 5)])] ''P'') ''net_margin'' = Some 0"
  by (simp add: compute_metrics_for_period_def Let_def map_of_set_if safe_div_def get_value_def)

section \<open>Claims about fact extraction\<close>

text \<open>
  C1.  Every value the scanner stores for a concept and period is the parsed number of
  some inline fact of that concept and period, times the decimal scale (ten to the
  \<open>|decimals|\<close> for a negative \<open>decimals\<close>, one over ten to the \<open>decimals\<close> for a positive
  one, one when the attribute is absent or does not parse), times the unit scale (1000,
  10^6 or 10^9 when the lower-cased description of the fact's unit contains
  \<open>thousand\<close>, \<open>million\<close> or \<open>billion\<close>, else one).  This is for documents whose
  \<open>decimals\<close> stay below 309 in absolute value: from there on the float power of the
  source raises \<open>OverflowError\<close> and nothing is stored.  Values are real numbers.  Among
  the witness's facts is the one with \<open>decimals = -6\<close>, text \<open>648,125\<close> and a unit without
  hint, stored as 648125 * 10^6.
\<close>

theorem C1_scaled_value:
  assumes "lookup2 (raw_values_by_concept context_period_map unit_map soup) conc period = Some v"
    and "\<forall>t \<in> set soup. \<forall>d.
           (case tag_get t ''decimals'' of None \<Rightarrow> None | Some s \<Rightarrow> py_int s) = Some d
           \<longrightarrow> \<bar>d\<bar> < 309"
  shows "\<exists>t \<in> set soup. \<exists>number cr.
      tag_get t ''name'' = Some conc \<and> tag_get t ''contextref'' = Some cr
      \<and> map_of context_period_map cr = Some period
      \<and> safe_parse_number (get_text_strip t) = Some number
      \<and> v = number
            * (case tag_get t ''decimals'' of
                 None \<Rightarrow> 1
               | Some s \<Rightarrow>
                   (case py_int s of
                      None \<Rightarrow> 1
                    | Some d \<Rightarrow> if d < 0 then 10 ^ nat \<bar>d\<bar>
                                else if 0 < d then 1 / 10 ^ nat d else 1))
            * (let unit_ref = or_str (tag_get t ''unitref'') (or_str (tag_get t ''unitRef'') []);
                   unit_desc = lower (or_str (map_of unit_map unit_ref) unit_ref)
               in if contains ''thousand'' unit_desc then 1000
                  else if contains ''million'' unit_desc then 1000000
                  else if contains ''billion'' unit_desc then 1000000000
                  else 1)"
proof -
  let ?tags = "filter is_ix_nonfraction soup"
  have "lookup2 ([] :: (string, (string, real) dict) dict) conc period = None"
    by (simp add: lookup2_def)
  with assms(1) lookup2_scan_fold[of context_period_map unit_map ?tags "[]" conc period v]
  obtain t where t: "t \<in> set ?tags"
    and f: "fact_of_tag context_period_map unit_map t = Some (conc, period, v)"
    by (auto simp: raw_values_by_concept_def)
  from fact_of_tag_SomeD[OF f] obtain number cr where
    n: "tag_get t ''name'' = Some conc" and c: "tag_get t ''contextref'' = Some cr"
    and m: "map_of context_period_map cr = Some period"
    and p: "safe_parse_number (get_text_strip t) = Some number"
    and v: "v = number * scale_decimals (parse_decimals (tag_get t ''decimals''))
                   * scale_unit (unit_desc_of unit_map t)"
    by blast
  have u: "scale_unit (unit_desc_of unit_map t) =
      (let unit_ref = or_str (tag_get t ''unitref'') (or_str (tag_get t ''unitRef'') []);
           unit_desc = lower (or_str (map_of unit_map unit_ref) unit_ref)
       in if contains ''thousand'' unit_desc then 1000
          else if contains ''million'' unit_desc then 1000000
          else if contains ''billion'' unit_desc then 1000000000
          else 1)"
    by (simp add: scale_unit_def unit_desc_of_def unit_ref_of_def or_str_def Let_def
          split: option.splits)
  have ts: "t \<in> set soup" using t by simp
  have v': "v = number
            * (case tag_get t ''decimals'' of
                 None \<Rightarrow> 1
               | Some s \<Rightarrow>
                   (case py_int s of
                      None \<Rightarrow> 1
                    | Some d \<Rightarrow> if d < 0 then 10 ^ nat \<bar>d\<bar>
                                else if 0 < d then 1 / 10 ^ nat d else 1))
            * (let unit_ref = or_str (tag_get t ''unitref'') (or_str (tag_get t ''unitRef'') []);
                   unit_desc = lower (or_str (map_of unit_map unit_ref) unit_ref)
               in if contains ''thousand'' unit_desc then 1000
                  else if contains ''million'' unit_desc then 1000000
                  else if contains ''billion'' unit_desc then 1000000000
                  else 1)"
    using v unfolding scale_decimals_parse u .
  show ?thesis
    by (rule bexI[OF _ ts], rule exI[of _ number], rule exI[of _ cr], intro conjI)
       (rule n c m p v')+
qed

theorem C1_scaled_value_witness:
  "lookup2 (raw_values_by_concept contexts_c1 units_c1 soup_c1)
       ''us-gaap:Revenues'' ''2023-12-31'' = Some (648125 * 10 ^ 6)
   \<and> lookup2 (raw_values_by_concept contexts_c1 units_c1 soup_c1)
       ''us-gaap:NetIncomeLoss'' ''2023-12-31'' = Some (12 * 1000)
   \<and> lookup2 (raw_values_by_concept contexts_c1 units_c1 soup_c1)
       ''us-gaap:Assets'' ''2023-12-31'' = Some (150 / 10 ^ 2)
   \<and> get_for_period (extract_key_facts_from_ixbrl soup_c1 contexts_c1 units_c1)
       ''revenue'' ''2023-12-31'' = Some 648125000000
   \<and> (\<exists>t \<in> set soup_c1. \<exists>number cr.
      tag_get t ''name'' = Some ''us-gaap:NetIncomeLoss'' \<and> tag_get t ''contextref'' = Some cr
      \<and> map_of contexts_c1 cr = Some ''2023-12-31''
      \<and> safe_parse_number (get_text_strip t) = Some number
      \<and> (12000 :: real) = number
            * (case tag_get t ''decimals'' of
                 None \<Rightarrow> 1
               | Some s \<Rightarrow>
                   (case py_int s of
                      None \<Rightarrow> 1
                    | Some d \<Rightarrow> if d < 0 then 10 ^ nat \<bar>d\<bar>
                                else if 0 < d then 1 / 10 ^ nat d else 1))
            * (let unit_ref = or_str (tag_get t ''unitref'') (or_str (tag_get t ''unitRef'') []);
                   unit_desc = lower (or_str (map_of units_c1 unit_ref) unit_ref)
               in if contains ''thousand'' unit_desc then 1000
                  else if contains ''million'' unit_desc then 1000000
                  else if contains ''billion'' unit_desc then 1000000000
                  else 1))"
proof -
  have h: "lookup2 (raw_values_by_concept contexts_c1 units_c1 soup_c1)
       ''us-gaap:NetIncomeLoss'' ''2023-12-31'' = Some 12000"
    by (simp add: raw_c1 lookup2_def)
  have r: "lookup2 (raw_values_by_concept contexts_c1 units_c1 soup_c1)
       ''us-gaap:Revenues'' ''2023-12-31'' = Some (648125 * 10 ^ 6)"
    by (simp add: raw_c1 lookup2_def)
  have a: "lookup2 (raw_values_by_concept contexts_c1 units_c1 soup_c1)
       ''us-gaap:Assets'' ''2023-12-31'' = Some (150 / 10 ^ 2)"
    by (simp add: raw_c1 lookup2_def)
  have t: "get_for_period (extract_key_facts_from_ixbrl soup_c1 contexts_c1 units_c1)
       ''revenue'' ''2023-12-31'' = Some 648125000000"
    by (simp add: table_c1 get_for_period_def)
  have h': "lookup2 (raw_values_by_concept contexts_c1 units_c1 soup_c1)
       ''us-gaap:NetIncomeLoss'' ''2023-12-31'' = Some (12 * 1000)"
    using h by simp
  have b: "\<forall>t \<in> set soup_c1. \<forall>d.
           (case tag_get t ''decimals'' of None \<Rightarrow> None | Some s \<Rightarrow> py_int s) = Some d
           \<longrightarrow> \<bar>d\<bar> < 309"
    by (auto simp: soup_c1_def tag_c1_def tag_c1_thousands_def tag_c1_cents_def tag_get_def
          number_eval)
  from C1_scaled_value[OF h b] r h' a t show ?thesis by (intro conjI)
qed

text \<open>
  C2 (as amended).  For every canonical metric of the concept table and every period, the
  merged table holds at most one value: that of the last concept of the metric's list that
  reports the period (a concept listed later overrides one listed earlier), where the value
  a concept reports for a period is that of its last fact in document order.
\<close>

theorem C2_merge:
  assumes "(key, concept_list) \<in> set concept_map"
  shows "get_for_period (extract_key_facts_from_ixbrl soup context_period_map unit_map) key period
     = last_reporting (last_value (scanned_facts context_period_map unit_map soup))
         concept_list period"
proof -
  let ?raw = "raw_values_by_concept context_period_map unit_map soup"
  have wf: "inner_distinct ?raw" by (rule inner_distinct_raw)
  have eq: "lookup2 ?raw = last_value (scanned_facts context_period_map unit_map soup)"
    by (intro ext) (rule raw_last_value)
  have "get_for_period (fold (merge_step ?raw) concept_map []) key period =
      (if merge_concepts ?raw concept_list = [] then get_for_period [] key period
       else map_of (merge_concepts ?raw concept_list) period)"
    using concept_map_distinct assms by (rule merge_table_lookup)
  also have "\<dots> = map_of (merge_concepts ?raw concept_list) period"
    by (simp add: get_for_period_def)
  also have "\<dots> = last_reporting (lookup2 ?raw) concept_list period"
    using wf by (rule merge_concepts_lookup)
  finally show ?thesis
    by (simp only: extract_key_facts_from_ixbrl_def merge_table_def eq)
qed

theorem C2_merge_witness:
  "(''revenue'',
      [''us-gaap:Revenues'', ''us-gaap:SalesRevenueNet'',
       ''us-gaap:RevenueFromContractWithCustomerExcludingAssessedTax'']) \<in> set concept_map
   \<and> get_for_period
        (extract_key_facts_from_ixbrl
           [mk_fact ''us-gaap:Revenues'' ''c1'' ''120'',
            mk_fact ''us-gaap:Revenues'' ''c1'' ''100'',
            mk_fact ''us-gaap:SalesRevenueNet'' ''c1'' ''50'']
           [(''c1'', ''2023-12-31'')] [])
        ''revenue'' ''2023-12-31''
      = last_reporting
          (last_value (scanned_facts [(''c1'', ''2023-12-31'')] []
             [mk_fact ''us-gaap:Revenues'' ''c1'' ''120'',
              mk_fact ''us-gaap:Revenues'' ''c1'' ''100'',
              mk_fact ''us-gaap:SalesRevenueNet'' ''c1'' ''50'']))
          [''us-gaap:Revenues'', ''us-gaap:SalesRevenueNet'',
           ''us-gaap:RevenueFromContractWithCustomerExcludingAssessedTax'']
          ''2023-12-31''
   \<and> last_reporting
          (last_value (scanned_facts [(''c1'', ''2023-12-31'')] []
             [mk_fact ''us-gaap:Revenues'' ''c1'' ''120'',
              mk_fact ''us-gaap:Revenues'' ''c1'' ''100'',
              mk_fact ''us-gaap:SalesRevenueNet'' ''c1'' ''50'']))
          [''us-gaap:Revenues'', ''us-gaap:SalesRevenueNet'',
           ''us-gaap:RevenueFromContractWithCustomerExcludingAssessedTax'']
          ''2023-12-31'' = Some 50"
proof -
  have m: "(''revenue'',
      [''us-gaap:Revenues'', ''us-gaap:SalesRevenueNet'',
       ''us-gaap:RevenueFromContractWithCustomerExcludingAssessedTax'']) \<in> set concept_map"
    by (simp add: concept_map_def)
  have v: "last_reporting
          (last_value (scanned_facts [(''c1'', ''2023-12-31'')] []
             [mk_fact ''us-gaap:Revenues'' ''c1'' ''120'',
              mk_fact ''us-gaap:Revenues'' ''c1'' ''100'',
              mk_fact ''us-gaap:SalesRevenueNet'' ''c1'' ''50'']))
          [''us-gaap:Revenues'', ''us-gaap:SalesRevenueNet'',
           ''us-gaap:RevenueFromContractWithCustomerExcludingAssessedTax'']
          ''2023-12-31'' = Some 50"
    by (simp add: last_reporting_def last_value_def scanned_facts_def map_filter_simps
          mk_fact_nonfraction mk_fact_eval)
  from C2_merge[OF m] m v show ?thesis by blast
qed

text \<open>
  Against the claim as stated: with revenue concepts A then B reporting one period as 100
  and 50, the table does not hold A's 100 (it holds 50); with two facts of one concept
  for one period, 120 then 100, it does not hold the maximum 120 (it holds 100).
\<close>

theorem C2_counterexample:
  "get_for_period
     (extract_key_facts_from_ixbrl
        [mk_fact ''us-gaap:Revenues'' ''c1'' ''100'',
         mk_fact ''us-gaap:SalesRevenueNet'' ''c1'' ''50'']
        [(''c1'', ''2023-12-31'')] [])
     ''revenue'' ''2023-12-31'' = Some 50
   \<and> get_for_period
     (extract_key_facts_from_ixbrl
        [mk_fact ''us-gaap:Revenues'' ''c1'' ''100'',
         mk_fact ''us-gaap:SalesRevenueNet'' ''c1'' ''50'']
        [(''c1'', ''2023-12-31'')] [])
     ''revenue'' ''2023-12-31'' \<noteq> Some 100
   \<and> get_for_period
     (extract_key_facts_from_ixbrl
        [mk_fact ''us-gaap:Revenues'' ''c1'' ''120'',
         mk_fact ''us-gaap:Revenues'' ''c1'' ''100'']
        [(''c1'', ''2023-12-31'')] [])
     ''revenue'' ''2023-12-31'' \<noteq> Some (max 120 100)"
  by (simp add: merge_eval Let_def)




section \<open>Claims about section retrieval\<close>

text \<open>
  C9.  In the lexical fallback the score of a section is the number of question tokens
  that are also tokens of the section, divided by the number of question tokens.  The
  tokens of a text are the maximal runs of letters and digits of the case-folded text;
  the tokens of a section are those of its label (its title when it has no label), a
  space, and the first 2000 characters of its text.  The result lists sections in
  descending order of score; each has a score of at least the minimum score and above
  zero; at most \<open>top_k\<close> sections are returned, and a qualifying section is left out only
  when \<open>top_k\<close> sections that score at least as much are in; a section with no token in
  common with the question is never returned, whatever \<open>top_k\<close> is.
\<close>

theorem C9_fallback_ranking:
  assumes "distinct (map fst idx)"
  shows "(spec_tokens question \<noteq> [] \<longrightarrow>
       (\<forall>sm \<in> set idx. score_section_for_question question (snd sm) =
          real (card (set (spec_tokens question)
                  \<inter> set (spec_tokens
                          (or_str (sec_label (snd sm)) (or_str (sec_title (snd sm)) [])
                            @ '' '' @ take 2000 (or_str (sec_text (snd sm)) [])))))
            / real (card (set (spec_tokens question)))))
   \<and> sorted (map (\<lambda>sm. - score_section_for_question question (snd sm))
        (fallback_sections_for_question question idx top_k min_score))
   \<and> (\<forall>sm \<in> set (fallback_sections_for_question question idx top_k min_score).
        sm \<in> set idx \<and> min_score \<le> score_section_for_question question (snd sm)
        \<and> 0 < score_section_for_question question (snd sm))
   \<and> (0 < top_k \<longrightarrow>
        length (fallback_sections_for_question question idx top_k min_score) \<le> top_k)
   \<and> (\<forall>sm \<in> set idx.
        min_score \<le> score_section_for_question question (snd sm)
        \<and> 0 < score_section_for_question question (snd sm)
        \<and> fst sm \<notin> fst ` set (fallback_sections_for_question question idx top_k min_score)
        \<longrightarrow> length (fallback_sections_for_question question idx top_k min_score) = max top_k 1
           \<and> (\<forall>r \<in> set (fallback_sections_for_question question idx top_k min_score).
                 score_section_for_question question (snd sm)
                   \<le> score_section_for_question question (snd r)))
   \<and> (\<forall>sm \<in> set idx.
        set (spec_tokens question)
          \<inter> set (spec_tokens
                  (or_str (sec_label (snd sm)) (or_str (sec_title (snd sm)) [])
                    @ '' '' @ take 2000 (or_str (sec_text (snd sm)) []))) = {}
        \<longrightarrow> fst sm \<notin> fst ` set (fallback_sections_for_question question idx top_k min_score))"
proof -
  have A: "spec_tokens question \<noteq> [] \<longrightarrow>
       (\<forall>sm \<in> set idx. score_section_for_question question (snd sm) =
          real (card (set (spec_tokens question)
                  \<inter> set (spec_tokens
                          (or_str (sec_label (snd sm)) (or_str (sec_title (snd sm)) [])
                            @ '' '' @ take 2000 (or_str (sec_text (snd sm)) [])))))
            / real (card (set (spec_tokens question))))"
    using score_formula[of question]
    unfolding section_tokens_spec normalize_text_spec by blast
  have B: "sorted (map (\<lambda>sm. - score_section_for_question question (snd sm))
        (fallback_sections_for_question question idx top_k min_score))"
    using assms by (rule fallback_sorted)
  have C: "\<forall>sm \<in> set (fallback_sections_for_question question idx top_k min_score).
        sm \<in> set idx \<and> min_score \<le> score_section_for_question question (snd sm)
        \<and> 0 < score_section_for_question question (snd sm)"
    using fallback_members[OF assms] by blast
  have D: "0 < top_k \<longrightarrow>
        length (fallback_sections_for_question question idx top_k min_score) \<le> top_k"
    using fallback_length[OF assms] by blast
  have E: "\<forall>sm \<in> set idx.
        min_score \<le> score_section_for_question question (snd sm)
        \<and> 0 < score_section_for_question question (snd sm)
        \<and> fst sm \<notin> fst ` set (fallback_sections_for_question question idx top_k min_score)
        \<longrightarrow> length (fallback_sections_for_question question idx top_k min_score) = max top_k 1
           \<and> (\<forall>r \<in> set (fallback_sections_for_question question idx top_k min_score).
                 score_section_for_question question (snd sm)
                   \<le> score_section_for_question question (snd r))"
    using fallback_best[OF assms] by blast
  have F: "\<forall>sm \<in> set idx.
        set (spec_tokens question)
          \<inter> set (spec_tokens
                  (or_str (sec_label (snd sm)) (or_str (sec_title (snd sm)) [])
                    @ '' '' @ take 2000 (or_str (sec_text (snd sm)) []))) = {}
        \<longrightarrow> fst sm \<notin> fst ` set (fallback_sections_for_question question idx top_k min_score)"
    using fallback_zero_overlap[OF assms, of _ question top_k min_score]
    unfolding section_tokens_spec normalize_text_spec by blast
  show ?thesis by (intro conjI) (rule A B C D E F)+
qed

theorem C9_fallback_ranking_witness:
  "distinct (map fst idx_c9)
   \<and> spec_tokens question_c9 =
       [''what'', ''are'', ''the'', ''supply'', ''chain'', ''risk'', ''factors'']
   \<and> score_section_for_question question_c9
       \<lparr>sec_label = Some ''Item 1A. Risk Factors'', sec_title = Some ''unused'',
        sec_text = Some ''The Company's supply chain is exposed.''\<rparr> = 5 / 7
   \<and> score_section_for_question question_c9
       \<lparr>sec_label = None, sec_title = Some ''SUPPLY (Factors)'', sec_text = Some []\<rparr> = 2 / 7
   \<and> score_section_for_question question_c9
       \<lparr>sec_label = Some ''Item 7A. Market Risk'', sec_title = None, sec_text = None\<rparr> = 1 / 7
   \<and> ''item_1'' \<notin> fst ` set (qa_fallback question_c9 idx_c9)
   \<and> length (qa_fallback question_c9 idx_c9) \<le> 5
   \<and> map fst (qa_fallback question_c9 idx_c9) = [''item_1a'', ''overview'']"
proof -
  let ?m1 = "\<lparr>sec_label = Some ''Item 1. Business'', sec_title = None,
        sec_text = Some ''We design, manufacture and market smartphones.''\<rparr>"
  let ?m1a = "\<lparr>sec_label = Some ''Item 1A. Risk Factors'', sec_title = Some ''unused'',
        sec_text = Some ''The Company's supply chain is exposed.''\<rparr>"
  let ?mo = "\<lparr>sec_label = None, sec_title = Some ''SUPPLY (Factors)'', sec_text = Some []\<rparr>"
  let ?m7a = "\<lparr>sec_label = Some ''Item 7A. Market Risk'', sec_title = None, sec_text = None\<rparr>"
  have d: "distinct (map fst idx_c9)" by (simp add: idx_c9_def)
  note T = C9_fallback_ranking[OF d, of question_c9 5 "15 / 100", folded qa_fallback_def]
  have mem: "(''item_1'', ?m1) \<in> set idx_c9" "(''item_1a'', ?m1a) \<in> set idx_c9"
    "(''overview'', ?mo) \<in> set idx_c9" "(''item_7a'', ?m7a) \<in> set idx_c9"
    by (simp_all add: idx_c9_def)
  have q: "spec_tokens question_c9 \<noteq> []" by (simp add: tokens_c9)
  from T q have S: "\<forall>sm \<in> set idx_c9. score_section_for_question question_c9 (snd sm) =
          real (card (set (spec_tokens question_c9)
                  \<inter> set (spec_tokens
                          (or_str (sec_label (snd sm)) (or_str (sec_title (snd sm)) [])
                            @ '' '' @ take 2000 (or_str (sec_text (snd sm)) [])))))
            / real (card (set (spec_tokens question_c9)))" by blast
  have s1: "score_section_for_question question_c9 ?m1a = 5 / 7"
    using bspec[OF S mem(2)] by (simp add: or_str_def tokens_c9[simplified])
  have s2: "score_section_for_question question_c9 ?mo = 2 / 7"
    using bspec[OF S mem(3)] by (simp add: or_str_def tokens_c9[simplified])
  have s3: "score_section_for_question question_c9 ?m7a = 1 / 7"
    using bspec[OF S mem(4)] by (simp add: or_str_def tokens_c9[simplified])
  have ov: "set (spec_tokens question_c9)
          \<inter> set (spec_tokens
                  (or_str (sec_label (snd (''item_1'', ?m1)))
                     (or_str (sec_title (snd (''item_1'', ?m1))) [])
                    @ '' '' @ take 2000 (or_str (sec_text (snd (''item_1'', ?m1))) []))) = {}"
    by (simp add: or_str_def tokens_c9[simplified])
  from T have Z: "\<forall>sm \<in> set idx_c9.
        set (spec_tokens question_c9)
          \<inter> set (spec_tokens
                  (or_str (sec_label (snd sm)) (or_str (sec_title (snd sm)) [])
                    @ '' '' @ take 2000 (or_str (sec_text (snd sm)) []))) = {}
        \<longrightarrow> fst sm \<notin> fst ` set (qa_fallback question_c9 idx_c9)" by (elim conjE)
  from bspec[OF Z mem(1)] ov
  have 1: "fst (''item_1'', ?m1) \<notin> fst ` set (qa_fallback question_c9 idx_c9)"
    by blast
  from T have "0 < (5::nat) \<longrightarrow> length (qa_fallback question_c9 idx_c9) \<le> 5"
    by (elim conjE)
  then have 2: "length (qa_fallback question_c9 idx_c9) \<le> 5" by simp
  from 1 have i1: "''item_1'' \<notin> fst ` set (qa_fallback question_c9 idx_c9)" by simp
  from d tokens_c9(1) s1 s2 s3 i1 2 result_c9 show ?thesis by (intro conjI)
qed

section \<open>Claims about the section map\<close>

text \<open>
  C10.  Whenever at least one heading is detected, the section index has an entry for
  every id of the static catalogue; the entry of a catalogued section that was not
  detected has \<open>present_in_document = False\<close> and \<open>approx_char_len = None\<close>; every detected
  id outside the catalogue has an entry with section type \<open>other\<close> and
  \<open>present_in_document = True\<close>.
\<close>

theorem C10_sections_index:
  assumes "find_item_headings full_text \<noteq> []"
  shows "catalogue_ids = map fst static_catalogue
   \<and> (\<forall>sid \<in> set catalogue_ids.
        \<exists>e. map_of (sm_sections_index (build_10k_section_map full_text)) sid = Some e
          \<and> (sid \<notin> h_section_id ` set (find_item_headings full_text) \<longrightarrow>
               \<not> e_present_in_document e \<and> e_approx_char_len e = None))
   \<and> (\<forall>h \<in> set (find_item_headings full_text).
        h_section_id h \<notin> set catalogue_ids \<longrightarrow>
          (\<exists>e. map_of (sm_sections_index (build_10k_section_map full_text)) (h_section_id h)
                  = Some e
             \<and> e_section_type e = ''other'' \<and> e_present_in_document e))"
proof -
  let ?M = "build_10k_section_map full_text"
  let ?sbi = "sm_sections_by_id ?M"
  note idx = index_of_map[OF assms]
  note det = detected_ids[OF assms]
  have A: "catalogue_ids = map fst static_catalogue"
    by (simp add: catalogue_ids_def static_catalogue_def)
  have B: "\<forall>sid \<in> set catalogue_ids.
        \<exists>e. map_of (sm_sections_index ?M) sid = Some e
          \<and> (sid \<notin> h_section_id ` set (find_item_headings full_text) \<longrightarrow>
               \<not> e_present_in_document e \<and> e_approx_char_len e = None)"
  proof
    fix sid assume "sid \<in> set catalogue_ids"
    from index_catalogue[OF this, of ?sbi] obtain e where
      e: "map_of (build_sections_index ?sbi) sid = Some e"
      and a: "map_of ?sbi sid = None \<longrightarrow> \<not> e_present_in_document e \<and> e_approx_char_len e = None"
      by auto
    have "sid \<notin> h_section_id ` set (find_item_headings full_text) \<longrightarrow> map_of ?sbi sid = None"
      using det[of sid] by auto
    with a have "sid \<notin> h_section_id ` set (find_item_headings full_text) \<longrightarrow>
        \<not> e_present_in_document e \<and> e_approx_char_len e = None" by auto
    with e show "\<exists>e. map_of (sm_sections_index ?M) sid = Some e
          \<and> (sid \<notin> h_section_id ` set (find_item_headings full_text) \<longrightarrow>
               \<not> e_present_in_document e \<and> e_approx_char_len e = None)"
      unfolding idx by (intro exI[of _ e] conjI)
  qed
  have C: "\<forall>h \<in> set (find_item_headings full_text).
        h_section_id h \<notin> set catalogue_ids \<longrightarrow>
          (\<exists>e. map_of (sm_sections_index ?M) (h_section_id h) = Some e
             \<and> e_section_type e = ''other'' \<and> e_present_in_document e)"
  proof (intro ballI impI)
    fix h assume h: "h \<in> set (find_item_headings full_text)"
      and n: "h_section_id h \<notin> set catalogue_ids"
    from h have "h_section_id h \<in> h_section_id ` set (find_item_headings full_text)"
      by (rule imageI)
    then have "map_of ?sbi (h_section_id h) \<noteq> None" by (simp only: det)
    from index_extra[OF this n] show "\<exists>e. map_of (sm_sections_index ?M) (h_section_id h) = Some e
             \<and> e_section_type e = ''other'' \<and> e_present_in_document e"
      unfolding idx .
  qed
  show ?thesis by (intro conjI) (rule A B C)+
qed

theorem C10_sections_index_witness:
  "find_item_headings text_c10 \<noteq> []
   \<and> (\<exists>e. map_of (sm_sections_index (build_10k_section_map text_c10)) ''item_1b'' = Some e
          \<and> \<not> e_present_in_document e \<and> e_approx_char_len e = None)
   \<and> (\<exists>e. map_of (sm_sections_index (build_10k_section_map text_c10)) ''item_17'' = Some e
          \<and> e_section_type e = ''other'' \<and> e_present_in_document e)"
proof -
  have ne: "find_item_headings text_c10 \<noteq> []" by (simp add: headings_c10)
  note T = C10_sections_index[OF ne]
  have c: "''item_1b'' \<in> set catalogue_ids" by (simp add: catalogue_ids_def)
  have a: "''item_1b'' \<notin> h_section_id ` set (find_item_headings text_c10)"
    by (simp add: headings_c10)
  let ?h = "\<lparr>h_start = 28, h_end = 42, h_section_number = ''17'',
       h_heading = ''Item 17. Extra'', h_section_id = ''item_17''\<rparr>"
  have h: "?h \<in> set (find_item_headings text_c10)" by (simp add: headings_c10)
  have n: "h_section_id ?h \<notin> set catalogue_ids" by (simp add: catalogue_ids_def)
  from T c a have 1: "\<exists>e. map_of (sm_sections_index (build_10k_section_map text_c10)) ''item_1b''
      = Some e \<and> \<not> e_present_in_document e \<and> e_approx_char_len e = None"
    by auto
  from T h n have "\<exists>e. map_of (sm_sections_index (build_10k_section_map text_c10))
      (h_section_id ?h) = Some e \<and> e_section_type e = ''other'' \<and> e_present_in_document e"
    by auto
  then have 2: "\<exists>e. map_of (sm_sections_index (build_10k_section_map text_c10)) ''item_17''
      = Some e \<and> e_section_type e = ''other'' \<and> e_present_in_document e"
    by simp
  from ne 1 2 show ?thesis by (intro conjI)
qed

text \<open>
  C8.  The code at a text with the headings \<open>Item 1A.\<close> and \<open>Item 1B.\<close> on lines of their
  own: only \<open>Item 1A.\<close> is detected, because the optional letter of the pattern is the
  class \<open>[a]\<close>; there is no \<open>item_1b\<close> section, and the text of \<open>item_1a\<close> runs to the end
  of the document, through \<open>Item 1B.\<close> and its body.
\<close>

theorem C8_item_1b_not_detected:
  "map h_section_id (find_item_headings text_c8) = [''item_1a'']
   \<and> map_of (sm_sections_by_id (build_10k_section_map text_c8)) ''item_1b'' = None
   \<and> map_option c_text (map_of (sm_sections_by_id (build_10k_section_map text_c8)) ''item_1a'')
       = Some (''Item 1A. Risk Factors'' @ [CHR 0x0A] @ ''body1'' @ [CHR 0x0A] @
               ''Item 1B. Unresolved Staff Comments'' @ [CHR 0x0A] @ ''body2'')"
  by (simp add: headings_c8 map_c8) (simp add: text_c8_def)

end
